theory Spec2Isabelle
  imports Main "HOL-Library.Sublist"
begin

section \<open>JavaScript strings\<close>

text \<open>
  A JavaScript string is modelled as a \<^typ>\<open>string\<close>, one \<^typ>\<open>char\<close> per code unit
  (code units up to 255). The white space that \<^verbatim>\<open>String.prototype.trim\<close> removes is, in
  that range: TAB, LF, VT, FF, CR, SPACE and NBSP.
\<close>

definition isWhiteSpace :: "char \<Rightarrow> bool" where
  "isWhiteSpace c = (c \<in> set [CHR 0x09, CHR 0x0A, CHR 0x0B, CHR 0x0C, CHR 0x0D, CHR 0x20, CHR 0xA0])"

text \<open>\<^verbatim>\<open>s.trim()\<close>\<close>

definition trim :: "string \<Rightarrow> string" where
  "trim s = rev (dropWhile isWhiteSpace (rev (dropWhile isWhiteSpace s)))"

text \<open>\<^verbatim>\<open>s.startsWith(p)\<close>, \<^verbatim>\<open>s.endsWith(p)\<close>\<close>

definition startsWith :: "string \<Rightarrow> string \<Rightarrow> bool" where
  "startsWith s p = (take (length p) s = p)"

definition endsWith :: "string \<Rightarrow> string \<Rightarrow> bool" where
  "endsWith s p = (length p \<le> length s \<and> drop (length s - length p) s = p)"

text \<open>\<^verbatim>\<open>s.includes(t)\<close>: \<open>t\<close> occurs in \<open>s\<close> at some position.\<close>

fun includesStr :: "string \<Rightarrow> string \<Rightarrow> bool" where
  "includesStr [] t = (t = [])"
| "includesStr (c # s) t = (startsWith (c # s) t \<or> includesStr s t)"

text \<open>\<^verbatim>\<open>a ?? b\<close>: the left operand unless it is \<^verbatim>\<open>undefined\<close> or \<^verbatim>\<open>null\<close>.\<close>

definition nullish :: "'a option \<Rightarrow> 'a \<Rightarrow> 'a" where
  "nullish a b = (case a of None \<Rightarrow> b | Some v \<Rightarrow> v)"

section \<open>Grounding metadata (types.ts, parseGroundingChunks)\<close>

text \<open>
  The SDK's \<^verbatim>\<open>GroundingChunk\<close>: optional \<^verbatim>\<open>web\<close> and \<^verbatim>\<open>maps\<close> members, whose
  \<^verbatim>\<open>title\<close>, \<^verbatim>\<open>uri\<close> and \<^verbatim>\<open>placeId\<close> are optional as well.
\<close>

record GroundingChunkWeb =
  web_title :: "string option"
  web_uri :: "string option"

record GroundingChunkMaps =
  maps_title :: "string option"
  maps_uri :: "string option"
  maps_placeId :: "string option"

record GroundingChunk =
  chunk_web :: "GroundingChunkWeb option"
  chunk_maps :: "GroundingChunkMaps option"

record GroundingSource =
  title :: string
  uri :: string

record MapGroundingSource = GroundingSource +
  placeId :: "string option"

record GroundingMetadata =
  web :: "GroundingSource list"
  maps :: "MapGroundingSource list"

text \<open>The body of the \<^verbatim>\<open>forEach\<close> callback: both tests run for every chunk.\<close>

definition pushChunk :: "GroundingMetadata \<Rightarrow> GroundingChunk \<Rightarrow> GroundingMetadata" where
  "pushChunk metadata chunk =
     (let m1 = (case chunk_web chunk of
                  None \<Rightarrow> metadata
                | Some w \<Rightarrow> metadata\<lparr>web := web metadata @
                    [\<lparr>title = nullish (web_title w) ''Untitled'',
                      uri = nullish (web_uri w) []\<rparr>]\<rparr>)
      in (case chunk_maps chunk of
            None \<Rightarrow> m1
          | Some p \<Rightarrow> m1\<lparr>maps := maps m1 @
              [\<lparr>title = nullish (maps_title p) ''Untitled'',
                uri = nullish (maps_uri p) [],
                placeId = maps_placeId p\<rparr>]\<rparr>))"

text \<open>
  \<^verbatim>\<open>parseGroundingChunks\<close>: \<open>None\<close> as argument is \<^verbatim>\<open>undefined\<close>, \<open>None\<close> as result
  is \<^verbatim>\<open>null\<close>.
\<close>

definition parseGroundingChunks :: "GroundingChunk list option \<Rightarrow> GroundingMetadata option" where
  "parseGroundingChunks chunks =
     (case chunks of
        None \<Rightarrow> None
      | Some cs \<Rightarrow>
          if length cs = 0 then None
          else Some (foldl pushChunk \<lparr>web = [], maps = []\<rparr> cs))"

text \<open>A web chunk: a chunk that has the \<^verbatim>\<open>web\<close> member and not the \<^verbatim>\<open>maps\<close> member.\<close>

definition isWebChunk :: "GroundingChunk \<Rightarrow> bool" where
  "isWebChunk c = (chunk_web c \<noteq> None \<and> chunk_maps c = None)"

section \<open>Failures\<close>

text \<open>
  What a \<^verbatim>\<open>throw\<close> or a rejected promise carries: an instance of \<^verbatim>\<open>Error\<close> (or of a
  subclass) with its \<^verbatim>\<open>message\<close>, or any other value.
\<close>

datatype Thrown = Error string | NonError

text \<open>The messages of the errors the gateway constructs, under the names of the taxonomy.\<close>

definition ConfigurationError :: Thrown where
  "ConfigurationError = Error ''API_KEY environment variable not found.''"

definition NoContentGenerated :: Thrown where
  "NoContentGenerated = Error ''No image was generated.''"

definition GenerationFailed :: Thrown where
  "GenerationFailed = Error ''Video generation failed or returned no URI.''"

definition DownloadFailed :: Thrown where
  "DownloadFailed = Error ''Failed to fetch generated video.''"

definition PlanFormatError :: Thrown where
  "PlanFormatError = Error
     ''Could not generate a valid marketing plan. The response from the AI was not in the expected JSON format.''"

definition AnalysisFormatError :: Thrown where
  "AnalysisFormatError = Error
     ''Could not generate a valid analysis. The response from the AI was not in the expected JSON format.''"

definition RecommendationsFormatError :: Thrown where
  "RecommendationsFormatError = Error
     ''Could not generate valid recommendations. The response from the AI was not in the expected JSON format.''"

text \<open>
  \<^verbatim>\<open>getApiKey\<close>: the argument is \<^verbatim>\<open>process.env.API_KEY\<close>; \<^verbatim>\<open>!key\<close> holds for
  \<^verbatim>\<open>undefined\<close> and for the empty string.
\<close>

definition getApiKey :: "string option \<Rightarrow> Thrown + string" where
  "getApiKey API_KEY =
     (case API_KEY of
        None \<Rightarrow> Inl ConfigurationError
      | Some key \<Rightarrow> if key = [] then Inl ConfigurationError else Inr key)"

section \<open>Parsed JSON\<close>

text \<open>
  The values \<^verbatim>\<open>JSON.parse\<close> produces; \<^typ>\<open>'n\<close> is the type of numbers, which no
  function here inspects. An object lists its members in order. \<^verbatim>\<open>JSON.parse\<close> itself is
  a builtin of the host: the functions that call it take it as the parameter \<open>parse\<close>,
  \<open>None\<close> standing for the \<^verbatim>\<open>SyntaxError\<close> it throws.
\<close>

datatype 'n json =
    JNull
  | JBool bool
  | JNumber 'n
  | JString string
  | JArray "'n json list"
  | JObject "(string \<times> 'n json) list"

text \<open>
  Reading the member \<open>k\<close> of a parsed value: a \<^verbatim>\<open>TypeError\<close> on \<^verbatim>\<open>null\<close> (outer
  \<open>None\<close>), \<^verbatim>\<open>undefined\<close> (inner \<open>None\<close>) where the value has no such member.
\<close>

definition readMember :: "'n json \<Rightarrow> string \<Rightarrow> 'n json option option" where
  "readMember j k =
     (case j of
        JNull \<Rightarrow> None
      | JObject kvs \<Rightarrow> Some (map_of kvs k)
      | _ \<Rightarrow> Some None)"

section \<open>Responses of the SDK\<close>

text \<open>
  The parts of the SDK's response types that the gateway reads. Every member is optional
  in the SDK's declarations; \<open>None\<close> is \<^verbatim>\<open>undefined\<close>.
\<close>

record InlineData =
  blob_data :: "string option"
  blob_mimeType :: "string option"

record Part =
  inlineData :: "InlineData option"
  part_text :: "string option"

record Content =
  parts :: "Part list option"

record CandidateGrounding =
  groundingChunks :: "GroundingChunk list option"

record Candidate =
  cand_content :: "Content option"
  cand_groundingMetadata :: "CandidateGrounding option"

record GenerateContentResponse =
  response_text :: "string option"
  candidates :: "Candidate list option"

text \<open>\<^verbatim>\<open>response.candidates?.[0]?.groundingMetadata?.groundingChunks\<close>\<close>

definition responseChunks :: "GenerateContentResponse \<Rightarrow> GroundingChunk list option" where
  "responseChunks response =
     (case candidates response of
        None \<Rightarrow> None
      | Some [] \<Rightarrow> None
      | Some (c # _) \<Rightarrow>
          (case cand_groundingMetadata c of
             None \<Rightarrow> None
           | Some g \<Rightarrow> groundingChunks g))"

section \<open>Plans and recommendations (generateMarketingPlan, generateMarketAnalysis, getPostingRecommendations)\<close>

text \<open>
  The statements between \<^verbatim>\<open>let responseText = response.text.trim()\<close> and the call of
  \<^verbatim>\<open>JSON.parse\<close>: \<^verbatim>\<open>slice(7)\<close> drops seven code units, \<^verbatim>\<open>slice(0, -3)\<close> keeps all
  but the last three.
\<close>

definition stripJsonFence :: "string \<Rightarrow> string" where
  "stripJsonFence text0 =
     (let responseText = trim text0 in
      if startsWith responseText ''```json'' then
        (let responseText1 = trim (drop 7 responseText) in
         if endsWith responseText1 ''```''
         then trim (take (length responseText1 - 3) responseText1)
         else responseText1)
      else responseText)"

record 'n PlanResult =
  plan :: "'n json"
  groundingMetadata :: "GroundingMetadata option"

text \<open>
  The second and third arguments are the environment's \<^verbatim>\<open>API_KEY\<close> and what the awaited
  \<^verbatim>\<open>ai.models.generateContent\<close> call came to: a rejection or a response (the prompt
  sent has no part in how the response is handled, and is left out). Inside the
  \<^verbatim>\<open>try\<close>, \<^verbatim>\<open>response.text.trim()\<close> throws on an absent text and \<^verbatim>\<open>JSON.parse\<close>
  on a text that is not JSON; the \<^verbatim>\<open>catch\<close> replaces either by the format error. The
  \<^verbatim>\<open>as MarketingPlanResponse\<close> cast has no effect at run time.
\<close>

definition generateMarketingPlan ::
  "(string \<Rightarrow> 'n json option) \<Rightarrow> string option \<Rightarrow> Thrown + GenerateContentResponse
     \<Rightarrow> Thrown + 'n PlanResult" where
  "generateMarketingPlan parse API_KEY outcome =
     (case getApiKey API_KEY of
        Inl e \<Rightarrow> Inl e
      | Inr _ \<Rightarrow>
          (case outcome of
             Inl e \<Rightarrow> Inl e
           | Inr response \<Rightarrow>
               (case response_text response of
                  None \<Rightarrow> Inl PlanFormatError
                | Some t \<Rightarrow>
                    (case parse (stripJsonFence t) of
                       None \<Rightarrow> Inl PlanFormatError
                     | Some p \<Rightarrow>
                         Inr \<lparr>plan = p,
                              groundingMetadata = parseGroundingChunks (responseChunks response)\<rparr>))))"

definition generateMarketAnalysis ::
  "(string \<Rightarrow> 'n json option) \<Rightarrow> string option \<Rightarrow> Thrown + GenerateContentResponse
     \<Rightarrow> Thrown + 'n PlanResult" where
  "generateMarketAnalysis parse API_KEY outcome =
     (case getApiKey API_KEY of
        Inl e \<Rightarrow> Inl e
      | Inr _ \<Rightarrow>
          (case outcome of
             Inl e \<Rightarrow> Inl e
           | Inr response \<Rightarrow>
               (case response_text response of
                  None \<Rightarrow> Inl AnalysisFormatError
                | Some t \<Rightarrow>
                    (case parse (stripJsonFence t) of
                       None \<Rightarrow> Inl AnalysisFormatError
                     | Some p \<Rightarrow>
                         Inr \<lparr>plan = p,
                              groundingMetadata = parseGroundingChunks (responseChunks response)\<rparr>))))"

text \<open>
  \<^verbatim>\<open>getPostingRecommendations\<close> returns \<^verbatim>\<open>parsedJson.recommendations\<close> as it finds it:
  \<open>Inr None\<close> is the result \<^verbatim>\<open>undefined\<close>. The \<^verbatim>\<open>TypeError\<close> of reading a member of
  \<^verbatim>\<open>null\<close> is raised inside the \<^verbatim>\<open>try\<close>.
\<close>

definition getPostingRecommendations ::
  "(string \<Rightarrow> 'n json option) \<Rightarrow> string option \<Rightarrow> Thrown + GenerateContentResponse
     \<Rightarrow> Thrown + 'n json option" where
  "getPostingRecommendations parse API_KEY outcome =
     (case getApiKey API_KEY of
        Inl e \<Rightarrow> Inl e
      | Inr _ \<Rightarrow>
          (case outcome of
             Inl e \<Rightarrow> Inl e
           | Inr response \<Rightarrow>
               (case response_text response of
                  None \<Rightarrow> Inl RecommendationsFormatError
                | Some t \<Rightarrow>
                    (case parse (trim t) of
                       None \<Rightarrow> Inl RecommendationsFormatError
                     | Some parsedJson \<Rightarrow>
                         (case readMember parsedJson ''recommendations'' of
                            None \<Rightarrow> Inl RecommendationsFormatError
                          | Some r \<Rightarrow> Inr r)))))"

section \<open>Images and local insights (generateImage, editImage, getLocalInsights)\<close>

record Image =
  imageBytes :: "string option"

record GeneratedImage =
  image :: "Image option"

record GenerateImagesResponse =
  generatedImages :: "GeneratedImage list option"

text \<open>
  \<^verbatim>\<open>response.generatedImages[0].image.imageBytes\<close> has no optional chaining: reading a
  member of \<^verbatim>\<open>undefined\<close> throws a \<^verbatim>\<open>TypeError\<close>, an instance of \<^verbatim>\<open>Error\<close> whose
  message the engine chooses; the message is the parameter \<open>engineMessage\<close>.
  \<^verbatim>\<open>!base64ImageBytes\<close> holds for \<^verbatim>\<open>undefined\<close> and for the empty string.
\<close>

definition generateImage ::
  "string \<Rightarrow> string option \<Rightarrow> Thrown + GenerateImagesResponse \<Rightarrow> Thrown + string" where
  "generateImage engineMessage API_KEY outcome =
     (case getApiKey API_KEY of
        Inl e \<Rightarrow> Inl e
      | Inr _ \<Rightarrow>
          (case outcome of
             Inl e \<Rightarrow> Inl e
           | Inr response \<Rightarrow>
               (case generatedImages response of
                  None \<Rightarrow> Inl (Error engineMessage)
                | Some [] \<Rightarrow> Inl (Error engineMessage)
                | Some (g # _) \<Rightarrow>
                    (case image g of
                       None \<Rightarrow> Inl (Error engineMessage)
                     | Some i \<Rightarrow>
                         (case imageBytes i of
                            None \<Rightarrow> Inl NoContentGenerated
                          | Some base64ImageBytes \<Rightarrow>
                              if base64ImageBytes = [] then Inl NoContentGenerated
                              else Inr base64ImageBytes)))))"

text \<open>
  \<^verbatim>\<open>editImage\<close>: the loop returns the \<^verbatim>\<open>data\<close> of the first part that has
  \<^verbatim>\<open>inlineData\<close>, as it finds it (\<open>Inr None\<close> is the result \<^verbatim>\<open>undefined\<close>).
\<close>

definition editImage ::
  "string \<Rightarrow> string option \<Rightarrow> Thrown + GenerateContentResponse \<Rightarrow> Thrown + string option" where
  "editImage engineMessage API_KEY outcome =
     (case getApiKey API_KEY of
        Inl e \<Rightarrow> Inl e
      | Inr _ \<Rightarrow>
          (case outcome of
             Inl e \<Rightarrow> Inl e
           | Inr response \<Rightarrow>
               (case candidates response of
                  None \<Rightarrow> Inl (Error engineMessage)
                | Some [] \<Rightarrow> Inl (Error engineMessage)
                | Some (c # _) \<Rightarrow>
                    (case cand_content c of
                       None \<Rightarrow> Inl (Error engineMessage)
                     | Some ct \<Rightarrow>
                         (case parts ct of
                            None \<Rightarrow> Inl (Error engineMessage)
                          | Some ps \<Rightarrow>
                              (case List.map_filter inlineData ps of
                                 [] \<Rightarrow> Inl NoContentGenerated
                               | d # _ \<Rightarrow> Inr (blob_data d)))))))"

record LocalInsightsResult =
  insights_text :: "string option"
  insights_groundingMetadata :: "GroundingMetadata option"

definition getLocalInsights ::
  "string option \<Rightarrow> Thrown + GenerateContentResponse \<Rightarrow> Thrown + LocalInsightsResult" where
  "getLocalInsights API_KEY outcome =
     (case getApiKey API_KEY of
        Inl e \<Rightarrow> Inl e
      | Inr _ \<Rightarrow>
          (case outcome of
             Inl e \<Rightarrow> Inl e
           | Inr response \<Rightarrow>
               Inr \<lparr>insights_text = response_text response,
                    insights_groundingMetadata = parseGroundingChunks (responseChunks response)\<rparr>))"

section \<open>Video generation (generateVideo)\<close>

datatype AspectRatio = Ratio_16_9 | Ratio_9_16 | Ratio_1_1

record VideoConfig =
  numberOfVideos :: nat
  resolution :: string
  aspectRatio :: AspectRatio

record VideoRequest =
  req_model :: string
  req_prompt :: string
  req_imageBytes :: string
  req_mimeType :: string
  req_config :: VideoConfig

record Video =
  video_uri :: "string option"

record GeneratedVideo =
  video :: "Video option"

record GenerateVideosResponse =
  generatedVideos :: "GeneratedVideo list option"

text \<open>The operation handle; \<open>op_done\<close> is its optional \<^verbatim>\<open>done\<close> flag.\<close>

record Operation =
  op_done :: "bool option"
  op_response :: "GenerateVideosResponse option"

text \<open>\<^verbatim>\<open>!operation.done\<close> fails only for \<^verbatim>\<open>done === true\<close>.\<close>

definition isDone :: "Operation \<Rightarrow> bool" where
  "isDone operation = (op_done operation = Some True)"

text \<open>\<^verbatim>\<open>operation.response?.generatedVideos?.[0]?.video?.uri\<close>\<close>

definition downloadLink :: "Operation \<Rightarrow> string option" where
  "downloadLink operation =
     (case op_response operation of
        None \<Rightarrow> None
      | Some r \<Rightarrow>
          (case generatedVideos r of
             None \<Rightarrow> None
           | Some [] \<Rightarrow> None
           | Some (g # _) \<Rightarrow>
               (case video g of
                  None \<Rightarrow> None
                | Some v \<Rightarrow> video_uri v)))"

text \<open>The argument of \<^verbatim>\<open>ai.models.generateVideos\<close>.\<close>

definition videoRequest :: "string \<Rightarrow> string \<Rightarrow> string \<Rightarrow> AspectRatio \<Rightarrow> VideoRequest" where
  "videoRequest base64Image mimeType prompt0 ratio =
     \<lparr>req_model = ''veo-3.1-fast-generate-preview'',
      req_prompt = prompt0,
      req_imageBytes = base64Image,
      req_mimeType = mimeType,
      req_config = \<lparr>numberOfVideos = 1, resolution = ''720p'',
        aspectRatio = (if ratio = Ratio_1_1 then Ratio_16_9 else ratio)\<rparr>\<rparr>"

text \<open>
  What a run does besides computing its result, in order: the submission, the timer of
  the loop (in milliseconds), the status check with the handle it passes, and the fetch
  of the payload with its URL.
\<close>

datatype Event =
    GenerateVideos VideoRequest
  | Wait nat
  | GetVideosOperation Operation
  | Fetch string

text \<open>
  The world outside: what the submission answers, what the \<open>k\<close>-th status check of the
  run answers (\<open>k\<close> from 0; the check passes the operation last received, which the
  earlier answers determine), what the fetch of a URL answers, and the URL that
  \<^verbatim>\<open>URL.createObjectURL\<close> mints for a payload. A rejected promise is \<open>Inl\<close>.
\<close>

record 'b FetchResponse =
  ok :: bool
  blob :: "Thrown + 'b"

record 'b VideoBackend =
  generateVideos :: "VideoRequest \<Rightarrow> Thrown + Operation"
  getVideosOperation :: "nat \<Rightarrow> Thrown + Operation"
  fetch :: "string \<Rightarrow> Thrown + 'b FetchResponse"
  createObjectURL :: "'b \<Rightarrow> string"

text \<open>
  The answers a run receives from the backend about its operation, in order: answer
  \<open>0\<close> is that of the submission, answer \<open>k + 1\<close> that of the \<open>k\<close>-th status check.
\<close>

definition report :: "'b VideoBackend \<Rightarrow> VideoRequest \<Rightarrow> nat \<Rightarrow> Thrown + Operation" where
  "report backend request k =
     (case k of 0 \<Rightarrow> generateVideos backend request | Suc j \<Rightarrow> getVideosOperation backend j)"

text \<open>
  The \<^verbatim>\<open>while (!operation.done)\<close> loop. It has no bound: where the backend never reports
  \<^verbatim>\<open>done\<close> the loop does not return, which is the value \<open>None\<close>.
\<close>

partial_function (option) pollLoop ::
  "(nat \<Rightarrow> Thrown + Operation) \<Rightarrow> nat \<Rightarrow> Operation \<Rightarrow> Event list
     \<Rightarrow> ((Thrown + Operation) \<times> Event list) option" where
  "pollLoop status k operation trace =
     (if isDone operation then Some (Inr operation, trace)
      else
        (case status k of
           Inl e \<Rightarrow> Some (Inl e, trace @ [Wait 10000, GetVideosOperation operation])
         | Inr operation' \<Rightarrow>
             pollLoop status (Suc k) operation' (trace @ [Wait 10000, GetVideosOperation operation])))"

text \<open>The events of a run of the loop that passes the handles \<open>handles\<close>, in order.\<close>

definition pollEvents :: "Operation list \<Rightarrow> Event list" where
  "pollEvents handles = concat (map (\<lambda>h. [Wait 10000, GetVideosOperation h]) handles)"

fun isStatusCheck :: "Event \<Rightarrow> bool" where
  "isStatusCheck (GetVideosOperation h) = True"
| "isStatusCheck e = False"

fun isSubmission :: "Event \<Rightarrow> bool" where
  "isSubmission (GenerateVideos r) = True"
| "isSubmission e = False"

text \<open>
  The statements after the loop. \<^verbatim>\<open>!downloadLink\<close> holds for \<^verbatim>\<open>undefined\<close> and for the
  empty string. The \<^verbatim>\<open>getApiKey()\<close> in the URL reads the environment that the first call
  read, so it returns \<open>key\<close> again.
\<close>

definition finishVideo ::
  "string \<Rightarrow> 'b VideoBackend \<Rightarrow> Operation \<Rightarrow> Event list \<Rightarrow> (Thrown + string) \<times> Event list" where
  "finishVideo key backend operation trace =
     (case downloadLink operation of
        None \<Rightarrow> (Inl GenerationFailed, trace)
      | Some link \<Rightarrow>
          if link = [] then (Inl GenerationFailed, trace)
          else
            (let url = link @ ''&key='' @ key in
             case fetch backend url of
               Inl e \<Rightarrow> (Inl e, trace @ [Fetch url])
             | Inr videoResponse \<Rightarrow>
                 if \<not> ok videoResponse then (Inl DownloadFailed, trace @ [Fetch url])
                 else
                   (case blob videoResponse of
                      Inl e \<Rightarrow> (Inl e, trace @ [Fetch url])
                    | Inr videoBlob \<Rightarrow> (Inr (createObjectURL backend videoBlob), trace @ [Fetch url]))))"

definition generateVideo ::
  "string option \<Rightarrow> 'b VideoBackend \<Rightarrow> string \<Rightarrow> string \<Rightarrow> string \<Rightarrow> AspectRatio
     \<Rightarrow> ((Thrown + string) \<times> Event list) option" where
  "generateVideo API_KEY backend base64Image mimeType prompt0 ratio =
     (case getApiKey API_KEY of
        Inl e \<Rightarrow> Some (Inl e, [])
      | Inr key \<Rightarrow>
          (let request = videoRequest base64Image mimeType prompt0 ratio in
           case generateVideos backend request of
             Inl e \<Rightarrow> Some (Inl e, [GenerateVideos request])
           | Inr operation0 \<Rightarrow>
               (case pollLoop (getVideosOperation backend) 0 operation0 [GenerateVideos request] of
                  None \<Rightarrow> None
                | Some (Inl e, trace) \<Rightarrow> Some (Inl e, trace)
                | Some (Inr operation, trace) \<Rightarrow> Some (finishVideo key backend operation trace))))"

section \<open>The domain types, read off a parsed document (types.ts)\<close>

text \<open>
  A result is fully populated when every member its interface requires is there, with
  the declared kind of value. The first \<^verbatim>\<open>MarketingPlanResponse\<close> is the one
  \<^verbatim>\<open>generateMarketingPlan\<close> is typed with, the second the one of
  \<^verbatim>\<open>generateMarketAnalysis\<close>.
\<close>

definition isObjectWith :: "((string \<times> 'n json) list \<Rightarrow> bool) \<Rightarrow> 'n json \<Rightarrow> bool" where
  "isObjectWith P j = (case j of JObject kvs \<Rightarrow> P kvs | _ \<Rightarrow> False)"

definition isArrayOf :: "('n json \<Rightarrow> bool) \<Rightarrow> 'n json \<Rightarrow> bool" where
  "isArrayOf P j = (case j of JArray xs \<Rightarrow> list_all P xs | _ \<Rightarrow> False)"

definition isJString :: "'n json \<Rightarrow> bool" where
  "isJString j = (case j of JString _ \<Rightarrow> True | _ \<Rightarrow> False)"

definition has :: "('n json \<Rightarrow> bool) \<Rightarrow> (string \<times> 'n json) list \<Rightarrow> string \<Rightarrow> bool" where
  "has P kvs k = (case map_of kvs k of None \<Rightarrow> False | Some v \<Rightarrow> P v)"

definition isPostIdea :: "'n json \<Rightarrow> bool" where
  "isPostIdea = isObjectWith (\<lambda>kvs.
     has isJString kvs ''platform'' \<and> has isJString kvs ''prompt'' \<and> has isJString kvs ''visualIdea'')"

definition isCompetitorAnalysis :: "'n json \<Rightarrow> bool" where
  "isCompetitorAnalysis = isObjectWith (\<lambda>kvs.
     has isJString kvs ''competitorName'' \<and> has (isArrayOf isJString) kvs ''strengths''
     \<and> has (isArrayOf isJString) kvs ''weaknesses'')"

definition isContentPillar :: "'n json \<Rightarrow> bool" where
  "isContentPillar = isObjectWith (\<lambda>kvs.
     has isJString kvs ''pillar'' \<and> has isJString kvs ''description'')"

definition isMarketingPlanResponse :: "'n json \<Rightarrow> bool" where
  "isMarketingPlanResponse = isObjectWith (\<lambda>kvs.
     has (isArrayOf isCompetitorAnalysis) kvs ''competitorAnalysis''
     \<and> has (isArrayOf isContentPillar) kvs ''contentPillars''
     \<and> has (isArrayOf isPostIdea) kvs ''postIdeas'')"

definition isBrandSummary :: "'n json \<Rightarrow> bool" where
  "isBrandSummary = isObjectWith (\<lambda>kvs.
     has isJString kvs ''mission'' \<and> has isJString kvs ''targetAudience''
     \<and> has isJString kvs ''toneOfVoice'')"

definition isPlatformStrategy :: "'n json \<Rightarrow> bool" where
  "isPlatformStrategy = isObjectWith (\<lambda>kvs.
     has isJString kvs ''platform'' \<and> has isJString kvs ''strategy'')"

definition isCompetitorStrategy :: "'n json \<Rightarrow> bool" where
  "isCompetitorStrategy = isObjectWith (\<lambda>kvs.
     has isJString kvs ''competitorName'' \<and> has (isArrayOf isJString) kvs ''contentThemes''
     \<and> has (isArrayOf isJString) kvs ''commonPostTypes''
     \<and> has (isArrayOf isPlatformStrategy) kvs ''platformStrategies'')"

definition isTrendingTopic :: "'n json \<Rightarrow> bool" where
  "isTrendingTopic = isObjectWith (\<lambda>kvs.
     has isJString kvs ''topic'' \<and> has isJString kvs ''relevance'')"

definition isMarketAnalysisResponse :: "'n json \<Rightarrow> bool" where
  "isMarketAnalysisResponse = isObjectWith (\<lambda>kvs.
     has isBrandSummary kvs ''brandSummary''
     \<and> has (isArrayOf isCompetitorStrategy) kvs ''competitorStrategies''
     \<and> has (isArrayOf isTrendingTopic) kvs ''trendingTopics''
     \<and> has (isArrayOf isPostIdea) kvs ''postIdeas'')"

definition isPostingRecommendation :: "'n json \<Rightarrow> bool" where
  "isPostingRecommendation = isObjectWith (\<lambda>kvs.
     has isJString kvs ''platform'' \<and> has isJString kvs ''optimalTime''
     \<and> has isJString kvs ''formatSuggestion'')"

text \<open>The declared result of \<^verbatim>\<open>getPostingRecommendations\<close>: \<^verbatim>\<open>PostingRecommendation[]\<close>.\<close>

definition isPostingRecommendations :: "'n json option \<Rightarrow> bool" where
  "isPostingRecommendations r =
     (case r of None \<Rightarrow> False | Some j \<Rightarrow> isArrayOf isPostingRecommendation j)"

section \<open>The task list (App.addTask, App.toggleTask)\<close>

text \<open>
  \<^verbatim>\<open>PostIdea.platform\<close> is declared as a union of string literals; at run time it is the
  string the plan carried, compared with \<^verbatim>\<open>===\<close>.
\<close>

record PostIdea =
  platform :: string
  prompt :: string
  visualIdea :: string

record Task =
  task_id :: string
  postIdea :: PostIdea
  completed :: bool

text \<open>
  The updater \<^verbatim>\<open>addTask\<close> passes to \<^verbatim>\<open>setTasks\<close>. \<open>now\<close> and \<open>random\<close> are the
  renderings of \<^verbatim>\<open>Date.now()\<close> and \<^verbatim>\<open>Math.random()\<close> in the template of the id.
\<close>

definition addTask :: "string \<Rightarrow> string \<Rightarrow> PostIdea \<Rightarrow> Task list \<Rightarrow> Task list" where
  "addTask now random idea prevTasks =
     (let isAlreadyAdded = list_ex (\<lambda>task.
            prompt (postIdea task) = prompt idea \<and> platform (postIdea task) = platform idea)
          prevTasks
      in if isAlreadyAdded then prevTasks
         else prevTasks @
           [\<lparr>task_id = ''task-'' @ now @ ''-'' @ random, postIdea = idea, completed = False\<rparr>])"

definition toggleTask :: "string \<Rightarrow> Task list \<Rightarrow> Task list" where
  "toggleTask taskId prevTasks =
     map (\<lambda>task. if task_id task = taskId then task\<lparr>completed := \<not> completed task\<rparr> else task)
       prevTasks"

text \<open>The task lists the application can hold: it starts from \<^verbatim>\<open>useState<Task[]>([])\<close>.\<close>

inductive reachable :: "Task list \<Rightarrow> bool" where
  initial: "reachable []"
| added: "reachable tasks \<Longrightarrow> reachable (addTask now random idea tasks)"
| toggled: "reachable tasks \<Longrightarrow> reachable (toggleTask taskId tasks)"

section \<open>Feature surfaces\<close>

text \<open>
  A handler is modelled by the state it leaves once it has run to its end: the
  \<^verbatim>\<open>useState\<close> cells of the component, updated in the order of the \<^verbatim>\<open>set...\<close> calls.
  The gateway function a handler awaits is a parameter that gives the outcome of the
  call, a rejection (\<open>Inl\<close>) or a result; a call that never settles leaves the handler
  suspended after its first updates. The helpers of utils/fileUtils
  (\<^verbatim>\<open>fileToBase64\<close>, \<^verbatim>\<open>getMimeType\<close>) are parameters as well. For each component,
  \<open>_reset\<close> is the updates before the \<^verbatim>\<open>try\<close> and \<open>_catch\<close> the \<^verbatim>\<open>catch\<close> block.
\<close>

text \<open>\<^verbatim>\<open>err instanceof Error ? err.message : fallback\<close>\<close>

definition messageOr :: "string \<Rightarrow> Thrown \<Rightarrow> string" where
  "messageOr fallback err = (case err of Error m \<Rightarrow> m | NonError \<Rightarrow> fallback)"

text \<open>Of an uploaded \<^verbatim>\<open>File\<close> the handlers read the \<^verbatim>\<open>type\<close> and the \<^verbatim>\<open>size\<close>.\<close>

record File =
  file_name :: string
  file_type :: string
  file_size :: nat

subsection \<open>ImageGenerator\<close>

record ImageGeneratorState =
  ig_prompt :: string
  ig_aspectRatio :: AspectRatio
  ig_generatedImageUrl :: "string option"
  ig_loading :: bool
  ig_error :: "string option"

definition ImageGenerator_reset :: "ImageGeneratorState \<Rightarrow> ImageGeneratorState" where
  "ImageGenerator_reset st = st\<lparr>ig_loading := True, ig_error := None, ig_generatedImageUrl := None\<rparr>"

definition ImageGenerator_catch :: "Thrown \<Rightarrow> ImageGeneratorState \<Rightarrow> ImageGeneratorState" where
  "ImageGenerator_catch err st = st\<lparr>ig_error := Some (messageOr ''Failed to generate image.'' err)\<rparr>"

definition ImageGenerator_handleSubmit ::
  "(string \<Rightarrow> AspectRatio \<Rightarrow> Thrown + string) \<Rightarrow> ImageGeneratorState \<Rightarrow> ImageGeneratorState" where
  "ImageGenerator_handleSubmit generateImage0 st =
     (if trim (ig_prompt st) = []
      then st\<lparr>ig_error := Some ''Please enter a prompt to generate an image.''\<rparr>
      else
        (let st1 = ImageGenerator_reset st;
             st2 = (case generateImage0 (ig_prompt st) (ig_aspectRatio st) of
                      Inr generatedBase64 \<Rightarrow>
                        st1\<lparr>ig_generatedImageUrl := Some (''data:image/jpeg;base64,'' @ generatedBase64)\<rparr>
                    | Inl err \<Rightarrow> ImageGenerator_catch err st1)
         in st2\<lparr>ig_loading := False\<rparr>))"

subsection \<open>PostWriter\<close>

record PostWriterState =
  pw_topic :: string
  pw_tone :: string
  pw_platform :: string
  pw_generatedPost :: string
  pw_loading :: bool
  pw_error :: "string option"
  pw_copySuccess :: string

definition PostWriter_reset :: "PostWriterState \<Rightarrow> PostWriterState" where
  "PostWriter_reset st =
     st\<lparr>pw_loading := True, pw_error := None, pw_generatedPost := [], pw_copySuccess := []\<rparr>"

definition PostWriter_catch :: "Thrown \<Rightarrow> PostWriterState \<Rightarrow> PostWriterState" where
  "PostWriter_catch err st =
     st\<lparr>pw_error := Some (messageOr ''An unknown error occurred while generating the post.'' err)\<rparr>"

definition PostWriter_handleSubmit ::
  "(string \<Rightarrow> string \<Rightarrow> string \<Rightarrow> Thrown + string) \<Rightarrow> PostWriterState \<Rightarrow> PostWriterState" where
  "PostWriter_handleSubmit generatePostContent st =
     (if trim (pw_topic st) = []
      then st\<lparr>pw_error := Some ''Please enter a topic or some keywords.''\<rparr>
      else
        (let st1 = PostWriter_reset st;
             st2 = (case generatePostContent (pw_topic st) (pw_tone st) (pw_platform st) of
                      Inr post \<Rightarrow> st1\<lparr>pw_generatedPost := post\<rparr>
                    | Inl err \<Rightarrow> PostWriter_catch err st1)
         in st2\<lparr>pw_loading := False\<rparr>))"

subsection \<open>VideoGenerator\<close>

text \<open>
  The interval that rotates the loading message while \<open>vg_loading\<close> holds is a separate
  effect of the component.
\<close>

definition loadingMessages :: "string list" where
  "loadingMessages =
     [''Warming up the video engine...'',
      ''Storyboarding your scene...'',
      ''Rendering initial frames...'',
      ''Applying special effects...'',
      ''Compositing the final shots...'',
      ''This can take a few minutes, hang tight...'',
      ''Almost there...'']"

record VideoGeneratorState =
  vg_apiKeySelected :: bool
  vg_checkingApiKey :: bool
  vg_imageFile :: "File option"
  vg_previewUrl :: "string option"
  vg_generatedVideoUrl :: "string option"
  vg_prompt :: string
  vg_aspectRatio :: AspectRatio
  vg_loading :: bool
  vg_loadingMessage :: string
  vg_error :: "string option"

definition VideoGenerator_reset :: "VideoGeneratorState \<Rightarrow> VideoGeneratorState" where
  "VideoGenerator_reset st =
     st\<lparr>vg_loading := True, vg_error := None, vg_generatedVideoUrl := None,
        vg_loadingMessage := loadingMessages ! 0\<rparr>"

text \<open>The \<^verbatim>\<open>catch\<close> block classifies the failure by its message.\<close>

definition VideoGenerator_catch :: "Thrown \<Rightarrow> VideoGeneratorState \<Rightarrow> VideoGeneratorState" where
  "VideoGenerator_catch err st =
     (let errorMessage = messageOr ''An unknown error occurred.'' err in
      if includesStr errorMessage ''Requested entity was not found''
      then st\<lparr>vg_error := Some ''Your API key is invalid. Please select a valid key.'',
              vg_apiKeySelected := False\<rparr>
      else st\<lparr>vg_error := Some errorMessage\<rparr>)"

definition VideoGenerator_handleSubmit ::
  "(File \<Rightarrow> Thrown + string) \<Rightarrow> (string \<Rightarrow> string \<Rightarrow> string \<Rightarrow> AspectRatio \<Rightarrow> Thrown + string)
     \<Rightarrow> VideoGeneratorState \<Rightarrow> VideoGeneratorState" where
  "VideoGenerator_handleSubmit fileToBase64 generateVideo0 st =
     (case vg_imageFile st of
        None \<Rightarrow> st\<lparr>vg_error := Some ''Please upload an image and provide a video prompt.''\<rparr>
      | Some imageFile \<Rightarrow>
          if trim (vg_prompt st) = []
          then st\<lparr>vg_error := Some ''Please upload an image and provide a video prompt.''\<rparr>
          else
            (let st1 = VideoGenerator_reset st;
                 st2 = (case fileToBase64 imageFile of
                          Inl err \<Rightarrow> VideoGenerator_catch err st1
                        | Inr base64Image \<Rightarrow>
                            (case generateVideo0 base64Image (file_type imageFile) (vg_prompt st)
                                    (vg_aspectRatio st) of
                               Inr videoUrl \<Rightarrow> st1\<lparr>vg_generatedVideoUrl := Some videoUrl\<rparr>
                             | Inl err \<Rightarrow> VideoGenerator_catch err st1))
             in st2\<lparr>vg_loading := False\<rparr>))"

subsection \<open>MarketingPlan and BrandMarketAnalysis\<close>

record 'n MarketingPlanState =
  mp_businessInfo :: string
  mp_competitorsInfo :: string
  mp_plan :: "'n json option"
  mp_grounding :: "GroundingMetadata option"
  mp_loading :: bool
  mp_error :: "string option"

definition MarketingPlan_reset :: "'n MarketingPlanState \<Rightarrow> 'n MarketingPlanState" where
  "MarketingPlan_reset st =
     st\<lparr>mp_loading := True, mp_error := None, mp_plan := None, mp_grounding := None\<rparr>"

definition MarketingPlan_catch :: "Thrown \<Rightarrow> 'n MarketingPlanState \<Rightarrow> 'n MarketingPlanState" where
  "MarketingPlan_catch err st = st\<lparr>mp_error := Some (messageOr ''An unknown error occurred.'' err)\<rparr>"

definition MarketingPlan_handleSubmit ::
  "(string \<Rightarrow> string \<Rightarrow> Thrown + 'n PlanResult) \<Rightarrow> 'n MarketingPlanState \<Rightarrow> 'n MarketingPlanState" where
  "MarketingPlan_handleSubmit generateMarketingPlan0 st =
     (if trim (mp_businessInfo st) = [] \<or> trim (mp_competitorsInfo st) = []
      then st\<lparr>mp_error := Some ''Please fill in both your business and competitor information.''\<rparr>
      else
        (let st1 = MarketingPlan_reset st;
             st2 = (case generateMarketingPlan0 (mp_businessInfo st) (mp_competitorsInfo st) of
                      Inr r \<Rightarrow> st1\<lparr>mp_plan := Some (plan r), mp_grounding := groundingMetadata r\<rparr>
                    | Inl err \<Rightarrow> MarketingPlan_catch err st1)
         in st2\<lparr>mp_loading := False\<rparr>))"

record BrandInfo =
  mission :: string
  audience :: string
  tone :: string

record 'n BrandMarketAnalysisState =
  bma_brandMission :: string
  bma_targetAudience :: string
  bma_brandTone :: string
  bma_competitorsInfo :: string
  bma_analysis :: "'n json option"
  bma_grounding :: "GroundingMetadata option"
  bma_loading :: bool
  bma_error :: "string option"

definition BrandMarketAnalysis_reset :: "'n BrandMarketAnalysisState \<Rightarrow> 'n BrandMarketAnalysisState" where
  "BrandMarketAnalysis_reset st =
     st\<lparr>bma_loading := True, bma_error := None, bma_analysis := None, bma_grounding := None\<rparr>"

definition BrandMarketAnalysis_catch ::
  "Thrown \<Rightarrow> 'n BrandMarketAnalysisState \<Rightarrow> 'n BrandMarketAnalysisState" where
  "BrandMarketAnalysis_catch err st =
     st\<lparr>bma_error := Some (messageOr ''An unknown error occurred.'' err)\<rparr>"

definition BrandMarketAnalysis_handleSubmit ::
  "(BrandInfo \<Rightarrow> string \<Rightarrow> Thrown + 'n PlanResult) \<Rightarrow> 'n BrandMarketAnalysisState
     \<Rightarrow> 'n BrandMarketAnalysisState" where
  "BrandMarketAnalysis_handleSubmit generateMarketAnalysis0 st =
     (if trim (bma_brandMission st) = [] \<or> trim (bma_targetAudience st) = []
         \<or> trim (bma_brandTone st) = [] \<or> trim (bma_competitorsInfo st) = []
      then st\<lparr>bma_error := Some ''Please fill in all fields to generate a thorough analysis.''\<rparr>
      else
        (let st1 = BrandMarketAnalysis_reset st;
             brandInfo = \<lparr>mission = bma_brandMission st, audience = bma_targetAudience st,
                          tone = bma_brandTone st\<rparr>;
             st2 = (case generateMarketAnalysis0 brandInfo (bma_competitorsInfo st) of
                      Inr r \<Rightarrow> st1\<lparr>bma_analysis := Some (plan r), bma_grounding := groundingMetadata r\<rparr>
                    | Inl err \<Rightarrow> BrandMarketAnalysis_catch err st1)
         in st2\<lparr>bma_loading := False\<rparr>))"

subsection \<open>LocalInsights\<close>

text \<open>\<^typ>\<open>'g\<close> is the type of the coordinates that the geolocation hook supplies.\<close>

record 'g LocalInsightsState =
  li_geoData :: "'g option"
  li_query :: string
  li_insights :: "string option"
  li_grounding :: "GroundingMetadata option"
  li_loading :: bool
  li_error :: "string option"

definition LocalInsights_reset :: "'g LocalInsightsState \<Rightarrow> 'g LocalInsightsState" where
  "LocalInsights_reset st =
     st\<lparr>li_loading := True, li_error := None, li_insights := None, li_grounding := None\<rparr>"

definition LocalInsights_catch :: "Thrown \<Rightarrow> 'g LocalInsightsState \<Rightarrow> 'g LocalInsightsState" where
  "LocalInsights_catch err st = st\<lparr>li_error := Some (messageOr ''An unknown error occurred.'' err)\<rparr>"

definition LocalInsights_handleSubmit ::
  "(string \<Rightarrow> 'g \<Rightarrow> Thrown + LocalInsightsResult) \<Rightarrow> 'g LocalInsightsState \<Rightarrow> 'g LocalInsightsState" where
  "LocalInsights_handleSubmit getLocalInsights0 st =
     (if trim (li_query st) = [] then st\<lparr>li_error := Some ''Please enter a query.''\<rparr>
      else
        (case li_geoData st of
           None \<Rightarrow> st\<lparr>li_error := Some ''Could not determine your location.''\<rparr>
         | Some geoData \<Rightarrow>
             (let st1 = LocalInsights_reset st;
                  st2 = (case getLocalInsights0 (li_query st) geoData of
                           Inr r \<Rightarrow> st1\<lparr>li_insights := insights_text r,
                                        li_grounding := insights_groundingMetadata r\<rparr>
                         | Inl err \<Rightarrow> LocalInsights_catch err st1)
              in st2\<lparr>li_loading := False\<rparr>)))"

subsection \<open>MultiPostManager\<close>

text \<open>\<^typ>\<open>'r\<close> is the type of the recommendations the gateway returns.\<close>

record 'r MultiPostManagerState =
  mpm_postContent :: string
  mpm_imageFile :: "File option"
  mpm_previewUrl :: "string option"
  mpm_selectedPlatforms :: "string list"
  mpm_recommendations :: "'r option"
  mpm_loading :: bool
  mpm_error :: "string option"

definition MultiPostManager_reset :: "'r MultiPostManagerState \<Rightarrow> 'r MultiPostManagerState" where
  "MultiPostManager_reset st =
     st\<lparr>mpm_loading := True, mpm_error := None, mpm_recommendations := None\<rparr>"

definition MultiPostManager_catch :: "Thrown \<Rightarrow> 'r MultiPostManagerState \<Rightarrow> 'r MultiPostManagerState" where
  "MultiPostManager_catch err st =
     st\<lparr>mpm_error := Some (messageOr ''An unknown error occurred.'' err)\<rparr>"

definition MultiPostManager_handleGetRecommendations ::
  "(string \<Rightarrow> string list \<Rightarrow> Thrown + 'r) \<Rightarrow> 'r MultiPostManagerState \<Rightarrow> 'r MultiPostManagerState" where
  "MultiPostManager_handleGetRecommendations getPostingRecommendations0 st =
     (if trim (mpm_postContent st) = [] \<or> length (mpm_selectedPlatforms st) = 0
      then st\<lparr>mpm_error := Some ''Please write some content and select at least one platform.''\<rparr>
      else
        (let st1 = MultiPostManager_reset st;
             st2 = (case getPostingRecommendations0 (mpm_postContent st) (mpm_selectedPlatforms st) of
                      Inr result \<Rightarrow> st1\<lparr>mpm_recommendations := Some result\<rparr>
                    | Inl err \<Rightarrow> MultiPostManager_catch err st1)
         in st2\<lparr>mpm_loading := False\<rparr>))"

subsection \<open>ImageEditor and ImageUpscaler\<close>

datatype ImageFilter = Filter_none | Filter_grayscale | Filter_sepia | Filter_invert | Filter_vintage

definition supportedMimeTypes :: "string list" where
  "supportedMimeTypes = [''image/jpeg'', ''image/png'', ''image/webp'', ''image/heic'', ''image/heif'']"

definition MAX_FILE_SIZE_MB :: nat where
  "MAX_FILE_SIZE_MB = 4"

definition MAX_FILE_SIZE_BYTES :: nat where
  "MAX_FILE_SIZE_BYTES = MAX_FILE_SIZE_MB * 1024 * 1024"

text \<open>The values of the two message templates, for the constants above.\<close>

definition sizeLimitMessage :: string where
  "sizeLimitMessage = ''Image size exceeds the 4 MB limit.''"

definition unsupportedTypeMessage :: string where
  "unsupportedTypeMessage =
     ''Unsupported image type. Please use one of the following: jpeg, png, webp, heic, heif.''"

record ImageEditorState =
  ie_imageFile :: "File option"
  ie_originalImageUrl :: "string option"
  ie_editedImageUrl :: "string option"
  ie_downloadableUrl :: "string option"
  ie_selectedFilter :: ImageFilter
  ie_prompt :: string
  ie_loading :: bool
  ie_error :: "string option"

text \<open>
  The effect that recomputes \<open>ie_downloadableUrl\<close> when \<open>ie_editedImageUrl\<close> or the filter
  changes is a separate effect of the component.
\<close>

definition ImageEditor_reset :: "ImageEditorState \<Rightarrow> ImageEditorState" where
  "ImageEditor_reset st =
     st\<lparr>ie_loading := True, ie_error := None, ie_editedImageUrl := None,
        ie_selectedFilter := Filter_none\<rparr>"

definition ImageEditor_catch :: "Thrown \<Rightarrow> ImageEditorState \<Rightarrow> ImageEditorState" where
  "ImageEditor_catch err st = st\<lparr>ie_error := Some (messageOr ''Failed to edit image.'' err)\<rparr>"

definition ImageEditor_handleSubmit ::
  "(File \<Rightarrow> string) \<Rightarrow> (File \<Rightarrow> Thrown + string) \<Rightarrow> (string \<Rightarrow> string \<Rightarrow> string \<Rightarrow> Thrown + string)
     \<Rightarrow> ImageEditorState \<Rightarrow> ImageEditorState" where
  "ImageEditor_handleSubmit getMimeType fileToBase64 editImage0 st =
     (case ie_imageFile st of
        None \<Rightarrow> st\<lparr>ie_error := Some ''Please upload an image and provide an editing prompt.''\<rparr>
      | Some imageFile \<Rightarrow>
          if trim (ie_prompt st) = []
          then st\<lparr>ie_error := Some ''Please upload an image and provide an editing prompt.''\<rparr>
          else if file_size imageFile > MAX_FILE_SIZE_BYTES
          then st\<lparr>ie_error := Some sizeLimitMessage\<rparr>
          else
            (let mimeType = getMimeType imageFile in
             if mimeType \<notin> set supportedMimeTypes
             then st\<lparr>ie_error := Some unsupportedTypeMessage\<rparr>
             else
               (let st1 = ImageEditor_reset st;
                    st2 = (case fileToBase64 imageFile of
                             Inl err \<Rightarrow> ImageEditor_catch err st1
                           | Inr base64Image \<Rightarrow>
                               (case editImage0 base64Image mimeType (ie_prompt st) of
                                  Inr editedBase64 \<Rightarrow>
                                    st1\<lparr>ie_editedImageUrl :=
                                      Some (''data:'' @ mimeType @ '';base64,'' @ editedBase64)\<rparr>
                                | Inl err \<Rightarrow> ImageEditor_catch err st1))
                in st2\<lparr>ie_loading := False\<rparr>)))"

text \<open>
  \<^verbatim>\<open>ImageUpscaler\<close>, in its two versions: the first checks only that a file is there and
  uses the \<^verbatim>\<open>type\<close> of the file, the second checks size and type as the editor does.
\<close>

definition upscalePrompt :: string where
  "upscalePrompt = ''Upscale this image, significantly enhancing its resolution, detail, and clarity. Make it look like a high-resolution photograph. Do not add any new elements or change the subject matter.''"

record ImageUpscalerState =
  iu_imageFile :: "File option"
  iu_originalImageUrl :: "string option"
  iu_upscaledImageUrl :: "string option"
  iu_loading :: bool
  iu_error :: "string option"

definition ImageUpscaler_reset :: "ImageUpscalerState \<Rightarrow> ImageUpscalerState" where
  "ImageUpscaler_reset st = st\<lparr>iu_loading := True, iu_error := None, iu_upscaledImageUrl := None\<rparr>"

definition ImageUpscaler_catch :: "Thrown \<Rightarrow> ImageUpscalerState \<Rightarrow> ImageUpscalerState" where
  "ImageUpscaler_catch err st = st\<lparr>iu_error := Some (messageOr ''Failed to upscale image.'' err)\<rparr>"

definition ImageUpscaler_handleSubmit ::
  "(File \<Rightarrow> Thrown + string) \<Rightarrow> (string \<Rightarrow> string \<Rightarrow> string \<Rightarrow> Thrown + string)
     \<Rightarrow> ImageUpscalerState \<Rightarrow> ImageUpscalerState" where
  "ImageUpscaler_handleSubmit fileToBase64 editImage0 st =
     (case iu_imageFile st of
        None \<Rightarrow> st\<lparr>iu_error := Some ''Please upload an image to upscale.''\<rparr>
      | Some imageFile \<Rightarrow>
          (let st1 = ImageUpscaler_reset st;
               st2 = (case fileToBase64 imageFile of
                        Inl err \<Rightarrow> ImageUpscaler_catch err st1
                      | Inr base64Image \<Rightarrow>
                          (case editImage0 base64Image (file_type imageFile) upscalePrompt of
                             Inr upscaledBase64 \<Rightarrow>
                               st1\<lparr>iu_upscaledImageUrl :=
                                 Some (''data:'' @ file_type imageFile @ '';base64,'' @ upscaledBase64)\<rparr>
                           | Inl err \<Rightarrow> ImageUpscaler_catch err st1))
           in st2\<lparr>iu_loading := False\<rparr>))"

definition ImageUpscaler_handleSubmit_checked ::
  "(File \<Rightarrow> string) \<Rightarrow> (File \<Rightarrow> Thrown + string) \<Rightarrow> (string \<Rightarrow> string \<Rightarrow> string \<Rightarrow> Thrown + string)
     \<Rightarrow> ImageUpscalerState \<Rightarrow> ImageUpscalerState" where
  "ImageUpscaler_handleSubmit_checked getMimeType fileToBase64 editImage0 st =
     (case iu_imageFile st of
        None \<Rightarrow> st\<lparr>iu_error := Some ''Please upload an image to upscale.''\<rparr>
      | Some imageFile \<Rightarrow>
          if file_size imageFile > MAX_FILE_SIZE_BYTES
          then st\<lparr>iu_error := Some sizeLimitMessage\<rparr>
          else
            (let mimeType = getMimeType imageFile in
             if mimeType \<notin> set supportedMimeTypes
             then st\<lparr>iu_error := Some unsupportedTypeMessage\<rparr>
             else
               (let st1 = ImageUpscaler_reset st;
                    st2 = (case fileToBase64 imageFile of
                             Inl err \<Rightarrow> ImageUpscaler_catch err st1
                           | Inr base64Image \<Rightarrow>
                               (case editImage0 base64Image mimeType upscalePrompt of
                                  Inr upscaledBase64 \<Rightarrow>
                                    st1\<lparr>iu_upscaledImageUrl :=
                                      Some (''data:'' @ mimeType @ '';base64,'' @ upscaledBase64)\<rparr>
                                | Inl err \<Rightarrow> ImageUpscaler_catch err st1))
                in st2\<lparr>iu_loading := False\<rparr>)))"

section \<open>Inputs of the examples\<close>

text \<open>
  A backend that accepts the submission with a pending handle, answers the first two
  status checks with a pending handle and the third with a completed one that carries
  the link \<open>link\<close>, and answers the fetch with a response whose \<^verbatim>\<open>ok\<close> is \<open>fetchOk\<close>.
\<close>

definition pendingOperation :: Operation where
  "pendingOperation = \<lparr>op_done = Some False, op_response = None\<rparr>"

definition completedOperation :: "string option \<Rightarrow> Operation" where
  "completedOperation link = \<lparr>op_done = Some True,
     op_response = Some \<lparr>generatedVideos = Some [\<lparr>video = Some \<lparr>video_uri = link\<rparr>\<rparr>]\<rparr>\<rparr>"

definition exampleBackend :: "string option \<Rightarrow> bool \<Rightarrow> string VideoBackend" where
  "exampleBackend link fetchOk =
     \<lparr>generateVideos = (\<lambda>request. Inr pendingOperation),
      getVideosOperation = (\<lambda>k. if k < 2 then Inr pendingOperation else Inr (completedOperation link)),
      fetch = (\<lambda>url. Inr \<lparr>ok = fetchOk, blob = Inr ''payload''\<rparr>),
      createObjectURL = (\<lambda>b. ''blob:'' @ b)\<rparr>"

text \<open>
  A backend that answers the submission with a completed handle that carries the link
  \<open>link\<close>; a status check, were one made, would be answered in the same way.
\<close>

definition promptBackend :: "string option \<Rightarrow> string VideoBackend" where
  "promptBackend link =
     \<lparr>generateVideos = (\<lambda>request. Inr (completedOperation link)),
      getVideosOperation = (\<lambda>k. Inr (completedOperation link)),
      fetch = (\<lambda>url. Inr \<lparr>ok = True, blob = Inr ''payload''\<rparr>),
      createObjectURL = (\<lambda>b. ''blob:'' @ b)\<rparr>"

text \<open>A task list built by two additions and a toggle.\<close>

definition ideaA :: PostIdea where
  "ideaA = \<lparr>platform = ''Instagram'', prompt = ''Show the roastery'', visualIdea = ''Reel''\<rparr>"

definition ideaB :: PostIdea where
  "ideaB = \<lparr>platform = ''LinkedIn'', prompt = ''Show the roastery'', visualIdea = ''Article''\<rparr>"

definition ideaC :: PostIdea where
  "ideaC = \<lparr>platform = ''Instagram'', prompt = ''Meet the baristas'', visualIdea = ''Carousel''\<rparr>"

definition exampleTasks :: "Task list" where
  "exampleTasks = toggleTask ''task-1-0.5'' (addTask ''2'' ''0.25'' ideaB (addTask ''1'' ''0.5'' ideaA []))"

text \<open>
  A stand-in for \<^verbatim>\<open>JSON.parse\<close> in the examples: it parses two texts as
  \<^verbatim>\<open>JSON.parse\<close> does, the empty object and a plan whose three sequences are empty
  (\<open>CHR 0x22\<close> is the double quote), and throws on every other text.
\<close>

definition examplePlanText :: string where
  "examplePlanText =
     ''{'' @ [CHR 0x22] @ ''competitorAnalysis'' @ [CHR 0x22] @ '':[],''
       @ [CHR 0x22] @ ''contentPillars'' @ [CHR 0x22] @ '':[],''
       @ [CHR 0x22] @ ''postIdeas'' @ [CHR 0x22] @ '':[]}''"

definition examplePlan :: "unit json" where
  "examplePlan = JObject [(''competitorAnalysis'', JArray []), (''contentPillars'', JArray []),
     (''postIdeas'', JArray [])]"

definition parseExample :: "string \<Rightarrow> unit json option" where
  "parseExample s =
     (if s = ''{}'' then Some (JObject [])
      else if s = examplePlanText then Some examplePlan
      else None)"

text \<open>Surfaces that show the result of an earlier call, with valid inputs in their forms.\<close>

definition exampleFile :: File where
  "exampleFile = \<lparr>file_name = ''cat.png'', file_type = ''image/png'', file_size = 2048\<rparr>"

definition exampleImageState :: ImageGeneratorState where
  "exampleImageState =
     \<lparr>ig_prompt = ''a lion wearing a crown'', ig_aspectRatio = Ratio_1_1,
      ig_generatedImageUrl = Some ''data:image/jpeg;base64,AAAA'', ig_loading = False, ig_error = None\<rparr>"

definition examplePostState :: PostWriterState where
  "examplePostState =
     \<lparr>pw_topic = ''new coffee cups'', pw_tone = ''Casual'', pw_platform = ''Facebook'',
      pw_generatedPost = ''Our new cups are here!'', pw_loading = False, pw_error = None,
      pw_copySuccess = []\<rparr>"

definition exampleVideoState :: VideoGeneratorState where
  "exampleVideoState =
     \<lparr>vg_apiKeySelected = True, vg_checkingApiKey = False,
      vg_imageFile = Some exampleFile,
      vg_previewUrl = Some ''data:image/png;base64,AAAA'',
      vg_generatedVideoUrl = Some ''blob:previous'', vg_prompt = ''zoom out'',
      vg_aspectRatio = Ratio_16_9, vg_loading = False,
      vg_loadingMessage = ''Warming up the video engine...'', vg_error = None\<rparr>"

definition examplePlanState :: "unit MarketingPlanState" where
  "examplePlanState =
     \<lparr>mp_businessInfo = ''An artisanal coffee shop'', mp_competitorsInfo = ''The Daily Grind'',
      mp_plan = Some examplePlan, mp_grounding = None, mp_loading = False, mp_error = None\<rparr>"

definition exampleAnalysisState :: "unit BrandMarketAnalysisState" where
  "exampleAnalysisState =
     \<lparr>bma_brandMission = ''Sustainable coffee'', bma_targetAudience = ''Remote workers'',
      bma_brandTone = ''Friendly'', bma_competitorsInfo = ''The Daily Grind'',
      bma_analysis = Some (JObject []), bma_grounding = None, bma_loading = False,
      bma_error = None\<rparr>"

definition exampleInsightsState :: "unit LocalInsightsState" where
  "exampleInsightsState =
     \<lparr>li_geoData = Some (), li_query = ''popular cafes'',
      li_insights = Some ''Three cafes nearby'', li_grounding = None, li_loading = False,
      li_error = None\<rparr>"

definition exampleManagerState :: "unit json MultiPostManagerState" where
  "exampleManagerState =
     \<lparr>mpm_postContent = ''Our new cups are here!'', mpm_imageFile = None, mpm_previewUrl = None,
      mpm_selectedPlatforms = [''Facebook''], mpm_recommendations = Some (JArray []),
      mpm_loading = False, mpm_error = None\<rparr>"

definition exampleEditorState :: ImageEditorState where
  "exampleEditorState =
     \<lparr>ie_imageFile = Some exampleFile, ie_originalImageUrl = Some ''data:image/png;base64,AAAA'',
      ie_editedImageUrl = Some ''data:image/png;base64,BBBB'',
      ie_downloadableUrl = Some ''data:image/png;base64,BBBB'', ie_selectedFilter = Filter_sepia,
      ie_prompt = ''add a cat'', ie_loading = False, ie_error = None\<rparr>"

definition exampleUpscalerState :: ImageUpscalerState where
  "exampleUpscalerState =
     \<lparr>iu_imageFile = Some exampleFile, iu_originalImageUrl = Some ''data:image/png;base64,AAAA'',
      iu_upscaledImageUrl = Some ''data:image/png;base64,CCCC'', iu_loading = False,
      iu_error = None\<rparr>"

section \<open>Properties\<close>

subsection \<open>Grounding chunks\<close>

lemma foldl_pushChunk_web:
  "web (foldl pushChunk m cs) = web m @
     map (\<lambda>w. \<lparr>title = nullish (web_title w) ''Untitled'', uri = nullish (web_uri w) []\<rparr>)
       (List.map_filter chunk_web cs)"
  by (induction cs arbitrary: m)
     (auto simp: pushChunk_def List.map_filter_simps Let_def split: option.splits)

lemma foldl_pushChunk_maps:
  "maps (foldl pushChunk m cs) = maps m @
     map (\<lambda>p. \<lparr>title = nullish (maps_title p) ''Untitled'', uri = nullish (maps_uri p) [],
               placeId = maps_placeId p\<rparr>)
       (List.map_filter chunk_maps cs)"
  by (induction cs arbitrary: m)
     (auto simp: pushChunk_def List.map_filter_simps Let_def split: option.splits)

lemma parseGroundingChunks_nonempty:
  "cs \<noteq> [] \<Longrightarrow> parseGroundingChunks (Some cs) =
     Some \<lparr>web = map (\<lambda>w. \<lparr>title = nullish (web_title w) ''Untitled'', uri = nullish (web_uri w) []\<rparr>)
                 (List.map_filter chunk_web cs),
           maps = map (\<lambda>p. \<lparr>title = nullish (maps_title p) ''Untitled'', uri = nullish (maps_uri p) [],
               placeId = maps_placeId p\<rparr>) (List.map_filter chunk_maps cs)\<rparr>"
  by (simp add: parseGroundingChunks_def foldl_pushChunk_web foldl_pushChunk_maps)

lemma map_filter_all_Some:
  "\<forall>c\<in>set cs. f c \<noteq> None \<Longrightarrow> List.map_filter f cs = map (\<lambda>c. the (f c)) cs"
  by (induction cs) (auto simp: List.map_filter_simps)

lemma map_filter_all_None:
  "\<forall>c\<in>set cs. f c = None \<Longrightarrow> List.map_filter f cs = []"
  by (induction cs) (auto simp: List.map_filter_simps)

text \<open>
  Claim C2, as stated, fails: for a maps chunk without a title the normalizer
  substitutes \<open>''Untitled''\<close>, not \<open>''Untitled Place''\<close>. Input: one maps chunk with no
  title, no URI and no place id.
\<close>

theorem maps_default_title_counterexample:
  "parseGroundingChunks (Some [\<lparr>chunk_web = None,
       chunk_maps = Some \<lparr>maps_title = None, maps_uri = None, maps_placeId = None\<rparr>\<rparr>])
     = Some \<lparr>web = [], maps = [\<lparr>title = ''Untitled'', uri = [], placeId = None\<rparr>]\<rparr>
   \<and> parseGroundingChunks (Some [\<lparr>chunk_web = None,
       chunk_maps = Some \<lparr>maps_title = None, maps_uri = None, maps_placeId = None\<rparr>\<rparr>])
     \<noteq> Some \<lparr>web = [], maps = [\<lparr>title = ''Untitled Place'', uri = [], placeId = None\<rparr>]\<rparr>"
  by (simp add: parseGroundingChunks_def pushChunk_def nullish_def)

text \<open>
  Claim C2, amended: for a non-empty chunk list, \<^verbatim>\<open>parseGroundingChunks\<close> returns one web
  source per \<^verbatim>\<open>web\<close> member and one maps source per \<^verbatim>\<open>maps\<close> member, in the order of
  the chunks; a member without a title gets the title \<open>''Untitled''\<close>, for web and for
  maps alike, a member without a URI gets the empty string as its uri, and a maps source
  keeps the place id as it is.
\<close>

theorem parseGroundingChunks_defaults:
  assumes "chunks \<noteq> []"
  shows "\<exists>metadata. parseGroundingChunks (Some chunks) = Some metadata
     \<and> web metadata =
         map (\<lambda>w. \<lparr>title = (case web_title w of None \<Rightarrow> ''Untitled'' | Some t \<Rightarrow> t),
                   uri = (case web_uri w of None \<Rightarrow> [] | Some u \<Rightarrow> u)\<rparr>)
           (List.map_filter chunk_web chunks)
     \<and> maps metadata =
         map (\<lambda>p. \<lparr>title = (case maps_title p of None \<Rightarrow> ''Untitled'' | Some t \<Rightarrow> t),
                   uri = (case maps_uri p of None \<Rightarrow> [] | Some u \<Rightarrow> u),
                   placeId = maps_placeId p\<rparr>)
           (List.map_filter chunk_maps chunks)"
  using parseGroundingChunks_nonempty [OF assms] by (simp add: nullish_def)

text \<open>
  Witness for C2: a web chunk and a maps chunk, both without a title, the first also
  without a URI.
\<close>

theorem parseGroundingChunks_defaults_witness:
  "[\<lparr>chunk_web = Some \<lparr>web_title = None, web_uri = None\<rparr>, chunk_maps = None\<rparr>,
    \<lparr>chunk_web = None,
     chunk_maps = Some \<lparr>maps_title = None, maps_uri = Some ''https://maps.example/p'',
       maps_placeId = Some ''p''\<rparr>\<rparr>] \<noteq> []
   \<and> parseGroundingChunks (Some
       [\<lparr>chunk_web = Some \<lparr>web_title = None, web_uri = None\<rparr>, chunk_maps = None\<rparr>,
        \<lparr>chunk_web = None,
         chunk_maps = Some \<lparr>maps_title = None, maps_uri = Some ''https://maps.example/p'',
           maps_placeId = Some ''p''\<rparr>\<rparr>])
     = Some \<lparr>web = [\<lparr>title = ''Untitled'', uri = []\<rparr>],
             maps = [\<lparr>title = ''Untitled'', uri = ''https://maps.example/p'', placeId = Some ''p''\<rparr>]\<rparr>"
  using parseGroundingChunks_defaults
    [of "[\<lparr>chunk_web = Some \<lparr>web_title = None, web_uri = None\<rparr>, chunk_maps = None\<rparr>,
        \<lparr>chunk_web = None,
         chunk_maps = Some \<lparr>maps_title = None, maps_uri = Some ''https://maps.example/p'',
           maps_placeId = Some ''p''\<rparr>\<rparr>]"]
  by (auto simp: List.map_filter_simps)

text \<open>
  The guard at the head of \<^verbatim>\<open>parseGroundingChunks\<close>: where no chunks are present, the
  result is \<^verbatim>\<open>null\<close>.
\<close>

lemma parseGroundingChunks_no_chunks:
  "parseGroundingChunks None = None \<and> parseGroundingChunks (Some []) = None"
  by (simp add: parseGroundingChunks_def)

text \<open>
  Claim C8: for every chunk list that holds chunks, all of them web chunks,
  \<^verbatim>\<open>parseGroundingChunks\<close> returns a result whose maps sequence is empty and whose web
  sequence has one source per chunk, the \<open>i\<close>-th source built from the \<open>i\<close>-th chunk.
\<close>

theorem parseGroundingChunks_web_only:
  assumes "chunks \<noteq> []" and "list_all isWebChunk chunks"
  shows "\<exists>metadata. parseGroundingChunks (Some chunks) = Some metadata
     \<and> maps metadata = []
     \<and> length (web metadata) = length chunks
     \<and> (\<forall>i < length chunks. \<exists>w. chunk_web (chunks ! i) = Some w
           \<and> title (web metadata ! i) = (case web_title w of None \<Rightarrow> ''Untitled'' | Some t \<Rightarrow> t)
           \<and> uri (web metadata ! i) = (case web_uri w of None \<Rightarrow> [] | Some u \<Rightarrow> u))"
proof -
  have w: "\<forall>c\<in>set chunks. chunk_web c \<noteq> None" and m: "\<forall>c\<in>set chunks. chunk_maps c = None"
    using assms(2) by (auto simp: list_all_iff isWebChunk_def)
  have "List.map_filter chunk_web chunks = map (\<lambda>c. the (chunk_web c)) chunks"
    using w by (rule map_filter_all_Some)
  moreover have "List.map_filter chunk_maps chunks = []"
    using m by (rule map_filter_all_None)
  ultimately have "parseGroundingChunks (Some chunks) =
     Some \<lparr>web = map (\<lambda>c. \<lparr>title = nullish (web_title (the (chunk_web c))) ''Untitled'',
                            uri = nullish (web_uri (the (chunk_web c))) []\<rparr>) chunks,
           maps = []\<rparr>"
    using parseGroundingChunks_nonempty [OF assms(1)] by (simp add: comp_def)
  moreover have "\<forall>i < length chunks. \<exists>w. chunk_web (chunks ! i) = Some w"
    using w by (metis nth_mem not_None_eq)
  ultimately show ?thesis
    by (auto simp: nullish_def)
qed

text \<open>Witness for C8: two web chunks, the second without a title.\<close>

theorem parseGroundingChunks_web_only_witness:
  "[\<lparr>chunk_web = Some \<lparr>web_title = Some ''A'', web_uri = Some ''https://a.example''\<rparr>, chunk_maps = None\<rparr>,
    \<lparr>chunk_web = Some \<lparr>web_title = None, web_uri = Some ''https://b.example''\<rparr>, chunk_maps = None\<rparr>]
     \<noteq> []
   \<and> list_all isWebChunk
     [\<lparr>chunk_web = Some \<lparr>web_title = Some ''A'', web_uri = Some ''https://a.example''\<rparr>, chunk_maps = None\<rparr>,
      \<lparr>chunk_web = Some \<lparr>web_title = None, web_uri = Some ''https://b.example''\<rparr>, chunk_maps = None\<rparr>]
   \<and> parseGroundingChunks (Some
     [\<lparr>chunk_web = Some \<lparr>web_title = Some ''A'', web_uri = Some ''https://a.example''\<rparr>, chunk_maps = None\<rparr>,
      \<lparr>chunk_web = Some \<lparr>web_title = None, web_uri = Some ''https://b.example''\<rparr>, chunk_maps = None\<rparr>])
     = Some \<lparr>web = [\<lparr>title = ''A'', uri = ''https://a.example''\<rparr>,
                     \<lparr>title = ''Untitled'', uri = ''https://b.example''\<rparr>],
             maps = []\<rparr>"
  using parseGroundingChunks_web_only
    [of "[\<lparr>chunk_web = Some \<lparr>web_title = Some ''A'', web_uri = Some ''https://a.example''\<rparr>, chunk_maps = None\<rparr>,
      \<lparr>chunk_web = Some \<lparr>web_title = None, web_uri = Some ''https://b.example''\<rparr>, chunk_maps = None\<rparr>]"]
  by (simp add: isWebChunk_def parseGroundingChunks_def pushChunk_def nullish_def)

subsection \<open>The poller\<close>

lemma pollLoop_run:
  "\<not> isDone operation \<Longrightarrow>
   (\<forall>j<n. \<exists>operation'. status (k + j) = Inr operation' \<and> \<not> isDone operation') \<Longrightarrow>
   status (k + n) = Inr operationN \<Longrightarrow> isDone operationN \<Longrightarrow>
   \<exists>handles. length handles = n + 1 \<and> hd handles = operation \<and>
     (\<forall>j<n. status (k + j) = Inr (handles ! (j + 1))) \<and>
     pollLoop status k operation trace = Some (Inr operationN, trace @ pollEvents handles)"
proof (induction n arbitrary: k operation trace)
  case 0
  then have "pollLoop status k operation trace
      = pollLoop status (Suc k) operationN (trace @ [Wait 10000, GetVideosOperation operation])"
    by (subst pollLoop.simps) simp
  also have "\<dots> = Some (Inr operationN, trace @ [Wait 10000, GetVideosOperation operation])"
    using 0 by (subst pollLoop.simps) simp
  finally have "pollLoop status k operation trace = Some (Inr operationN, trace @ pollEvents [operation])"
    by (simp add: pollEvents_def)
  then show ?case by (intro exI[of _ "[operation]"]) simp
next
  case (Suc n)
  from Suc.prems(2) obtain operation' where o': "status k = Inr operation'" "\<not> isDone operation'"
    by (metis add.right_neutral zero_less_Suc)
  have step: "pollLoop status k operation trace
      = pollLoop status (Suc k) operation' (trace @ [Wait 10000, GetVideosOperation operation])"
    using Suc.prems(1) o' by (subst pollLoop.simps) simp
  have "\<forall>j<n. \<exists>operation'. status (Suc k + j) = Inr operation' \<and> \<not> isDone operation'"
    using Suc.prems(2) by (metis Suc_less_eq add_Suc_shift)
  moreover have "status (Suc k + n) = Inr operationN" using Suc.prems(3) by simp
  ultimately obtain handles where h: "length handles = n + 1" "hd handles = operation'"
     "\<forall>j<n. status (Suc k + j) = Inr (handles ! (j + 1))"
     "pollLoop status (Suc k) operation' (trace @ [Wait 10000, GetVideosOperation operation])
        = Some (Inr operationN, (trace @ [Wait 10000, GetVideosOperation operation]) @ pollEvents handles)"
    using Suc.IH [OF o'(2) _ _ Suc.prems(4)] by blast
  have run: "pollLoop status k operation trace = Some (Inr operationN, trace @ pollEvents (operation # handles))"
    using step h(4) by (simp add: pollEvents_def)
  have "handles \<noteq> []" using h(1) by auto
  then have h0: "handles ! 0 = operation'" using h(2) by (simp add: hd_conv_nth)
  have "status (k + j) = Inr ((operation # handles) ! (j + 1))" if "j < Suc n" for j
  proof (cases j)
    case 0
    then show ?thesis using o'(1) h0 by simp
  next
    case (Suc j')
    then have "j' < n" using that by simp
    then show ?thesis using h(3) Suc by simp
  qed
  then show ?case using h(1) run by (intro exI[of _ "operation # handles"]) simp
qed

lemma pollLoop_trace:
  assumes "pollLoop status k operation trace = Some y"
  shows "\<exists>handles. snd y = trace @ pollEvents handles"
proof (rule pollLoop.raw_induct [OF _ assms])
  fix f status k operation trace y
  assume IH: "\<And>status k operation trace y.
      f status k operation trace = Some y \<Longrightarrow> \<exists>handles. snd y = trace @ pollEvents handles"
    and eq: "(if isDone operation then Some (Inr operation, trace)
      else case status k of
           Inl e \<Rightarrow> Some (Inl e, trace @ [Wait 10000, GetVideosOperation operation])
         | Inr operation' \<Rightarrow>
               f status (Suc k) operation' (trace @ [Wait 10000, GetVideosOperation operation])) =
     Some y"
  show "\<exists>handles. snd y = trace @ pollEvents handles"
  proof (cases "isDone operation")
    case True
    then have "snd y = trace" using eq by auto
    then show ?thesis by (intro exI[of _ "[]"]) (simp add: pollEvents_def)
  next
    case False
    show ?thesis
    proof (cases "status k")
      case (Inl e)
      then have "snd y = trace @ pollEvents [operation]" using eq False by (auto simp add: pollEvents_def)
      then show ?thesis by blast
    next
      case (Inr operation')
      then have "f status (Suc k) operation' (trace @ [Wait 10000, GetVideosOperation operation]) = Some y"
        using eq False by simp
      then obtain handles where "snd y = (trace @ [Wait 10000, GetVideosOperation operation]) @ pollEvents handles"
        using IH by blast
      then have "snd y = trace @ pollEvents (operation # handles)" by (simp add: pollEvents_def)
      then show ?thesis by blast
    qed
  qed
qed

lemma pollEvents_Cons: "pollEvents (h # hs) = Wait 10000 # GetVideosOperation h # pollEvents hs"
  by (simp add: pollEvents_def)

lemma pollEvents_Nil: "pollEvents [] = []"
  by (simp add: pollEvents_def)

lemma filter_isStatusCheck_pollEvents:
  "filter isStatusCheck (pollEvents hs) = map GetVideosOperation hs"
  by (induction hs) (simp_all add: pollEvents_Cons pollEvents_Nil)

lemma filter_isSubmission_pollEvents: "filter isSubmission (pollEvents hs) = []"
  by (induction hs) (simp_all add: pollEvents_Cons pollEvents_Nil)

lemma pollEvents_preceded:
  "i < length (pollEvents hs) \<Longrightarrow> isStatusCheck (pollEvents hs ! i) \<Longrightarrow>
     0 < i \<and> pollEvents hs ! (i - 1) = Wait 10000"
proof (induction hs arbitrary: i)
  case Nil
  then show ?case by (simp add: pollEvents_Nil)
next
  case (Cons h hs)
  consider "i = 0" | "i = 1" | j where "i = Suc (Suc j)"
    by (metis One_nat_def not0_implies_Suc)
  then show ?case
  proof cases
    case 1
    then show ?thesis using Cons.prems by (simp add: pollEvents_Cons)
  next
    case 2
    then show ?thesis by (simp add: pollEvents_Cons)
  next
    case 3
    then have "j < length (pollEvents hs)" "isStatusCheck (pollEvents hs ! j)"
      using Cons.prems by (simp_all add: pollEvents_Cons)
    then have "0 < j \<and> pollEvents hs ! (j - 1) = Wait 10000" by (rule Cons.IH)
    then show ?thesis using 3 by (cases j) (simp_all add: pollEvents_Cons)
  qed
qed

lemma finishVideo_cases:
  "\<exists>result rest. finishVideo key backend operation trace = (result, trace @ rest)
     \<and> (rest = [] \<or> (\<exists>url. rest = [Fetch url]))"
  by (auto simp: finishVideo_def Let_def split: option.splits sum.splits)

lemma run_preceded:
  assumes "rest = [] \<or> (\<exists>url. rest = [Fetch url])"
    and "i < length (GenerateVideos req # pollEvents hs @ rest)"
    and "isStatusCheck ((GenerateVideos req # pollEvents hs @ rest) ! i)"
  shows "0 < i \<and> (GenerateVideos req # pollEvents hs @ rest) ! (i - 1) = Wait 10000"
proof (cases i)
  case 0
  then show ?thesis using assms(3) by simp
next
  case (Suc j)
  have inside: "j < length (pollEvents hs)"
  proof (rule ccontr)
    assume "\<not> j < length (pollEvents hs)"
    then have "(pollEvents hs @ rest) ! j = rest ! (j - length (pollEvents hs))"
      by (simp add: nth_append)
    moreover have "j - length (pollEvents hs) < length rest"
      using assms(2) Suc \<open>\<not> j < length (pollEvents hs)\<close> by simp
    ultimately show False using assms(1,3) Suc by auto
  qed
  then have "isStatusCheck (pollEvents hs ! j)" using assms(3) Suc by (simp add: nth_append)
  with inside have j: "0 < j \<and> pollEvents hs ! (j - 1) = Wait 10000" by (rule pollEvents_preceded)
  then have "(GenerateVideos req # pollEvents hs @ rest) ! j = Wait 10000"
    using inside by (cases j) (simp_all add: nth_append)
  then show ?thesis using Suc by simp
qed
lemma generateVideo_pending_run:
  assumes key: "getApiKey API_KEY = Inr key"
    and submit: "generateVideos backend (videoRequest base64Image mimeType prompt0 ratio) = Inr operation0"
    and pending: "\<not> isDone operation0"
    and notDone: "\<forall>k<N. \<exists>operation. getVideosOperation backend k = Inr operation \<and> \<not> isDone operation"
    and fin: "getVideosOperation backend N = Inr operationN" "isDone operationN"
  shows "\<exists>result handles rest.
      generateVideo API_KEY backend base64Image mimeType prompt0 ratio
        = Some (result, GenerateVideos (videoRequest base64Image mimeType prompt0 ratio) # pollEvents handles @ rest)
    \<and> length handles = N + 1
    \<and> hd handles = operation0
    \<and> (\<forall>k<N. getVideosOperation backend k = Inr (handles ! (k + 1)))
    \<and> (rest = [] \<or> (\<exists>url. rest = [Fetch url]))
    \<and> finishVideo key backend operationN
          (GenerateVideos (videoRequest base64Image mimeType prompt0 ratio) # pollEvents handles)
        = (result, GenerateVideos (videoRequest base64Image mimeType prompt0 ratio) # pollEvents handles @ rest)"
proof -
  let ?req = "videoRequest base64Image mimeType prompt0 ratio"
  obtain handles where h: "length handles = N + 1" "hd handles = operation0"
    "\<forall>k<N. getVideosOperation backend k = Inr (handles ! (k + 1))"
    "pollLoop (getVideosOperation backend) 0 operation0 [GenerateVideos ?req]
       = Some (Inr operationN, [GenerateVideos ?req] @ pollEvents handles)"
    using pollLoop_run [of operation0 N "getVideosOperation backend" 0 operationN "[GenerateVideos ?req]"]
      pending notDone fin by auto
  obtain result rest where f: "finishVideo key backend operationN (GenerateVideos ?req # pollEvents handles)
      = (result, (GenerateVideos ?req # pollEvents handles) @ rest)"
    "rest = [] \<or> (\<exists>url. rest = [Fetch url])"
    using finishVideo_cases by blast
  have g: "generateVideo API_KEY backend base64Image mimeType prompt0 ratio
      = Some (result, GenerateVideos ?req # pollEvents handles @ rest)"
    using key submit h(4) f(1) by (simp add: generateVideo_def)
  show ?thesis
    using g h(1,2,3) f by (intro exI[of _ result] exI[of _ handles] exI[of _ rest]) simp
qed

lemma generateVideo_submission_done:
  assumes key: "getApiKey API_KEY = Inr key"
    and submit: "generateVideos backend (videoRequest base64Image mimeType prompt0 ratio) = Inr operation0"
    and fin: "isDone operation0"
  shows "generateVideo API_KEY backend base64Image mimeType prompt0 ratio
      = Some (finishVideo key backend operation0
          [GenerateVideos (videoRequest base64Image mimeType prompt0 ratio)])"
proof -
  have "pollLoop (getVideosOperation backend) 0 operation0
      [GenerateVideos (videoRequest base64Image mimeType prompt0 ratio)]
    = Some (Inr operation0, [GenerateVideos (videoRequest base64Image mimeType prompt0 ratio)])"
    using fin by (subst pollLoop.simps) simp
  then show ?thesis using key submit by (simp add: generateVideo_def)
qed

text \<open>
  Claim C4, as stated, fails. The loop tests the answer of the submission before it
  makes any status check, so that answer is the first report of the backend. Where the
  submission is answered \<^verbatim>\<open>done=true\<close>, the backend has reported \<^verbatim>\<open>done=false\<close> no
  time, and the run makes no status check, not one. Where the submission and the first
  two status checks are answered \<^verbatim>\<open>done=false\<close> and the third check \<^verbatim>\<open>done=true\<close>, the
  backend has reported \<^verbatim>\<open>done=false\<close> three times, and the run makes three status
  checks, not four.
\<close>

theorem generateVideo_done_at_once_counterexample:
  "report (promptBackend (Some ''https://v.example/1?alt=media''))
       (videoRequest ''img'' ''image/png'' ''zoom out'' Ratio_9_16) 0
     = Inr (completedOperation (Some ''https://v.example/1?alt=media''))
   \<and> isDone (completedOperation (Some ''https://v.example/1?alt=media''))
   \<and> generateVideo (Some ''k'') (promptBackend (Some ''https://v.example/1?alt=media''))
         ''img'' ''image/png'' ''zoom out'' Ratio_9_16
       = Some (Inr ''blob:payload'',
           [GenerateVideos (videoRequest ''img'' ''image/png'' ''zoom out'' Ratio_9_16),
            Fetch ''https://v.example/1?alt=media&key=k''])
   \<and> length (filter isStatusCheck
         [GenerateVideos (videoRequest ''img'' ''image/png'' ''zoom out'' Ratio_9_16),
          Fetch ''https://v.example/1?alt=media&key=k'']) = 0
   \<and> map (report (exampleBackend (Some ''https://v.example/1?alt=media'') True)
            (videoRequest ''img'' ''image/png'' ''zoom out'' Ratio_9_16)) [0, 1, 2, 3]
       = [Inr pendingOperation, Inr pendingOperation, Inr pendingOperation,
          Inr (completedOperation (Some ''https://v.example/1?alt=media''))]
   \<and> \<not> isDone pendingOperation
   \<and> generateVideo (Some ''k'') (exampleBackend (Some ''https://v.example/1?alt=media'') True)
         ''img'' ''image/png'' ''zoom out'' Ratio_9_16
       = Some (Inr ''blob:payload'',
           [GenerateVideos (videoRequest ''img'' ''image/png'' ''zoom out'' Ratio_9_16),
            Wait 10000, GetVideosOperation pendingOperation,
            Wait 10000, GetVideosOperation pendingOperation,
            Wait 10000, GetVideosOperation pendingOperation,
            Fetch ''https://v.example/1?alt=media&key=k''])
   \<and> length (filter isStatusCheck
         [GenerateVideos (videoRequest ''img'' ''image/png'' ''zoom out'' Ratio_9_16),
          Wait 10000, GetVideosOperation pendingOperation,
          Wait 10000, GetVideosOperation pendingOperation,
          Wait 10000, GetVideosOperation pendingOperation,
          Fetch ''https://v.example/1?alt=media&key=k'']) = 3"
  by (simp add: report_def generateVideo_def getApiKey_def promptBackend_def exampleBackend_def
      pollLoop.simps isDone_def pendingOperation_def completedOperation_def finishVideo_def
      downloadLink_def)

text \<open>
  Claim C4, amended: where the first \<open>M\<close> answers of the backend, the answer of the
  submission being the first of them and those of the status checks the following ones,
  report \<^verbatim>\<open>done=false\<close> and the next answer reports \<^verbatim>\<open>done=true\<close>, a run of
  \<^verbatim>\<open>generateVideo\<close> returns, having issued exactly \<open>M\<close> status checks, each right after a
  wait of 10000 milliseconds. That is no check where the submission is answered
  \<^verbatim>\<open>done=true\<close>, and \<open>N + 1\<close> checks where the submission and the first \<open>N\<close> checks are
  answered \<^verbatim>\<open>done=false\<close>. The \<open>k\<close>-th check passes the handle that answer \<open>k\<close> carried;
  the result is what the statements after the loop make of the answer that reports
  \<^verbatim>\<open>done=true\<close>, and nothing but at most one fetch follows the checks.
\<close>

theorem generateVideo_polls:
  assumes key: "getApiKey API_KEY = Inr key"
    and notDone: "\<forall>k<M. \<exists>operation.
        report backend (videoRequest base64Image mimeType prompt0 ratio) k = Inr operation
        \<and> \<not> isDone operation"
    and fin: "report backend (videoRequest base64Image mimeType prompt0 ratio) M = Inr operationM"
      "isDone operationM"
  shows "\<exists>result trace handles rest.
      generateVideo API_KEY backend base64Image mimeType prompt0 ratio = Some (result, trace)
    \<and> length handles = M
    \<and> (\<forall>k<M. report backend (videoRequest base64Image mimeType prompt0 ratio) k = Inr (handles ! k))
    \<and> trace = GenerateVideos (videoRequest base64Image mimeType prompt0 ratio) # pollEvents handles @ rest
    \<and> (rest = [] \<or> (\<exists>url. rest = [Fetch url]))
    \<and> (result, trace) = finishVideo key backend operationM
          (GenerateVideos (videoRequest base64Image mimeType prompt0 ratio) # pollEvents handles)
    \<and> length (filter isStatusCheck trace) = M
    \<and> (\<forall>i<length trace. isStatusCheck (trace ! i) \<longrightarrow> 0 < i \<and> trace ! (i - 1) = Wait 10000)"
proof -
  let ?req = "videoRequest base64Image mimeType prompt0 ratio"
  have "\<exists>result handles rest.
      generateVideo API_KEY backend base64Image mimeType prompt0 ratio
        = Some (result, GenerateVideos ?req # pollEvents handles @ rest)
    \<and> length handles = M
    \<and> (\<forall>k<M. report backend ?req k = Inr (handles ! k))
    \<and> (rest = [] \<or> (\<exists>url. rest = [Fetch url]))
    \<and> finishVideo key backend operationM (GenerateVideos ?req # pollEvents handles)
        = (result, GenerateVideos ?req # pollEvents handles @ rest)"
  proof (cases M)
    case 0
    then have submit: "generateVideos backend ?req = Inr operationM"
      using fin(1) by (simp add: report_def)
    obtain result rest where f: "finishVideo key backend operationM [GenerateVideos ?req]
        = (result, [GenerateVideos ?req] @ rest)" "rest = [] \<or> (\<exists>url. rest = [Fetch url])"
      using finishVideo_cases by blast
    have "generateVideo API_KEY backend base64Image mimeType prompt0 ratio
        = Some (result, [GenerateVideos ?req] @ rest)"
      using generateVideo_submission_done [OF key submit fin(2)] f(1) by simp
    then show ?thesis
      using 0 f by (intro exI[of _ result] exI[of _ "[]"] exI[of _ rest]) (simp add: pollEvents_Nil)
  next
    case (Suc N)
    obtain operation0 where o: "generateVideos backend ?req = Inr operation0" "\<not> isDone operation0"
      using notDone [rule_format, of 0] Suc by (auto simp: report_def)
    have nd: "\<forall>k<N. \<exists>operation. getVideosOperation backend k = Inr operation \<and> \<not> isDone operation"
    proof (intro allI impI)
      fix k assume "k < N"
      then have "Suc k < M" using Suc by simp
      then show "\<exists>operation. getVideosOperation backend k = Inr operation \<and> \<not> isDone operation"
        using notDone [rule_format, of "Suc k"] by (simp add: report_def)
    qed
    have last: "getVideosOperation backend N = Inr operationM"
      using fin(1) Suc by (simp add: report_def)
    obtain result handles rest where r:
      "generateVideo API_KEY backend base64Image mimeType prompt0 ratio
         = Some (result, GenerateVideos ?req # pollEvents handles @ rest)"
      "length handles = N + 1" "hd handles = operation0"
      "\<forall>k<N. getVideosOperation backend k = Inr (handles ! (k + 1))"
      "rest = [] \<or> (\<exists>url. rest = [Fetch url])"
      "finishVideo key backend operationM (GenerateVideos ?req # pollEvents handles)
         = (result, GenerateVideos ?req # pollEvents handles @ rest)"
      using generateVideo_pending_run [OF key o(1) o(2) nd last fin(2)] by blast
    have "handles \<noteq> []" using r(2) by auto
    then have h0: "handles ! 0 = operation0" using r(3) by (simp add: hd_conv_nth)
    have "report backend ?req k = Inr (handles ! k)" if "k < M" for k
    proof (cases k)
      case 0
      then show ?thesis using o(1) h0 by (simp add: report_def)
    next
      case (Suc j)
      then have "j < N" using that \<open>M = Suc N\<close> by simp
      then show ?thesis using r(4) Suc by (simp add: report_def)
    qed
    then show ?thesis
      using r(1,2,5,6) Suc by (intro exI[of _ result] exI[of _ handles] exI[of _ rest]) simp
  qed
  then obtain result handles rest where r:
    "generateVideo API_KEY backend base64Image mimeType prompt0 ratio
       = Some (result, GenerateVideos ?req # pollEvents handles @ rest)"
    "length handles = M"
    "\<forall>k<M. report backend ?req k = Inr (handles ! k)"
    "rest = [] \<or> (\<exists>url. rest = [Fetch url])"
    "finishVideo key backend operationM (GenerateVideos ?req # pollEvents handles)
       = (result, GenerateVideos ?req # pollEvents handles @ rest)"
    by blast
  let ?trace = "GenerateVideos ?req # pollEvents handles @ rest"
  have "filter isStatusCheck rest = []" using r(4) by auto
  then have c: "length (filter isStatusCheck ?trace) = M"
    using r(2) by (simp add: filter_isStatusCheck_pollEvents)
  have p: "\<forall>i<length ?trace. isStatusCheck (?trace ! i) \<longrightarrow> 0 < i \<and> ?trace ! (i - 1) = Wait 10000"
    using run_preceded [OF r(4)] by blast
  show ?thesis
    using r c p by (intro exI[of _ result] exI[of _ ?trace] exI[of _ handles] exI[of _ rest]) simp
qed

text \<open>
  Witness for C4, with \<open>M = 3\<close>: the submission and the first two status checks are
  answered with a pending handle, the third check with the completed one; three status
  checks.
\<close>

theorem generateVideo_polls_witness:
  "getApiKey (Some ''k'') = Inr ''k''
   \<and> report (exampleBackend (Some ''https://v.example/1?alt=media'') True)
         (videoRequest ''img'' ''image/png'' ''zoom out'' Ratio_9_16) 0 = Inr pendingOperation
   \<and> report (exampleBackend (Some ''https://v.example/1?alt=media'') True)
         (videoRequest ''img'' ''image/png'' ''zoom out'' Ratio_9_16) 1 = Inr pendingOperation
   \<and> report (exampleBackend (Some ''https://v.example/1?alt=media'') True)
         (videoRequest ''img'' ''image/png'' ''zoom out'' Ratio_9_16) 2 = Inr pendingOperation
   \<and> \<not> isDone pendingOperation
   \<and> report (exampleBackend (Some ''https://v.example/1?alt=media'') True)
         (videoRequest ''img'' ''image/png'' ''zoom out'' Ratio_9_16) 3
         = Inr (completedOperation (Some ''https://v.example/1?alt=media''))
   \<and> isDone (completedOperation (Some ''https://v.example/1?alt=media''))
   \<and> (\<exists>result trace.
         generateVideo (Some ''k'') (exampleBackend (Some ''https://v.example/1?alt=media'') True)
           ''img'' ''image/png'' ''zoom out'' Ratio_9_16 = Some (result, trace)
         \<and> length (filter isStatusCheck trace) = 3)
   \<and> generateVideo (Some ''k'') (exampleBackend (Some ''https://v.example/1?alt=media'') True)
         ''img'' ''image/png'' ''zoom out'' Ratio_9_16
       = Some (Inr ''blob:payload'',
           [GenerateVideos (videoRequest ''img'' ''image/png'' ''zoom out'' Ratio_9_16),
            Wait 10000, GetVideosOperation pendingOperation,
            Wait 10000, GetVideosOperation pendingOperation,
            Wait 10000, GetVideosOperation pendingOperation,
            Fetch ''https://v.example/1?alt=media&key=k''])"
proof -
  let ?b = "exampleBackend (Some ''https://v.example/1?alt=media'') True"
  let ?c = "completedOperation (Some ''https://v.example/1?alt=media'')"
  let ?req = "videoRequest ''img'' ''image/png'' ''zoom out'' Ratio_9_16"
  have h1: "getApiKey (Some ''k'') = Inr ''k''" by (simp add: getApiKey_def)
  have r0: "report ?b ?req 0 = Inr pendingOperation"
    and r1: "report ?b ?req 1 = Inr pendingOperation"
    and r2: "report ?b ?req 2 = Inr pendingOperation"
    by (simp_all add: report_def exampleBackend_def)
  have h3: "\<not> isDone pendingOperation" by (simp add: isDone_def pendingOperation_def)
  have h4: "\<forall>k<3. \<exists>operation. report ?b ?req k = Inr operation \<and> \<not> isDone operation"
  proof (intro allI impI)
    fix k :: nat assume "k < 3"
    then have "k = 0 \<or> k = 1 \<or> k = 2" by arith
    then show "\<exists>operation. report ?b ?req k = Inr operation \<and> \<not> isDone operation"
      using r0 r1 r2 h3 by auto
  qed
  have h5: "report ?b ?req 3 = Inr ?c" by (simp add: report_def exampleBackend_def)
  have h6: "isDone ?c" by (simp add: isDone_def completedOperation_def)
  have run: "generateVideo (Some ''k'') ?b ''img'' ''image/png'' ''zoom out'' Ratio_9_16
       = Some (Inr ''blob:payload'',
           [GenerateVideos ?req,
            Wait 10000, GetVideosOperation pendingOperation,
            Wait 10000, GetVideosOperation pendingOperation,
            Wait 10000, GetVideosOperation pendingOperation,
            Fetch ''https://v.example/1?alt=media&key=k''])"
    by (simp add: generateVideo_def getApiKey_def exampleBackend_def pollLoop.simps isDone_def
        pendingOperation_def completedOperation_def finishVideo_def downloadLink_def)
  from generateVideo_polls [OF h1 h4 h5 h6]
  have "\<exists>result trace.
         generateVideo (Some ''k'') ?b ''img'' ''image/png'' ''zoom out'' Ratio_9_16 = Some (result, trace)
         \<and> length (filter isStatusCheck trace) = 3"
    by blast
  then show ?thesis using h1 r0 r1 r2 h3 h5 h6 run by blast
qed

lemma pollLoop_trace_from_submission:
  assumes "pollLoop status 0 operation0 [GenerateVideos request] = Some (r, trace)"
  shows "\<exists>handles. trace = GenerateVideos request # pollEvents handles"
  using pollLoop_trace [OF assms] by simp
text \<open>
  Claim C6: in a run whose loop has ended with the completed operation \<open>operation\<close>, if
  that operation carries no result URI (none, or the empty string, which
  \<^verbatim>\<open>!downloadLink\<close> treats alike) the call fails with \<open>GenerationFailed\<close> and the run
  ends there: one submission, the status checks, no fetch. If it carries a URI and the
  response of the fetch is not \<^verbatim>\<open>ok\<close>, the call fails with \<open>DownloadFailed\<close> after that
  one fetch, and returns no result.
\<close>

theorem generateVideo_terminal_failures:
  assumes key: "getApiKey API_KEY = Inr key"
    and submit: "generateVideos backend (videoRequest base64Image mimeType prompt0 ratio) = Inr operation0"
    and loop: "pollLoop (getVideosOperation backend) 0 operation0
        [GenerateVideos (videoRequest base64Image mimeType prompt0 ratio)] = Some (Inr operation, trace)"
  shows "(\<exists>handles. trace = GenerateVideos (videoRequest base64Image mimeType prompt0 ratio) # pollEvents handles)
    \<and> filter isSubmission trace = [GenerateVideos (videoRequest base64Image mimeType prompt0 ratio)]
    \<and> (downloadLink operation = None \<or> downloadLink operation = Some [] \<longrightarrow>
          generateVideo API_KEY backend base64Image mimeType prompt0 ratio = Some (Inl GenerationFailed, trace))
    \<and> (\<forall>link response.
          downloadLink operation = Some link \<and> link \<noteq> []
          \<and> fetch backend (link @ ''&key='' @ key) = Inr response \<and> \<not> ok response \<longrightarrow>
          generateVideo API_KEY backend base64Image mimeType prompt0 ratio
            = Some (Inl DownloadFailed, trace @ [Fetch (link @ ''&key='' @ key)]))"
proof -
  let ?req = "videoRequest base64Image mimeType prompt0 ratio"
  obtain handles where t: "trace = GenerateVideos ?req # pollEvents handles"
    using pollLoop_trace_from_submission [OF loop] by blast
  then have s: "filter isSubmission trace = [GenerateVideos ?req]"
    by (simp add: filter_isSubmission_pollEvents)
  have g: "generateVideo API_KEY backend base64Image mimeType prompt0 ratio
      = Some (finishVideo key backend operation trace)"
    using key submit loop by (simp add: generateVideo_def)
  have a: "downloadLink operation = None \<or> downloadLink operation = Some [] \<longrightarrow>
      finishVideo key backend operation trace = (Inl GenerationFailed, trace)"
    by (auto simp: finishVideo_def)
  have b: "\<forall>link response.
          downloadLink operation = Some link \<and> link \<noteq> []
          \<and> fetch backend (link @ ''&key='' @ key) = Inr response \<and> \<not> ok response \<longrightarrow>
          finishVideo key backend operation trace
            = (Inl DownloadFailed, trace @ [Fetch (link @ ''&key='' @ key)])"
    by (auto simp: finishVideo_def Let_def)
  show ?thesis using t s g a b by auto
qed
text \<open>
  Witness for C6: the backend of the examples without a link, and with a link and a
  fetch that is not \<^verbatim>\<open>ok\<close> (two pending answers, the completed one, the failed fetch).
\<close>

theorem generateVideo_terminal_failures_witness:
  "getApiKey (Some ''k'') = Inr ''k''
   \<and> pollLoop (getVideosOperation (exampleBackend None True)) 0 pendingOperation
         [GenerateVideos (videoRequest ''img'' ''image/png'' ''zoom out'' Ratio_9_16)]
       = Some (Inr (completedOperation None),
           [GenerateVideos (videoRequest ''img'' ''image/png'' ''zoom out'' Ratio_9_16),
            Wait 10000, GetVideosOperation pendingOperation,
            Wait 10000, GetVideosOperation pendingOperation,
            Wait 10000, GetVideosOperation pendingOperation])
   \<and> downloadLink (completedOperation None) = None
   \<and> generateVideo (Some ''k'') (exampleBackend None True) ''img'' ''image/png'' ''zoom out'' Ratio_9_16
       = Some (Inl GenerationFailed,
           [GenerateVideos (videoRequest ''img'' ''image/png'' ''zoom out'' Ratio_9_16),
            Wait 10000, GetVideosOperation pendingOperation,
            Wait 10000, GetVideosOperation pendingOperation,
            Wait 10000, GetVideosOperation pendingOperation])
   \<and> downloadLink (completedOperation (Some ''https://v.example/1?alt=media''))
       = Some ''https://v.example/1?alt=media''
   \<and> fetch (exampleBackend (Some ''https://v.example/1?alt=media'') False)
         ''https://v.example/1?alt=media&key=k'' = Inr \<lparr>ok = False, blob = Inr ''payload''\<rparr>
   \<and> generateVideo (Some ''k'') (exampleBackend (Some ''https://v.example/1?alt=media'') False)
         ''img'' ''image/png'' ''zoom out'' Ratio_9_16
       = Some (Inl DownloadFailed,
           [GenerateVideos (videoRequest ''img'' ''image/png'' ''zoom out'' Ratio_9_16),
            Wait 10000, GetVideosOperation pendingOperation,
            Wait 10000, GetVideosOperation pendingOperation,
            Wait 10000, GetVideosOperation pendingOperation,
            Fetch ''https://v.example/1?alt=media&key=k''])"
proof -
  let ?req = "videoRequest ''img'' ''image/png'' ''zoom out'' Ratio_9_16"
  let ?polls = "[GenerateVideos ?req,
            Wait 10000, GetVideosOperation pendingOperation,
            Wait 10000, GetVideosOperation pendingOperation,
            Wait 10000, GetVideosOperation pendingOperation]"
  let ?link = "''https://v.example/1?alt=media''"
  have key: "getApiKey (Some ''k'') = Inr ''k''" by (simp add: getApiKey_def)
  have s1: "generateVideos (exampleBackend None True) ?req = Inr pendingOperation"
    and s2: "generateVideos (exampleBackend (Some ?link) False) ?req = Inr pendingOperation"
    by (simp_all add: exampleBackend_def)
  have l1: "pollLoop (getVideosOperation (exampleBackend None True)) 0 pendingOperation [GenerateVideos ?req]
      = Some (Inr (completedOperation None), ?polls)"
    by (simp add: exampleBackend_def pollLoop.simps isDone_def pendingOperation_def completedOperation_def)
  have l2: "pollLoop (getVideosOperation (exampleBackend (Some ?link) False)) 0 pendingOperation [GenerateVideos ?req]
      = Some (Inr (completedOperation (Some ?link)), ?polls)"
    by (simp add: exampleBackend_def pollLoop.simps isDone_def pendingOperation_def completedOperation_def)
  have d1: "downloadLink (completedOperation None) = None"
    by (simp add: downloadLink_def completedOperation_def)
  have d2: "downloadLink (completedOperation (Some ?link)) = Some ?link"
    by (simp add: downloadLink_def completedOperation_def)
  have f2: "fetch (exampleBackend (Some ?link) False) (?link @ ''&key='' @ ''k'')
      = Inr \<lparr>ok = False, blob = Inr ''payload''\<rparr>"
    by (simp add: exampleBackend_def)
  have n2: "?link \<noteq> [] \<and> \<not> ok \<lparr>ok = False, blob = Inr ''payload'' :: Thrown + string\<rparr>"
    by simp
  have r1: "generateVideo (Some ''k'') (exampleBackend None True) ''img'' ''image/png'' ''zoom out'' Ratio_9_16
       = Some (Inl GenerationFailed, ?polls)"
    using generateVideo_terminal_failures [OF key s1 l1] d1 by blast
  have r2: "generateVideo (Some ''k'') (exampleBackend (Some ?link) False)
         ''img'' ''image/png'' ''zoom out'' Ratio_9_16
       = Some (Inl DownloadFailed, ?polls @ [Fetch (?link @ ''&key='' @ ''k'')])"
    using generateVideo_terminal_failures [OF key s2 l2] d2 f2 n2 by blast
  show ?thesis using key l1 d1 r1 d2 f2 r2 by simp
qed

lemma generateVideo_trace:
  assumes "generateVideo API_KEY backend base64Image mimeType prompt0 ratio = Some (result, trace)"
    and "getApiKey API_KEY = Inr key"
  shows "\<exists>rest. trace = GenerateVideos (videoRequest base64Image mimeType prompt0 ratio) # rest
     \<and> filter isSubmission rest = []"
proof (cases "generateVideos backend (videoRequest base64Image mimeType prompt0 ratio)")
  case (Inl e)
  then show ?thesis using assms by (auto simp: generateVideo_def)
next
  case (Inr operation0)
  let ?req = "videoRequest base64Image mimeType prompt0 ratio"
  obtain r t where l: "pollLoop (getVideosOperation backend) 0 operation0 [GenerateVideos ?req] = Some (r, t)"
    using assms Inr by (auto simp: generateVideo_def split: option.splits)
  then obtain handles where t: "t = GenerateVideos ?req # pollEvents handles"
    using pollLoop_trace_from_submission by blast
  show ?thesis
  proof (cases r)
    case (Inl e)
    then have "trace = t" using assms Inr l by (simp add: generateVideo_def)
    then show ?thesis using t by (simp add: filter_isSubmission_pollEvents)
  next
    case (Inr operation)
    then have "(result, trace) = finishVideo key backend operation t"
      using assms \<open>generateVideos backend ?req = Inr operation0\<close> l by (simp add: generateVideo_def)
    moreover obtain res rest where "finishVideo key backend operation t = (res, t @ rest)"
      "rest = [] \<or> (\<exists>url. rest = [Fetch url])"
      using finishVideo_cases by blast
    ultimately have "trace = GenerateVideos ?req # (pollEvents handles @ rest)" "filter isSubmission rest = []"
      using t by auto
    then show ?thesis by (simp add: filter_isSubmission_pollEvents)
  qed
qed
text \<open>
  Claim C9: the request that \<^verbatim>\<open>generateVideo\<close> builds carries the aspect ratio 16:9 for the
  caller's 1:1, and the caller's value for 16:9 and 9:16; and in every run that returns
  with the key configured, the one submission to the backend is that request.
\<close>

theorem generateVideo_aspect_ratio:
  "aspectRatio (req_config (videoRequest base64Image mimeType prompt0 Ratio_1_1)) = Ratio_16_9
   \<and> aspectRatio (req_config (videoRequest base64Image mimeType prompt0 Ratio_16_9)) = Ratio_16_9
   \<and> aspectRatio (req_config (videoRequest base64Image mimeType prompt0 Ratio_9_16)) = Ratio_9_16
   \<and> (generateVideo API_KEY backend base64Image mimeType prompt0 ratio = Some (result, trace)
        \<and> getApiKey API_KEY = Inr key \<longrightarrow>
        (\<exists>request rest. trace = GenerateVideos request # rest \<and> filter isSubmission rest = []
           \<and> request = videoRequest base64Image mimeType prompt0 ratio
           \<and> aspectRatio (req_config request) =
               (case ratio of Ratio_1_1 \<Rightarrow> Ratio_16_9 | Ratio_16_9 \<Rightarrow> Ratio_16_9 | Ratio_9_16 \<Rightarrow> Ratio_9_16)))"
proof -
  have "aspectRatio (req_config (videoRequest base64Image mimeType prompt0 ratio)) =
       (case ratio of Ratio_1_1 \<Rightarrow> Ratio_16_9 | Ratio_16_9 \<Rightarrow> Ratio_16_9 | Ratio_9_16 \<Rightarrow> Ratio_9_16)"
    by (cases ratio) (simp_all add: videoRequest_def)
  moreover have "aspectRatio (req_config (videoRequest base64Image mimeType prompt0 Ratio_1_1)) = Ratio_16_9"
    "aspectRatio (req_config (videoRequest base64Image mimeType prompt0 Ratio_16_9)) = Ratio_16_9"
    "aspectRatio (req_config (videoRequest base64Image mimeType prompt0 Ratio_9_16)) = Ratio_9_16"
    by (simp_all add: videoRequest_def)
  ultimately show ?thesis using generateVideo_trace by blast
qed
text \<open>Witness for C9: a run with the caller's ratio 1:1 submits a request with 16:9.\<close>

theorem generateVideo_aspect_ratio_witness:
  "generateVideo (Some ''k'') (exampleBackend (Some ''https://v.example/1?alt=media'') True)
         ''img'' ''image/png'' ''zoom out'' Ratio_1_1
       = Some (Inr ''blob:payload'',
           [GenerateVideos \<lparr>req_model = ''veo-3.1-fast-generate-preview'', req_prompt = ''zoom out'',
              req_imageBytes = ''img'', req_mimeType = ''image/png'',
              req_config = \<lparr>numberOfVideos = 1, resolution = ''720p'', aspectRatio = Ratio_16_9\<rparr>\<rparr>,
            Wait 10000, GetVideosOperation pendingOperation,
            Wait 10000, GetVideosOperation pendingOperation,
            Wait 10000, GetVideosOperation pendingOperation,
            Fetch ''https://v.example/1?alt=media&key=k''])
   \<and> getApiKey (Some ''k'') = Inr ''k''
   \<and> (\<exists>request rest.
        [GenerateVideos \<lparr>req_model = ''veo-3.1-fast-generate-preview'', req_prompt = ''zoom out'',
              req_imageBytes = ''img'', req_mimeType = ''image/png'',
              req_config = \<lparr>numberOfVideos = 1, resolution = ''720p'', aspectRatio = Ratio_16_9\<rparr>\<rparr>,
            Wait 10000, GetVideosOperation pendingOperation,
            Wait 10000, GetVideosOperation pendingOperation,
            Wait 10000, GetVideosOperation pendingOperation,
            Fetch ''https://v.example/1?alt=media&key=k''] = GenerateVideos request # rest
        \<and> aspectRatio (req_config request) = Ratio_16_9)"
proof -
  let ?b = "exampleBackend (Some ''https://v.example/1?alt=media'') True"
  let ?t = "[GenerateVideos \<lparr>req_model = ''veo-3.1-fast-generate-preview'', req_prompt = ''zoom out'',
              req_imageBytes = ''img'', req_mimeType = ''image/png'',
              req_config = \<lparr>numberOfVideos = 1, resolution = ''720p'', aspectRatio = Ratio_16_9\<rparr>\<rparr>,
            Wait 10000, GetVideosOperation pendingOperation,
            Wait 10000, GetVideosOperation pendingOperation,
            Wait 10000, GetVideosOperation pendingOperation,
            Fetch ''https://v.example/1?alt=media&key=k'']"
  have run: "generateVideo (Some ''k'') ?b ''img'' ''image/png'' ''zoom out'' Ratio_1_1 = Some (Inr ''blob:payload'', ?t)"
    by (simp add: generateVideo_def getApiKey_def exampleBackend_def pollLoop.simps isDone_def
        pendingOperation_def completedOperation_def finishVideo_def downloadLink_def videoRequest_def)
  have key: "getApiKey (Some ''k'') = Inr ''k''" by (simp add: getApiKey_def)
  from generateVideo_aspect_ratio
    [of "''img''" "''image/png''" "''zoom out''" "Some ''k''" ?b Ratio_1_1 "Inr ''blob:payload''" ?t "''k''"]
    run key
  have "\<exists>request rest. ?t = GenerateVideos request # rest \<and> aspectRatio (req_config request) = Ratio_16_9"
    by auto
  then show ?thesis using run key by blast
qed

subsection \<open>The error classifier\<close>

lemma includesStr_iff: "includesStr s t \<longleftrightarrow> (\<exists>p q. s = p @ t @ q)"
proof (induction s)
  case Nil
  then show ?case by auto
next
  case (Cons c s)
  have sw: "startsWith (c # s) t \<longleftrightarrow> (\<exists>q. c # s = t @ q)"
    unfolding startsWith_def
    by (metis append_eq_conv_conj)
  show ?case
  proof
    assume "includesStr (c # s) t"
    then consider "startsWith (c # s) t" | "includesStr s t" by auto
    then show "\<exists>p q. c # s = p @ t @ q"
    proof cases
      case 1
      then obtain q where "c # s = t @ q" using sw by blast
      then have "c # s = [] @ t @ q" by simp
      then show ?thesis by blast
    next
      case 2
      then obtain p q where "s = p @ t @ q" using Cons.IH by blast
      then have "c # s = (c # p) @ t @ q" by simp
      then show ?thesis by blast
    qed
  next
    assume "\<exists>p q. c # s = p @ t @ q"
    then obtain p q where pq: "c # s = p @ t @ q" by blast
    show "includesStr (c # s) t"
    proof (cases p)
      case Nil
      then have "startsWith (c # s) t" using sw pq by auto
      then show ?thesis by simp
    next
      case (Cons a p')
      then have "s = p' @ t @ q" using pq by simp
      then have "includesStr s t" using Cons.IH by blast
      then show ?thesis by simp
    qed
  qed
qed

text \<open>
  Claim C7: when the gateway call of \<^verbatim>\<open>VideoGenerator.handleSubmit\<close> fails, the handler
  classifies the failure by its message (the message of the \<^verbatim>\<open>Error\<close>, or the fixed text
  for a thrown value that is no \<^verbatim>\<open>Error\<close>): a message in which
  \<open>''Requested entity was not found''\<close> occurs at some position is the invalid credential,
  for which the surface shows the invalid-key text and clears \<open>vg_apiKeySelected\<close>, so
  that the component renders the key selection again; every other message is a generic
  failure, shown as it is, with \<open>vg_apiKeySelected\<close> unchanged.
\<close>

theorem VideoGenerator_classifies:
  assumes uploaded: "vg_imageFile st = Some imageFile"
    and promptGiven: "trim (vg_prompt st) \<noteq> []"
    and encoded: "fileToBase64 imageFile = Inr base64Image"
    and failed: "generateVideo0 base64Image (file_type imageFile) (vg_prompt st) (vg_aspectRatio st) = Inl err"
    and message: "errorMessage = (case err of Error m \<Rightarrow> m | NonError \<Rightarrow> ''An unknown error occurred.'')"
  shows "((\<exists>p q. errorMessage = p @ ''Requested entity was not found'' @ q) \<longrightarrow>
            vg_error (VideoGenerator_handleSubmit fileToBase64 generateVideo0 st)
              = Some ''Your API key is invalid. Please select a valid key.''
          \<and> \<not> vg_apiKeySelected (VideoGenerator_handleSubmit fileToBase64 generateVideo0 st))
       \<and> (\<not> (\<exists>p q. errorMessage = p @ ''Requested entity was not found'' @ q) \<longrightarrow>
            vg_error (VideoGenerator_handleSubmit fileToBase64 generateVideo0 st) = Some errorMessage
          \<and> vg_apiKeySelected (VideoGenerator_handleSubmit fileToBase64 generateVideo0 st)
              = vg_apiKeySelected st)"
proof -
  have h: "VideoGenerator_handleSubmit fileToBase64 generateVideo0 st
      = (VideoGenerator_catch err (VideoGenerator_reset st))\<lparr>vg_loading := False\<rparr>"
    using uploaded promptGiven encoded failed by (simp add: VideoGenerator_handleSubmit_def)
  show ?thesis
    unfolding h VideoGenerator_catch_def VideoGenerator_reset_def
    using message by (simp add: includesStr_iff Let_def messageOr_def)
qed

text \<open>
  Witness for C7: a failure whose message contains the text, and one whose message does
  not.
\<close>

theorem VideoGenerator_classifies_witness:
  "vg_error (VideoGenerator_handleSubmit (\<lambda>f. Inr ''AAAA'')
        (\<lambda>b m p r. Inl (Error ''404: Requested entity was not found.'')) exampleVideoState)
      = Some ''Your API key is invalid. Please select a valid key.''
   \<and> \<not> vg_apiKeySelected (VideoGenerator_handleSubmit (\<lambda>f. Inr ''AAAA'')
        (\<lambda>b m p r. Inl (Error ''404: Requested entity was not found.'')) exampleVideoState)
   \<and> vg_error (VideoGenerator_handleSubmit (\<lambda>f. Inr ''AAAA'')
        (\<lambda>b m p r. Inl (Error ''Failed to fetch generated video.'')) exampleVideoState)
      = Some ''Failed to fetch generated video.''
   \<and> vg_apiKeySelected (VideoGenerator_handleSubmit (\<lambda>f. Inr ''AAAA'')
        (\<lambda>b m p r. Inl (Error ''Failed to fetch generated video.'')) exampleVideoState)"
proof -
  let ?f = "\<lambda>f :: File. Inr ''AAAA'' :: Thrown + string"
  let ?g1 = "\<lambda>(b :: string) (m :: string) (p :: string) (r :: AspectRatio).
      Inl (Error ''404: Requested entity was not found.'') :: Thrown + string"
  let ?g2 = "\<lambda>(b :: string) (m :: string) (p :: string) (r :: AspectRatio).
      Inl (Error ''Failed to fetch generated video.'') :: Thrown + string"
  have uploaded: "vg_imageFile exampleVideoState = Some exampleFile"
    by (simp add: exampleVideoState_def)
  have promptGiven: "trim (vg_prompt exampleVideoState) \<noteq> []"
    by (simp add: exampleVideoState_def trim_def isWhiteSpace_def)
  have sel: "vg_apiKeySelected exampleVideoState" by (simp add: exampleVideoState_def)
  have inc: "\<exists>p q. ''404: Requested entity was not found.'' = p @ ''Requested entity was not found'' @ q"
    by (intro exI[of _ "''404: ''"] exI[of _ "''.''"]) simp
  have exc: "\<not> (\<exists>p q. ''Failed to fetch generated video.'' = p @ ''Requested entity was not found'' @ q)"
    unfolding includesStr_iff [symmetric] by (simp add: startsWith_def)
  from VideoGenerator_classifies [of exampleVideoState _ ?f "''AAAA''" ?g1 "Error ''404: Requested entity was not found.''"
      "''404: Requested entity was not found.''", OF uploaded promptGiven] inc
  have a: "vg_error (VideoGenerator_handleSubmit ?f ?g1 exampleVideoState)
      = Some ''Your API key is invalid. Please select a valid key.''
     \<and> \<not> vg_apiKeySelected (VideoGenerator_handleSubmit ?f ?g1 exampleVideoState)"
    by simp
  from VideoGenerator_classifies [of exampleVideoState _ ?f "''AAAA''" ?g2 "Error ''Failed to fetch generated video.''"
      "''Failed to fetch generated video.''", OF uploaded promptGiven] exc sel
  have b: "vg_error (VideoGenerator_handleSubmit ?f ?g2 exampleVideoState) = Some ''Failed to fetch generated video.''
     \<and> vg_apiKeySelected (VideoGenerator_handleSubmit ?f ?g2 exampleVideoState)"
    by simp
  show ?thesis using a b by blast
qed

subsection \<open>The task list\<close>

lemma addTask_duplicate:
  "list_ex (\<lambda>task. prompt (postIdea task) = prompt idea \<and> platform (postIdea task) = platform idea) tasks
     \<Longrightarrow> addTask now random idea tasks = tasks"
  by (simp add: addTask_def)

lemma addTask_fresh:
  "\<not> list_ex (\<lambda>task. prompt (postIdea task) = prompt idea \<and> platform (postIdea task) = platform idea) tasks
     \<Longrightarrow> addTask now random idea tasks
       = tasks @ [\<lparr>task_id = ''task-'' @ now @ ''-'' @ random, postIdea = idea, completed = False\<rparr>]"
  by (simp add: addTask_def)

lemma toggleTask_postIdea: "map postIdea (toggleTask taskId tasks) = map postIdea tasks"
  by (simp add: toggleTask_def comp_def)

lemma toggleTask_id: "map task_id (toggleTask taskId tasks) = map task_id tasks"
  by (simp add: toggleTask_def comp_def)

lemma toggleTask_completed:
  "map completed (toggleTask taskId tasks)
     = map (\<lambda>task. if task_id task = taskId then \<not> completed task else completed task) tasks"
  by (simp add: toggleTask_def comp_def)

lemma distinct_addTask:
  assumes "distinct (map (\<lambda>task. (prompt (postIdea task), platform (postIdea task))) tasks)"
  shows "distinct (map (\<lambda>task. (prompt (postIdea task), platform (postIdea task)))
           (addTask now random idea tasks))"
proof (cases "list_ex (\<lambda>task. prompt (postIdea task) = prompt idea \<and> platform (postIdea task) = platform idea) tasks")
  case True
  then show ?thesis using assms by (simp add: addTask_duplicate)
next
  case False
  then have "(prompt idea, platform idea) \<notin> set (map (\<lambda>task. (prompt (postIdea task), platform (postIdea task))) tasks)"
    by (auto simp: list_ex_iff)
  then show ?thesis using assms False by (simp add: addTask_fresh)
qed

lemma distinct_toggleTask:
  assumes "distinct (map (\<lambda>task. (prompt (postIdea task), platform (postIdea task))) tasks)"
  shows "distinct (map (\<lambda>task. (prompt (postIdea task), platform (postIdea task)))
           (toggleTask taskId tasks))"
proof -
  have "map (\<lambda>task. (prompt (postIdea task), platform (postIdea task))) (toggleTask taskId tasks)
      = map (\<lambda>i. (prompt i, platform i)) (map postIdea (toggleTask taskId tasks))"
    by (simp add: comp_def)
  also have "\<dots> = map (\<lambda>task. (prompt (postIdea task), platform (postIdea task))) tasks"
    by (simp add: toggleTask_postIdea comp_def)
  finally show ?thesis using assms by simp
qed

lemma reachable_distinct:
  "reachable tasks \<Longrightarrow> distinct (map (\<lambda>task. (prompt (postIdea task), platform (postIdea task))) tasks)"
proof (induction rule: reachable.induct)
  case initial
  then show ?case by simp
next
  case (added tasks now random idea)
  from added.IH show ?case by (rule distinct_addTask)
next
  case (toggled tasks taskId)
  from toggled.IH show ?case by (rule distinct_toggleTask)
qed

text \<open>
  Claim C10: in every task list reachable from the empty list by \<^verbatim>\<open>addTask\<close> and
  \<^verbatim>\<open>toggleTask\<close>, no two tasks share both the prompt and the platform of their post idea.
  \<^verbatim>\<open>addTask\<close> returns the list unchanged when a task with the prompt and the platform of
  the submitted idea exists, and otherwise appends one task, with the idea, the minted
  id and \<open>completed = False\<close>, after the existing tasks. \<^verbatim>\<open>toggleTask\<close> keeps the length,
  the order, the ids and the post ideas, and negates \<open>completed\<close> exactly in the tasks
  whose id is the given one.
\<close>

theorem task_list_invariant:
  "(reachable tasks \<longrightarrow>
      (\<forall>i<length tasks. \<forall>j<length tasks.
         prompt (postIdea (tasks ! i)) = prompt (postIdea (tasks ! j))
         \<and> platform (postIdea (tasks ! i)) = platform (postIdea (tasks ! j)) \<longrightarrow> i = j))
   \<and> ((\<exists>task\<in>set prevTasks. prompt (postIdea task) = prompt idea \<and> platform (postIdea task) = platform idea)
        \<longrightarrow> addTask now random idea prevTasks = prevTasks)
   \<and> (\<not> (\<exists>task\<in>set prevTasks. prompt (postIdea task) = prompt idea \<and> platform (postIdea task) = platform idea)
        \<longrightarrow> (\<exists>newTask. addTask now random idea prevTasks = prevTasks @ [newTask]
              \<and> postIdea newTask = idea \<and> completed newTask = False
              \<and> task_id newTask = ''task-'' @ now @ ''-'' @ random))
   \<and> length (toggleTask taskId prevTasks) = length prevTasks
   \<and> (\<forall>i<length prevTasks.
         task_id (toggleTask taskId prevTasks ! i) = task_id (prevTasks ! i)
         \<and> postIdea (toggleTask taskId prevTasks ! i) = postIdea (prevTasks ! i)
         \<and> completed (toggleTask taskId prevTasks ! i)
             = (if task_id (prevTasks ! i) = taskId then \<not> completed (prevTasks ! i)
                else completed (prevTasks ! i)))"
proof -
  have inv: "reachable tasks \<longrightarrow>
      (\<forall>i<length tasks. \<forall>j<length tasks.
         prompt (postIdea (tasks ! i)) = prompt (postIdea (tasks ! j))
         \<and> platform (postIdea (tasks ! i)) = platform (postIdea (tasks ! j)) \<longrightarrow> i = j)"
  proof
    assume "reachable tasks"
    then have d: "distinct (map (\<lambda>task. (prompt (postIdea task), platform (postIdea task))) tasks)"
      by (rule reachable_distinct)
    show "\<forall>i<length tasks. \<forall>j<length tasks.
         prompt (postIdea (tasks ! i)) = prompt (postIdea (tasks ! j))
         \<and> platform (postIdea (tasks ! i)) = platform (postIdea (tasks ! j)) \<longrightarrow> i = j"
    proof (intro allI impI)
      fix i j
      assume "i < length tasks" "j < length tasks"
        and "prompt (postIdea (tasks ! i)) = prompt (postIdea (tasks ! j))
         \<and> platform (postIdea (tasks ! i)) = platform (postIdea (tasks ! j))"
      then have "map (\<lambda>task. (prompt (postIdea task), platform (postIdea task))) tasks ! i
          = map (\<lambda>task. (prompt (postIdea task), platform (postIdea task))) tasks ! j"
        by simp
      moreover have "i < length (map (\<lambda>task. (prompt (postIdea task), platform (postIdea task))) tasks)"
        "j < length (map (\<lambda>task. (prompt (postIdea task), platform (postIdea task))) tasks)"
        using \<open>i < length tasks\<close> \<open>j < length tasks\<close> by simp_all
      ultimately show "i = j"
        using d nth_eq_iff_index_eq by blast
    qed
  qed
  have dup: "(\<exists>task\<in>set prevTasks. prompt (postIdea task) = prompt idea \<and> platform (postIdea task) = platform idea)
        \<longrightarrow> addTask now random idea prevTasks = prevTasks"
    using addTask_duplicate by (simp add: list_ex_iff)
  have fresh: "\<not> (\<exists>task\<in>set prevTasks. prompt (postIdea task) = prompt idea \<and> platform (postIdea task) = platform idea)
        \<longrightarrow> (\<exists>newTask. addTask now random idea prevTasks = prevTasks @ [newTask]
              \<and> postIdea newTask = idea \<and> completed newTask = False
              \<and> task_id newTask = ''task-'' @ now @ ''-'' @ random)"
    using addTask_fresh [of idea prevTasks now random] by (simp add: list_ex_iff)
  have len: "length (toggleTask taskId prevTasks) = length prevTasks"
    by (simp add: toggleTask_def)
  have tog: "\<forall>i<length prevTasks.
         task_id (toggleTask taskId prevTasks ! i) = task_id (prevTasks ! i)
         \<and> postIdea (toggleTask taskId prevTasks ! i) = postIdea (prevTasks ! i)
         \<and> completed (toggleTask taskId prevTasks ! i)
             = (if task_id (prevTasks ! i) = taskId then \<not> completed (prevTasks ! i)
                else completed (prevTasks ! i))"
    by (simp add: toggleTask_def)
  show ?thesis using inv dup fresh len tog by blast
qed

text \<open>
  Witness for C10: the list of the examples is reachable and has two tasks with the same
  prompt on different platforms; adding the first idea again changes nothing; adding a
  third idea appends its task; toggling the second task completes it and leaves the
  first completed.
\<close>

theorem task_list_invariant_witness:
  "reachable exampleTasks
   \<and> exampleTasks =
       [\<lparr>task_id = ''task-1-0.5'', postIdea = ideaA, completed = True\<rparr>,
        \<lparr>task_id = ''task-2-0.25'', postIdea = ideaB, completed = False\<rparr>]
   \<and> \<not> (prompt (postIdea (exampleTasks ! 0)) = prompt (postIdea (exampleTasks ! 1))
          \<and> platform (postIdea (exampleTasks ! 0)) = platform (postIdea (exampleTasks ! 1)))
   \<and> addTask ''3'' ''0.75'' ideaA exampleTasks = exampleTasks
   \<and> addTask ''3'' ''0.75'' ideaC exampleTasks
       = exampleTasks @ [\<lparr>task_id = ''task-3-0.75'', postIdea = ideaC, completed = False\<rparr>]
   \<and> completed (toggleTask ''task-2-0.25'' exampleTasks ! 1)
   \<and> completed (toggleTask ''task-2-0.25'' exampleTasks ! 0)"
proof -
  have r: "reachable exampleTasks"
    unfolding exampleTasks_def by (intro reachable.intros)
  have v: "exampleTasks =
       [\<lparr>task_id = ''task-1-0.5'', postIdea = ideaA, completed = True\<rparr>,
        \<lparr>task_id = ''task-2-0.25'', postIdea = ideaB, completed = False\<rparr>]"
    by (simp add: exampleTasks_def addTask_def toggleTask_def ideaA_def ideaB_def)
  have l: "length exampleTasks = 2" by (simp add: v)
  have d: "\<exists>task\<in>set exampleTasks. prompt (postIdea task) = prompt ideaA \<and> platform (postIdea task) = platform ideaA"
    by (simp add: v)
  have n: "\<not> (\<exists>task\<in>set exampleTasks. prompt (postIdea task) = prompt ideaC \<and> platform (postIdea task) = platform ideaC)"
    by (simp add: v ideaA_def ideaB_def ideaC_def)
  note t = task_list_invariant [of exampleTasks exampleTasks ideaA "''3''" "''0.75''" "''task-2-0.25''"]
  note u = task_list_invariant [of exampleTasks exampleTasks ideaC "''3''" "''0.75''" "''task-2-0.25''"]
  have i: "\<not> (prompt (postIdea (exampleTasks ! 0)) = prompt (postIdea (exampleTasks ! 1))
          \<and> platform (postIdea (exampleTasks ! 0)) = platform (postIdea (exampleTasks ! 1)))"
  proof
    assume "prompt (postIdea (exampleTasks ! 0)) = prompt (postIdea (exampleTasks ! 1))
          \<and> platform (postIdea (exampleTasks ! 0)) = platform (postIdea (exampleTasks ! 1))"
    moreover have "(0::nat) < length exampleTasks" "(1::nat) < length exampleTasks" using l by simp_all
    ultimately have "(0::nat) = 1" using t r by blast
    then show False by simp
  qed
  have a: "addTask ''3'' ''0.75'' ideaA exampleTasks = exampleTasks" using t d by blast
  obtain newTask where w: "addTask ''3'' ''0.75'' ideaC exampleTasks = exampleTasks @ [newTask]"
    "postIdea newTask = ideaC" "completed newTask = False" "task_id newTask = ''task-'' @ ''3'' @ ''-'' @ ''0.75''"
    using u n by blast
  have "newTask = \<lparr>task_id = ''task-3-0.75'', postIdea = ideaC, completed = False\<rparr>"
    using w(2,3,4) by (cases newTask) simp
  then have f: "addTask ''3'' ''0.75'' ideaC exampleTasks
       = exampleTasks @ [\<lparr>task_id = ''task-3-0.75'', postIdea = ideaC, completed = False\<rparr>]"
    using w(1) by simp
  have c1: "completed (toggleTask ''task-2-0.25'' exampleTasks ! 1)"
    and c0: "completed (toggleTask ''task-2-0.25'' exampleTasks ! 0)"
    using t l by (simp_all add: v)
  show ?thesis using r v i a f c1 c0 by blast
qed

subsection \<open>Failed calls on the feature surfaces\<close>

lemma ImageGenerator_failed:
  "trim (ig_prompt st) \<noteq> [] \<and> imageCall (ig_prompt st) (ig_aspectRatio st) = Inl err \<longrightarrow>
     ImageGenerator_handleSubmit imageCall st =
       st\<lparr>ig_loading := False, ig_error := Some (messageOr ''Failed to generate image.'' err),
          ig_generatedImageUrl := None\<rparr>"
  by (simp add: ImageGenerator_handleSubmit_def ImageGenerator_reset_def ImageGenerator_catch_def)

lemma PostWriter_failed:
  "trim (pw_topic st) \<noteq> [] \<and> postCall (pw_topic st) (pw_tone st) (pw_platform st) = Inl err \<longrightarrow>
     PostWriter_handleSubmit postCall st =
       st\<lparr>pw_loading := False,
          pw_error := Some (messageOr ''An unknown error occurred while generating the post.'' err),
          pw_generatedPost := [], pw_copySuccess := []\<rparr>"
  by (simp add: PostWriter_handleSubmit_def PostWriter_reset_def PostWriter_catch_def)

lemma VideoGenerator_failed:
  "vg_imageFile st = Some imageFile \<and> trim (vg_prompt st) \<noteq> []
   \<and> fileToBase64 imageFile = Inr base64Image
   \<and> videoCall base64Image (file_type imageFile) (vg_prompt st) (vg_aspectRatio st) = Inl err \<longrightarrow>
     VideoGenerator_handleSubmit fileToBase64 videoCall st =
       (VideoGenerator_catch err (VideoGenerator_reset st))\<lparr>vg_loading := False\<rparr>
     \<and> vg_generatedVideoUrl (VideoGenerator_handleSubmit fileToBase64 videoCall st) = None
     \<and> vg_loading (VideoGenerator_handleSubmit fileToBase64 videoCall st) = False
     \<and> vg_error (VideoGenerator_handleSubmit fileToBase64 videoCall st) \<noteq> None"
  by (simp add: VideoGenerator_handleSubmit_def VideoGenerator_reset_def VideoGenerator_catch_def Let_def)

lemma MarketingPlan_failed:
  "trim (mp_businessInfo st) \<noteq> [] \<and> trim (mp_competitorsInfo st) \<noteq> []
   \<and> planCall (mp_businessInfo st) (mp_competitorsInfo st) = Inl err \<longrightarrow>
     MarketingPlan_handleSubmit planCall st =
       st\<lparr>mp_loading := False, mp_error := Some (messageOr ''An unknown error occurred.'' err),
          mp_plan := None, mp_grounding := None\<rparr>"
  by (simp add: MarketingPlan_handleSubmit_def MarketingPlan_reset_def MarketingPlan_catch_def)

lemma BrandMarketAnalysis_failed:
  "trim (bma_brandMission st) \<noteq> [] \<and> trim (bma_targetAudience st) \<noteq> []
   \<and> trim (bma_brandTone st) \<noteq> [] \<and> trim (bma_competitorsInfo st) \<noteq> []
   \<and> analysisCall
        \<lparr>mission = bma_brandMission st, audience = bma_targetAudience st, tone = bma_brandTone st\<rparr>
        (bma_competitorsInfo st) = Inl err \<longrightarrow>
     BrandMarketAnalysis_handleSubmit analysisCall st =
       st\<lparr>bma_loading := False, bma_error := Some (messageOr ''An unknown error occurred.'' err),
          bma_analysis := None, bma_grounding := None\<rparr>"
  by (simp add: BrandMarketAnalysis_handleSubmit_def BrandMarketAnalysis_reset_def
      BrandMarketAnalysis_catch_def)

lemma LocalInsights_failed:
  "trim (li_query st) \<noteq> [] \<and> li_geoData st = Some geoData
   \<and> insightsCall (li_query st) geoData = Inl err \<longrightarrow>
     LocalInsights_handleSubmit insightsCall st =
       st\<lparr>li_loading := False, li_error := Some (messageOr ''An unknown error occurred.'' err),
          li_insights := None, li_grounding := None\<rparr>"
  by (simp add: LocalInsights_handleSubmit_def LocalInsights_reset_def LocalInsights_catch_def)

lemma MultiPostManager_failed:
  "trim (mpm_postContent st) \<noteq> [] \<and> mpm_selectedPlatforms st \<noteq> []
   \<and> recommendationsCall (mpm_postContent st) (mpm_selectedPlatforms st) = Inl err \<longrightarrow>
     MultiPostManager_handleGetRecommendations recommendationsCall st =
       st\<lparr>mpm_loading := False, mpm_error := Some (messageOr ''An unknown error occurred.'' err),
          mpm_recommendations := None\<rparr>"
  by (simp add: MultiPostManager_handleGetRecommendations_def MultiPostManager_reset_def
      MultiPostManager_catch_def)

lemma ImageEditor_failed:
  "ie_imageFile st = Some imageFile \<and> trim (ie_prompt st) \<noteq> []
   \<and> file_size imageFile \<le> MAX_FILE_SIZE_BYTES \<and> getMimeType imageFile \<in> set supportedMimeTypes
   \<and> fileToBase64 imageFile = Inr base64Image
   \<and> editCall base64Image (getMimeType imageFile) (ie_prompt st) = Inl err \<longrightarrow>
     ImageEditor_handleSubmit getMimeType fileToBase64 editCall st =
       st\<lparr>ie_loading := False, ie_error := Some (messageOr ''Failed to edit image.'' err),
          ie_editedImageUrl := None, ie_selectedFilter := Filter_none\<rparr>"
  by (simp add: ImageEditor_handleSubmit_def ImageEditor_reset_def ImageEditor_catch_def Let_def)

lemma ImageUpscaler_failed:
  "iu_imageFile st = Some imageFile \<and> fileToBase64 imageFile = Inr base64Image
   \<and> editCall base64Image (file_type imageFile) upscalePrompt = Inl err \<longrightarrow>
     ImageUpscaler_handleSubmit fileToBase64 editCall st =
       st\<lparr>iu_loading := False, iu_error := Some (messageOr ''Failed to upscale image.'' err),
          iu_upscaledImageUrl := None\<rparr>"
  by (simp add: ImageUpscaler_handleSubmit_def ImageUpscaler_reset_def ImageUpscaler_catch_def Let_def)

lemma ImageUpscaler_checked_failed:
  "iu_imageFile st = Some imageFile
   \<and> file_size imageFile \<le> MAX_FILE_SIZE_BYTES \<and> getMimeType imageFile \<in> set supportedMimeTypes
   \<and> fileToBase64 imageFile = Inr base64Image
   \<and> editCall base64Image (getMimeType imageFile) upscalePrompt = Inl err \<longrightarrow>
     ImageUpscaler_handleSubmit_checked getMimeType fileToBase64 editCall st =
       st\<lparr>iu_loading := False, iu_error := Some (messageOr ''Failed to upscale image.'' err),
          iu_upscaledImageUrl := None\<rparr>"
  by (simp add: ImageUpscaler_handleSubmit_checked_def ImageUpscaler_reset_def ImageUpscaler_catch_def
      Let_def)

lemma catch_keeps_result:
  "ig_generatedImageUrl (ImageGenerator_catch err ig) = ig_generatedImageUrl ig"
  "pw_generatedPost (PostWriter_catch err pw) = pw_generatedPost pw"
  "vg_generatedVideoUrl (VideoGenerator_catch err vg) = vg_generatedVideoUrl vg"
  "mp_plan (MarketingPlan_catch err mp) = mp_plan mp"
  "mp_grounding (MarketingPlan_catch err mp) = mp_grounding mp"
  "bma_analysis (BrandMarketAnalysis_catch err bma) = bma_analysis bma"
  "bma_grounding (BrandMarketAnalysis_catch err bma) = bma_grounding bma"
  "li_insights (LocalInsights_catch err li) = li_insights li"
  "li_grounding (LocalInsights_catch err li) = li_grounding li"
  "mpm_recommendations (MultiPostManager_catch err mpm) = mpm_recommendations mpm"
  "ie_editedImageUrl (ImageEditor_catch err ie) = ie_editedImageUrl ie"
  "iu_upscaledImageUrl (ImageUpscaler_catch err iu) = iu_upscaledImageUrl iu"
  by (simp_all add: ImageGenerator_catch_def PostWriter_catch_def VideoGenerator_catch_def
      MarketingPlan_catch_def BrandMarketAnalysis_catch_def LocalInsights_catch_def
      MultiPostManager_catch_def ImageEditor_catch_def ImageUpscaler_catch_def Let_def)

text \<open>
  Claim C3, as stated, fails: a handler resets the result state before it makes the
  call, so after a failed call the earlier result is gone. Input: an
  \<^verbatim>\<open>ImageGenerator\<close> that shows an image, and a call that fails with the message
  \<open>''No image was generated.''\<close>.
\<close>

theorem failed_call_keeps_result_counterexample:
  "ig_generatedImageUrl exampleImageState = Some ''data:image/jpeg;base64,AAAA''
   \<and> ImageGenerator_handleSubmit (\<lambda>p r. Inl (Error ''No image was generated.'')) exampleImageState
       = \<lparr>ig_prompt = ''a lion wearing a crown'', ig_aspectRatio = Ratio_1_1,
          ig_generatedImageUrl = None, ig_loading = False,
          ig_error = Some ''No image was generated.''\<rparr>
   \<and> ig_generatedImageUrl
         (ImageGenerator_handleSubmit (\<lambda>p r. Inl (Error ''No image was generated.'')) exampleImageState)
       \<noteq> ig_generatedImageUrl exampleImageState"
  by (simp add: exampleImageState_def ImageGenerator_handleSubmit_def ImageGenerator_reset_def
      ImageGenerator_catch_def messageOr_def trim_def isWhiteSpace_def)

text \<open>
  Claim C3, amended, for every feature surface (the two versions of \<^verbatim>\<open>ImageUpscaler\<close>
  included): when the form is valid and the gateway call of a submission fails with
  \<open>err\<close>, the surface ends with the loading flag off, with an error text shown (the
  message of the \<^verbatim>\<open>Error\<close>, or the surface's fixed text for a thrown value that is no
  \<^verbatim>\<open>Error\<close>; in \<^verbatim>\<open>VideoGenerator\<close> what its classifier makes of that message), and with
  the result state cleared, whatever it held before; the inputs of the form are as they
  were. The \<^verbatim>\<open>catch\<close> block leaves the result state as it finds it: it is the updates
  before the \<^verbatim>\<open>try\<close> that have cleared it.
\<close>

theorem failed_call_clears_result:
  "(trim (ig_prompt ig) \<noteq> [] \<and> imageCall (ig_prompt ig) (ig_aspectRatio ig) = Inl err \<longrightarrow>
      ImageGenerator_handleSubmit imageCall ig =
        ig\<lparr>ig_loading := False, ig_error := Some (messageOr ''Failed to generate image.'' err),
           ig_generatedImageUrl := None\<rparr>)
   \<and> (trim (pw_topic pw) \<noteq> []
      \<and> postCall (pw_topic pw) (pw_tone pw) (pw_platform pw) = Inl err \<longrightarrow>
      PostWriter_handleSubmit postCall pw =
        pw\<lparr>pw_loading := False,
           pw_error := Some (messageOr ''An unknown error occurred while generating the post.'' err),
           pw_generatedPost := [], pw_copySuccess := []\<rparr>)
   \<and> (vg_imageFile vg = Some videoFile \<and> trim (vg_prompt vg) \<noteq> []
      \<and> encodeFile videoFile = Inr videoData
      \<and> videoCall videoData (file_type videoFile) (vg_prompt vg) (vg_aspectRatio vg) = Inl err \<longrightarrow>
      VideoGenerator_handleSubmit encodeFile videoCall vg =
        (VideoGenerator_catch err (VideoGenerator_reset vg))\<lparr>vg_loading := False\<rparr>
      \<and> vg_generatedVideoUrl (VideoGenerator_handleSubmit encodeFile videoCall vg) = None
      \<and> vg_loading (VideoGenerator_handleSubmit encodeFile videoCall vg) = False
      \<and> vg_error (VideoGenerator_handleSubmit encodeFile videoCall vg) \<noteq> None)
   \<and> (trim (mp_businessInfo mp) \<noteq> [] \<and> trim (mp_competitorsInfo mp) \<noteq> []
      \<and> planCall (mp_businessInfo mp) (mp_competitorsInfo mp) = Inl err \<longrightarrow>
      MarketingPlan_handleSubmit planCall mp =
        mp\<lparr>mp_loading := False, mp_error := Some (messageOr ''An unknown error occurred.'' err),
           mp_plan := None, mp_grounding := None\<rparr>)
   \<and> (trim (bma_brandMission bma) \<noteq> [] \<and> trim (bma_targetAudience bma) \<noteq> []
      \<and> trim (bma_brandTone bma) \<noteq> [] \<and> trim (bma_competitorsInfo bma) \<noteq> []
      \<and> analysisCall
           \<lparr>mission = bma_brandMission bma, audience = bma_targetAudience bma, tone = bma_brandTone bma\<rparr>
           (bma_competitorsInfo bma) = Inl err \<longrightarrow>
      BrandMarketAnalysis_handleSubmit analysisCall bma =
        bma\<lparr>bma_loading := False, bma_error := Some (messageOr ''An unknown error occurred.'' err),
           bma_analysis := None, bma_grounding := None\<rparr>)
   \<and> (trim (li_query li) \<noteq> [] \<and> li_geoData li = Some geoData
      \<and> insightsCall (li_query li) geoData = Inl err \<longrightarrow>
      LocalInsights_handleSubmit insightsCall li =
        li\<lparr>li_loading := False, li_error := Some (messageOr ''An unknown error occurred.'' err),
           li_insights := None, li_grounding := None\<rparr>)
   \<and> (trim (mpm_postContent mpm) \<noteq> [] \<and> mpm_selectedPlatforms mpm \<noteq> []
      \<and> recommendationsCall (mpm_postContent mpm) (mpm_selectedPlatforms mpm) = Inl err \<longrightarrow>
      MultiPostManager_handleGetRecommendations recommendationsCall mpm =
        mpm\<lparr>mpm_loading := False, mpm_error := Some (messageOr ''An unknown error occurred.'' err),
           mpm_recommendations := None\<rparr>)
   \<and> (ie_imageFile ie = Some editorFile \<and> trim (ie_prompt ie) \<noteq> []
      \<and> file_size editorFile \<le> MAX_FILE_SIZE_BYTES \<and> getMimeType editorFile \<in> set supportedMimeTypes
      \<and> encodeFile editorFile = Inr editorData
      \<and> editCall editorData (getMimeType editorFile) (ie_prompt ie) = Inl err \<longrightarrow>
      ImageEditor_handleSubmit getMimeType encodeFile editCall ie =
        ie\<lparr>ie_loading := False, ie_error := Some (messageOr ''Failed to edit image.'' err),
           ie_editedImageUrl := None, ie_selectedFilter := Filter_none\<rparr>)
   \<and> (iu_imageFile iu = Some upscalerFile \<and> encodeFile upscalerFile = Inr upscalerData
      \<and> editCall upscalerData (file_type upscalerFile) upscalePrompt = Inl err \<longrightarrow>
      ImageUpscaler_handleSubmit encodeFile editCall iu =
        iu\<lparr>iu_loading := False, iu_error := Some (messageOr ''Failed to upscale image.'' err),
           iu_upscaledImageUrl := None\<rparr>)
   \<and> (iu_imageFile iu = Some upscalerFile
      \<and> file_size upscalerFile \<le> MAX_FILE_SIZE_BYTES \<and> getMimeType upscalerFile \<in> set supportedMimeTypes
      \<and> encodeFile upscalerFile = Inr upscalerData
      \<and> editCall upscalerData (getMimeType upscalerFile) upscalePrompt = Inl err \<longrightarrow>
      ImageUpscaler_handleSubmit_checked getMimeType encodeFile editCall iu =
        iu\<lparr>iu_loading := False, iu_error := Some (messageOr ''Failed to upscale image.'' err),
           iu_upscaledImageUrl := None\<rparr>)
   \<and> ig_generatedImageUrl (ImageGenerator_catch err ig) = ig_generatedImageUrl ig
   \<and> pw_generatedPost (PostWriter_catch err pw) = pw_generatedPost pw
   \<and> vg_generatedVideoUrl (VideoGenerator_catch err vg) = vg_generatedVideoUrl vg
   \<and> mp_plan (MarketingPlan_catch err mp) = mp_plan mp
   \<and> mp_grounding (MarketingPlan_catch err mp) = mp_grounding mp
   \<and> bma_analysis (BrandMarketAnalysis_catch err bma) = bma_analysis bma
   \<and> bma_grounding (BrandMarketAnalysis_catch err bma) = bma_grounding bma
   \<and> li_insights (LocalInsights_catch err li) = li_insights li
   \<and> li_grounding (LocalInsights_catch err li) = li_grounding li
   \<and> mpm_recommendations (MultiPostManager_catch err mpm) = mpm_recommendations mpm
   \<and> ie_editedImageUrl (ImageEditor_catch err ie) = ie_editedImageUrl ie
   \<and> iu_upscaledImageUrl (ImageUpscaler_catch err iu) = iu_upscaledImageUrl iu"
  by (intro conjI ImageGenerator_failed PostWriter_failed VideoGenerator_failed MarketingPlan_failed BrandMarketAnalysis_failed LocalInsights_failed MultiPostManager_failed ImageEditor_failed ImageUpscaler_failed ImageUpscaler_checked_failed catch_keeps_result)

text \<open>
  Witness for C3: each surface of the examples shows an earlier result and has a valid
  form; the call fails with the message \<open>''quota exceeded''\<close>.
\<close>

theorem failed_call_clears_result_witness:
  "ig_generatedImageUrl exampleImageState = Some ''data:image/jpeg;base64,AAAA''
   \<and> ImageGenerator_handleSubmit (\<lambda>p r. Inl (Error ''quota exceeded'')) exampleImageState
       = \<lparr>ig_prompt = ''a lion wearing a crown'', ig_aspectRatio = Ratio_1_1,
          ig_generatedImageUrl = None, ig_loading = False, ig_error = Some ''quota exceeded''\<rparr>
   \<and> pw_generatedPost examplePostState = ''Our new cups are here!''
   \<and> PostWriter_handleSubmit (\<lambda>t n p. Inl (Error ''quota exceeded'')) examplePostState
       = \<lparr>pw_topic = ''new coffee cups'', pw_tone = ''Casual'', pw_platform = ''Facebook'',
          pw_generatedPost = [], pw_loading = False, pw_error = Some ''quota exceeded'',
          pw_copySuccess = []\<rparr>
   \<and> vg_generatedVideoUrl exampleVideoState = Some ''blob:previous''
   \<and> VideoGenerator_handleSubmit (\<lambda>f. Inr ''AAAA'') (\<lambda>b m p r. Inl (Error ''quota exceeded'')) exampleVideoState
       = \<lparr>vg_apiKeySelected = True, vg_checkingApiKey = False, vg_imageFile = Some exampleFile,
          vg_previewUrl = Some ''data:image/png;base64,AAAA'', vg_generatedVideoUrl = None,
          vg_prompt = ''zoom out'', vg_aspectRatio = Ratio_16_9, vg_loading = False,
          vg_loadingMessage = ''Warming up the video engine...'', vg_error = Some ''quota exceeded''\<rparr>
   \<and> mp_plan examplePlanState = Some examplePlan
   \<and> MarketingPlan_handleSubmit (\<lambda>b c. Inl (Error ''quota exceeded'')) examplePlanState
       = \<lparr>mp_businessInfo = ''An artisanal coffee shop'', mp_competitorsInfo = ''The Daily Grind'',
          mp_plan = None, mp_grounding = None, mp_loading = False,
          mp_error = Some ''quota exceeded''\<rparr>
   \<and> bma_analysis exampleAnalysisState = Some (JObject [])
   \<and> BrandMarketAnalysis_handleSubmit (\<lambda>b c. Inl (Error ''quota exceeded'')) exampleAnalysisState
       = \<lparr>bma_brandMission = ''Sustainable coffee'', bma_targetAudience = ''Remote workers'',
          bma_brandTone = ''Friendly'', bma_competitorsInfo = ''The Daily Grind'',
          bma_analysis = None, bma_grounding = None, bma_loading = False,
          bma_error = Some ''quota exceeded''\<rparr>
   \<and> li_insights exampleInsightsState = Some ''Three cafes nearby''
   \<and> LocalInsights_handleSubmit (\<lambda>q g. Inl (Error ''quota exceeded'')) exampleInsightsState
       = \<lparr>li_geoData = Some (), li_query = ''popular cafes'', li_insights = None,
          li_grounding = None, li_loading = False, li_error = Some ''quota exceeded''\<rparr>
   \<and> mpm_recommendations exampleManagerState = Some (JArray [])
   \<and> MultiPostManager_handleGetRecommendations (\<lambda>c ps. Inl (Error ''quota exceeded'')) exampleManagerState
       = \<lparr>mpm_postContent = ''Our new cups are here!'', mpm_imageFile = None, mpm_previewUrl = None,
          mpm_selectedPlatforms = [''Facebook''], mpm_recommendations = None,
          mpm_loading = False, mpm_error = Some ''quota exceeded''\<rparr>
   \<and> ie_editedImageUrl exampleEditorState = Some ''data:image/png;base64,BBBB''
   \<and> ImageEditor_handleSubmit file_type (\<lambda>f. Inr ''AAAA'') (\<lambda>b m p. Inl (Error ''quota exceeded'')) exampleEditorState
       = \<lparr>ie_imageFile = Some exampleFile, ie_originalImageUrl = Some ''data:image/png;base64,AAAA'',
          ie_editedImageUrl = None, ie_downloadableUrl = Some ''data:image/png;base64,BBBB'',
          ie_selectedFilter = Filter_none, ie_prompt = ''add a cat'', ie_loading = False,
          ie_error = Some ''quota exceeded''\<rparr>
   \<and> iu_upscaledImageUrl exampleUpscalerState = Some ''data:image/png;base64,CCCC''
   \<and> ImageUpscaler_handleSubmit (\<lambda>f. Inr ''AAAA'') (\<lambda>b m p. Inl (Error ''quota exceeded'')) exampleUpscalerState
       = \<lparr>iu_imageFile = Some exampleFile, iu_originalImageUrl = Some ''data:image/png;base64,AAAA'',
          iu_upscaledImageUrl = None, iu_loading = False, iu_error = Some ''quota exceeded''\<rparr>
   \<and> ImageUpscaler_handleSubmit_checked file_type (\<lambda>f. Inr ''AAAA'') (\<lambda>b m p. Inl (Error ''quota exceeded'')) exampleUpscalerState
       = \<lparr>iu_imageFile = Some exampleFile, iu_originalImageUrl = Some ''data:image/png;base64,AAAA'',
          iu_upscaledImageUrl = None, iu_loading = False, iu_error = Some ''quota exceeded''\<rparr>"
proof -
  note t = failed_call_clears_result
    [where err = "Error ''quota exceeded''" and ig = exampleImageState and imageCall = "\<lambda>p r. Inl (Error ''quota exceeded'')"
      and pw = examplePostState and postCall = "\<lambda>t n p. Inl (Error ''quota exceeded'')"
      and vg = exampleVideoState and videoFile = exampleFile and videoData = "''AAAA''"
      and encodeFile = "\<lambda>f. Inr ''AAAA''" and videoCall = "\<lambda>b m p r. Inl (Error ''quota exceeded'')"
      and mp = examplePlanState and planCall = "\<lambda>b c. Inl (Error ''quota exceeded'')"
      and bma = exampleAnalysisState and analysisCall = "\<lambda>b c. Inl (Error ''quota exceeded'')"
      and li = exampleInsightsState and geoData = "()" and insightsCall = "\<lambda>q g. Inl (Error ''quota exceeded'')"
      and mpm = exampleManagerState and recommendationsCall = "\<lambda>c ps. Inl (Error ''quota exceeded'')"
      and ie = exampleEditorState and editorFile = exampleFile and editorData = "''AAAA''"
      and getMimeType = file_type and editCall = "\<lambda>b m p. Inl (Error ''quota exceeded'')"
      and iu = exampleUpscalerState and upscalerFile = exampleFile and upscalerData = "''AAAA''"]
  have p0: "ig_generatedImageUrl exampleImageState = Some ''data:image/jpeg;base64,AAAA''"
    by (simp add: exampleImageState_def)
  have c0: "ImageGenerator_handleSubmit (\<lambda>p r. Inl (Error ''quota exceeded'')) exampleImageState
       = \<lparr>ig_prompt = ''a lion wearing a crown'', ig_aspectRatio = Ratio_1_1,
          ig_generatedImageUrl = None, ig_loading = False, ig_error = Some ''quota exceeded''\<rparr>"
    using t [THEN conjunct1]
    by (simp add: exampleImageState_def trim_def isWhiteSpace_def exampleFile_def messageOr_def MAX_FILE_SIZE_BYTES_def MAX_FILE_SIZE_MB_def
        supportedMimeTypes_def VideoGenerator_catch_def VideoGenerator_reset_def loadingMessages_def
        startsWith_def)
  have p1: "pw_generatedPost examplePostState = ''Our new cups are here!''"
    by (simp add: examplePostState_def)
  have c1: "PostWriter_handleSubmit (\<lambda>t n p. Inl (Error ''quota exceeded'')) examplePostState
       = \<lparr>pw_topic = ''new coffee cups'', pw_tone = ''Casual'', pw_platform = ''Facebook'',
          pw_generatedPost = [], pw_loading = False, pw_error = Some ''quota exceeded'',
          pw_copySuccess = []\<rparr>"
    using t [THEN conjunct2, THEN conjunct1]
    by (simp add: examplePostState_def trim_def isWhiteSpace_def exampleFile_def messageOr_def MAX_FILE_SIZE_BYTES_def MAX_FILE_SIZE_MB_def
        supportedMimeTypes_def VideoGenerator_catch_def VideoGenerator_reset_def loadingMessages_def
        startsWith_def)
  have p2: "vg_generatedVideoUrl exampleVideoState = Some ''blob:previous''"
    by (simp add: exampleVideoState_def)
  have c2: "VideoGenerator_handleSubmit (\<lambda>f. Inr ''AAAA'') (\<lambda>b m p r. Inl (Error ''quota exceeded'')) exampleVideoState
       = \<lparr>vg_apiKeySelected = True, vg_checkingApiKey = False, vg_imageFile = Some exampleFile,
          vg_previewUrl = Some ''data:image/png;base64,AAAA'', vg_generatedVideoUrl = None,
          vg_prompt = ''zoom out'', vg_aspectRatio = Ratio_16_9, vg_loading = False,
          vg_loadingMessage = ''Warming up the video engine...'', vg_error = Some ''quota exceeded''\<rparr>"
    using t [THEN conjunct2, THEN conjunct2, THEN conjunct1]
    by (simp add: exampleVideoState_def trim_def isWhiteSpace_def exampleFile_def messageOr_def MAX_FILE_SIZE_BYTES_def MAX_FILE_SIZE_MB_def
        supportedMimeTypes_def VideoGenerator_catch_def VideoGenerator_reset_def loadingMessages_def
        startsWith_def)
  have p3: "mp_plan examplePlanState = Some examplePlan"
    by (simp add: examplePlanState_def)
  have c3: "MarketingPlan_handleSubmit (\<lambda>b c. Inl (Error ''quota exceeded'')) examplePlanState
       = \<lparr>mp_businessInfo = ''An artisanal coffee shop'', mp_competitorsInfo = ''The Daily Grind'',
          mp_plan = None, mp_grounding = None, mp_loading = False,
          mp_error = Some ''quota exceeded''\<rparr>"
    using t [THEN conjunct2, THEN conjunct2, THEN conjunct2, THEN conjunct1]
    by (simp add: examplePlanState_def trim_def isWhiteSpace_def exampleFile_def messageOr_def MAX_FILE_SIZE_BYTES_def MAX_FILE_SIZE_MB_def
        supportedMimeTypes_def VideoGenerator_catch_def VideoGenerator_reset_def loadingMessages_def
        startsWith_def)
  have p4: "bma_analysis exampleAnalysisState = Some (JObject [])"
    by (simp add: exampleAnalysisState_def)
  have c4: "BrandMarketAnalysis_handleSubmit (\<lambda>b c. Inl (Error ''quota exceeded'')) exampleAnalysisState
       = \<lparr>bma_brandMission = ''Sustainable coffee'', bma_targetAudience = ''Remote workers'',
          bma_brandTone = ''Friendly'', bma_competitorsInfo = ''The Daily Grind'',
          bma_analysis = None, bma_grounding = None, bma_loading = False,
          bma_error = Some ''quota exceeded''\<rparr>"
    using t [THEN conjunct2, THEN conjunct2, THEN conjunct2, THEN conjunct2, THEN conjunct1]
    by (simp add: exampleAnalysisState_def trim_def isWhiteSpace_def exampleFile_def messageOr_def MAX_FILE_SIZE_BYTES_def MAX_FILE_SIZE_MB_def
        supportedMimeTypes_def VideoGenerator_catch_def VideoGenerator_reset_def loadingMessages_def
        startsWith_def)
  have p5: "li_insights exampleInsightsState = Some ''Three cafes nearby''"
    by (simp add: exampleInsightsState_def)
  have c5: "LocalInsights_handleSubmit (\<lambda>q g. Inl (Error ''quota exceeded'')) exampleInsightsState
       = \<lparr>li_geoData = Some (), li_query = ''popular cafes'', li_insights = None,
          li_grounding = None, li_loading = False, li_error = Some ''quota exceeded''\<rparr>"
    using t [THEN conjunct2, THEN conjunct2, THEN conjunct2, THEN conjunct2, THEN conjunct2, THEN conjunct1]
    by (simp add: exampleInsightsState_def trim_def isWhiteSpace_def exampleFile_def messageOr_def MAX_FILE_SIZE_BYTES_def MAX_FILE_SIZE_MB_def
        supportedMimeTypes_def VideoGenerator_catch_def VideoGenerator_reset_def loadingMessages_def
        startsWith_def)
  have p6: "mpm_recommendations exampleManagerState = Some (JArray [])"
    by (simp add: exampleManagerState_def)
  have c6: "MultiPostManager_handleGetRecommendations (\<lambda>c ps. Inl (Error ''quota exceeded'')) exampleManagerState
       = \<lparr>mpm_postContent = ''Our new cups are here!'', mpm_imageFile = None, mpm_previewUrl = None,
          mpm_selectedPlatforms = [''Facebook''], mpm_recommendations = None,
          mpm_loading = False, mpm_error = Some ''quota exceeded''\<rparr>"
    using t [THEN conjunct2, THEN conjunct2, THEN conjunct2, THEN conjunct2, THEN conjunct2, THEN conjunct2, THEN conjunct1]
    by (simp add: exampleManagerState_def trim_def isWhiteSpace_def exampleFile_def messageOr_def MAX_FILE_SIZE_BYTES_def MAX_FILE_SIZE_MB_def
        supportedMimeTypes_def VideoGenerator_catch_def VideoGenerator_reset_def loadingMessages_def
        startsWith_def)
  have p7: "ie_editedImageUrl exampleEditorState = Some ''data:image/png;base64,BBBB''"
    by (simp add: exampleEditorState_def)
  have c7: "ImageEditor_handleSubmit file_type (\<lambda>f. Inr ''AAAA'') (\<lambda>b m p. Inl (Error ''quota exceeded'')) exampleEditorState
       = \<lparr>ie_imageFile = Some exampleFile, ie_originalImageUrl = Some ''data:image/png;base64,AAAA'',
          ie_editedImageUrl = None, ie_downloadableUrl = Some ''data:image/png;base64,BBBB'',
          ie_selectedFilter = Filter_none, ie_prompt = ''add a cat'', ie_loading = False,
          ie_error = Some ''quota exceeded''\<rparr>"
    using t [THEN conjunct2, THEN conjunct2, THEN conjunct2, THEN conjunct2, THEN conjunct2, THEN conjunct2, THEN conjunct2, THEN conjunct1]
    by (simp add: exampleEditorState_def trim_def isWhiteSpace_def exampleFile_def messageOr_def MAX_FILE_SIZE_BYTES_def MAX_FILE_SIZE_MB_def
        supportedMimeTypes_def VideoGenerator_catch_def VideoGenerator_reset_def loadingMessages_def
        startsWith_def)
  have p8: "iu_upscaledImageUrl exampleUpscalerState = Some ''data:image/png;base64,CCCC''"
    by (simp add: exampleUpscalerState_def)
  have c8: "ImageUpscaler_handleSubmit (\<lambda>f. Inr ''AAAA'') (\<lambda>b m p. Inl (Error ''quota exceeded'')) exampleUpscalerState
       = \<lparr>iu_imageFile = Some exampleFile, iu_originalImageUrl = Some ''data:image/png;base64,AAAA'',
          iu_upscaledImageUrl = None, iu_loading = False, iu_error = Some ''quota exceeded''\<rparr>"
    using t [THEN conjunct2, THEN conjunct2, THEN conjunct2, THEN conjunct2, THEN conjunct2, THEN conjunct2, THEN conjunct2, THEN conjunct2, THEN conjunct1]
    by (simp add: exampleUpscalerState_def trim_def isWhiteSpace_def exampleFile_def messageOr_def MAX_FILE_SIZE_BYTES_def MAX_FILE_SIZE_MB_def
        supportedMimeTypes_def VideoGenerator_catch_def VideoGenerator_reset_def loadingMessages_def
        startsWith_def)
  have c9: "ImageUpscaler_handleSubmit_checked file_type (\<lambda>f. Inr ''AAAA'') (\<lambda>b m p. Inl (Error ''quota exceeded'')) exampleUpscalerState
       = \<lparr>iu_imageFile = Some exampleFile, iu_originalImageUrl = Some ''data:image/png;base64,AAAA'',
          iu_upscaledImageUrl = None, iu_loading = False, iu_error = Some ''quota exceeded''\<rparr>"
    using t [THEN conjunct2, THEN conjunct2, THEN conjunct2, THEN conjunct2, THEN conjunct2, THEN conjunct2, THEN conjunct2, THEN conjunct2, THEN conjunct2, THEN conjunct1]
    by (simp add: exampleUpscalerState_def trim_def isWhiteSpace_def exampleFile_def messageOr_def MAX_FILE_SIZE_BYTES_def MAX_FILE_SIZE_MB_def
        supportedMimeTypes_def VideoGenerator_catch_def VideoGenerator_reset_def loadingMessages_def
        startsWith_def)
  show ?thesis
    using p0 c0 p1 c1 p2 c2 p3 c3 p4 c4 p5 c5 p6 c6 p7 c7 p8 c8 c9 by (intro conjI)
qed

subsection \<open>Fenced JSON\<close>

lemma trim_ws_left: "list_all isWhiteSpace w \<Longrightarrow> trim (w @ s) = trim s"
  by (simp add: trim_def list_all_iff dropWhile_append2)

lemma trim_ws_right:
  assumes "list_all isWhiteSpace w"
  shows "trim (s @ w) = trim s"
proof (cases "dropWhile isWhiteSpace s = []")
  case True
  then have "\<forall>x\<in>set s. isWhiteSpace x" by (simp only: dropWhile_eq_Nil_conv)
  then have "\<forall>x\<in>set (s @ w). isWhiteSpace x"
    using assms by (auto simp: list_all_iff)
  then have "dropWhile isWhiteSpace (s @ w) = []" by (simp only: dropWhile_eq_Nil_conv)
  then show ?thesis using True by (simp only: trim_def)
next
  case False
  then have "\<exists>x\<in>set s. \<not> isWhiteSpace x" by (simp only: dropWhile_eq_Nil_conv) blast
  then have "dropWhile isWhiteSpace (s @ w) = dropWhile isWhiteSpace s @ w"
    by (auto simp: dropWhile_append1)
  moreover have "dropWhile isWhiteSpace (rev w @ rev (dropWhile isWhiteSpace s))
      = dropWhile isWhiteSpace (rev (dropWhile isWhiteSpace s))"
    using assms by (intro dropWhile_append2) (simp add: list_all_iff)
  ultimately show ?thesis by (simp add: trim_def)
qed

lemma trim_keeps:
  assumes "s \<noteq> []" "\<not> isWhiteSpace (hd s)" "\<not> isWhiteSpace (last s)"
  shows "trim s = s"
proof -
  have "dropWhile isWhiteSpace s = s" using assms(1,2) by (cases s) simp_all
  moreover have "dropWhile isWhiteSpace (rev s) = rev s"
    using assms(1,3) by (cases "rev s") (simp_all add: last_rev [symmetric] hd_rev)
  ultimately show ?thesis by (simp add: trim_def)
qed

lemma trim_ltrim: "trim (dropWhile isWhiteSpace s) = trim s"
  by (simp add: trim_def dropWhile_idem)

lemma trim_Nil_iff: "trim s = [] \<longleftrightarrow> dropWhile isWhiteSpace s = []"
proof (cases "dropWhile isWhiteSpace s")
  case Nil
  then show ?thesis by (simp only: trim_def rev.simps dropWhile.simps)
next
  case (Cons c cs)
  then have "\<not> isWhiteSpace c" using hd_dropWhile [of isWhiteSpace s] by simp
  then have "\<not> (\<forall>x\<in>set (rev (c # cs)). isWhiteSpace x)" by simp
  then have "dropWhile isWhiteSpace (rev (c # cs)) \<noteq> []"
    by (simp only: dropWhile_eq_Nil_conv) simp
  then show ?thesis unfolding trim_def Cons by simp
qed

lemma tick_not_ws: "\<not> isWhiteSpace CHR ''`''"
  by (simp add: isWhiteSpace_def)

lemma stripJsonFence_fenced:
  assumes "list_all isWhiteSpace w0" "list_all isWhiteSpace w1"
    "list_all isWhiteSpace w2" "list_all isWhiteSpace w3"
  shows "stripJsonFence (w0 @ ''```json'' @ w1 @ t @ w2 @ ''```'' @ w3) = trim t"
proof -
  let ?inner = "w1 @ t @ w2 @ ''```''"
  have "trim (w0 @ ''```json'' @ w1 @ t @ w2 @ ''```'' @ w3) = trim ((''```json'' @ ?inner) @ w3)"
    using assms(1) by (simp add: trim_ws_left)
  also have "\<dots> = trim (''```json'' @ ?inner)"
    using assms(4) by (rule trim_ws_right)
  also have "\<dots> = ''```json'' @ ?inner"
    by (rule trim_keeps) (simp_all add: tick_not_ws)
  finally have t0: "trim (w0 @ ''```json'' @ w1 @ t @ w2 @ ''```'' @ w3) = ''```json'' @ ?inner" .
  have sw: "startsWith (''```json'' @ ?inner) ''```json''" by (simp add: startsWith_def)
  have d: "drop 7 (''```json'' @ ?inner) = ?inner" by simp
  let ?lt = "dropWhile isWhiteSpace t"
  have t1: "trim ?inner = (if ?lt = [] then ''```'' else ?lt @ w2 @ ''```'')"
  proof (cases "?lt = []")
    case True
    then have "\<forall>x\<in>set t. isWhiteSpace x" by (simp only: dropWhile_eq_Nil_conv)
    then have "list_all isWhiteSpace (w1 @ t @ w2)" using assms(2,3) by (auto simp: list_all_iff)
    then have "trim ((w1 @ t @ w2) @ ''```'') = trim ''```''" by (rule trim_ws_left)
    also have "\<dots> = ''```''" by (rule trim_keeps) (simp_all add: tick_not_ws)
    finally show ?thesis using True by simp
  next
    case False
    have "trim ?inner = trim (t @ w2 @ ''```'')" using assms(2) by (rule trim_ws_left)
    also have "\<dots> = trim (dropWhile isWhiteSpace (t @ w2 @ ''```''))" by (simp add: trim_ltrim)
    also have "dropWhile isWhiteSpace (t @ w2 @ ''```'') = ?lt @ w2 @ ''```''"
    proof -
      have "\<exists>x\<in>set t. \<not> isWhiteSpace x" using False by (simp only: dropWhile_eq_Nil_conv) blast
      then show ?thesis by (auto simp: dropWhile_append1)
    qed
    also have "trim (?lt @ w2 @ ''```'') = ?lt @ w2 @ ''```''"
    proof (rule trim_keeps)
      show "?lt @ w2 @ ''```'' \<noteq> []" by simp
      show "\<not> isWhiteSpace (hd (?lt @ w2 @ ''```''))"
        using False hd_dropWhile [of isWhiteSpace t] by simp
      show "\<not> isWhiteSpace (last (?lt @ w2 @ ''```''))" by (simp add: tick_not_ws)
    qed
    finally show ?thesis using False by (simp only: if_False)
  qed
  have ew: "endsWith (trim ?inner) ''```''"
    unfolding t1 by (simp add: endsWith_def)
  have tk: "take (length (trim ?inner) - 3) (trim ?inner) = (if ?lt = [] then [] else ?lt @ w2)"
    unfolding t1 by simp
  have fin: "trim (if ?lt = [] then [] else ?lt @ w2) = trim t"
  proof (cases "?lt = []")
    case True
    then have "trim t = []" by (simp only: trim_Nil_iff)
    moreover have "trim [] = []" by (simp only: trim_def rev.simps dropWhile.simps)
    ultimately show ?thesis using True by simp
  next
    case False
    then have "trim (if ?lt = [] then [] else ?lt @ w2) = trim (?lt @ w2)" by (simp only: if_False)
    also have "\<dots> = trim ?lt" using assms(3) by (rule trim_ws_right)
    also have "\<dots> = trim t" by (rule trim_ltrim)
    finally show ?thesis .
  qed
  show ?thesis
    unfolding stripJsonFence_def Let_def t0 d using sw ew tk fin by simp
qed

lemma stripJsonFence_plain: "\<not> startsWith (trim t) ''```json'' \<Longrightarrow> stripJsonFence t = trim t"
  by (simp add: stripJsonFence_def Let_def)

lemma plan_depends_on_stripped_text:
  assumes "stripJsonFence a = stripJsonFence b"
  shows "generateMarketingPlan parse API_KEY (Inr (response\<lparr>response_text := Some a\<rparr>))
       = generateMarketingPlan parse API_KEY (Inr (response\<lparr>response_text := Some b\<rparr>))"
    and "generateMarketAnalysis parse API_KEY (Inr (response\<lparr>response_text := Some a\<rparr>))
       = generateMarketAnalysis parse API_KEY (Inr (response\<lparr>response_text := Some b\<rparr>))"
  using assms
  by (auto simp: generateMarketingPlan_def generateMarketAnalysis_def responseChunks_def
      split: sum.splits option.splits)

text \<open>
  Claim C5: for every text \<open>t\<close> that does not itself begin with the fence marker once
  trimmed (no JSON text does: it begins with white space, a brace, a bracket, a quote, a
  minus sign, a digit or one of the letters t, f, n), wrapping \<open>t\<close> in a leading
  \<open>```json\<close> and a trailing \<open>```\<close>, with any white space (\<open>w0\<close> to \<open>w3\<close>, each possibly
  empty) around the fence and between the fence and \<open>t\<close>, does not change what the
  fence stripping hands to \<^verbatim>\<open>JSON.parse\<close>, hence neither the parsed value nor the outcome
  of \<^verbatim>\<open>generateMarketingPlan\<close> and \<^verbatim>\<open>generateMarketAnalysis\<close>.
\<close>

theorem fenced_json_parses_alike:
  assumes "list_all isWhiteSpace w0" "list_all isWhiteSpace w1"
    "list_all isWhiteSpace w2" "list_all isWhiteSpace w3"
    and "\<not> startsWith (trim t) ''```json''"
  shows "parse (stripJsonFence (w0 @ ''```json'' @ w1 @ t @ w2 @ ''```'' @ w3)) = parse (stripJsonFence t)
    \<and> generateMarketingPlan parse API_KEY
         (Inr (response\<lparr>response_text := Some (w0 @ ''```json'' @ w1 @ t @ w2 @ ''```'' @ w3)\<rparr>))
       = generateMarketingPlan parse API_KEY (Inr (response\<lparr>response_text := Some t\<rparr>))
    \<and> generateMarketAnalysis parse API_KEY
         (Inr (response\<lparr>response_text := Some (w0 @ ''```json'' @ w1 @ t @ w2 @ ''```'' @ w3)\<rparr>))
       = generateMarketAnalysis parse API_KEY (Inr (response\<lparr>response_text := Some t\<rparr>))"
proof -
  have e: "stripJsonFence (w0 @ ''```json'' @ w1 @ t @ w2 @ ''```'' @ w3) = stripJsonFence t"
    using stripJsonFence_fenced [OF assms(1-4)] stripJsonFence_plain [OF assms(5)] by simp
  show ?thesis
    using e plan_depends_on_stripped_text [OF e, of parse API_KEY response] by simp
qed

text \<open>
  Witness for C5: the empty object between \<open>```json\<close>, a line feed, a line feed and
  \<open>```\<close>.
\<close>

theorem fenced_json_parses_alike_witness:
  "list_all isWhiteSpace [CHR 0x0A]
   \<and> \<not> startsWith (trim ''{}'') ''```json''
   \<and> stripJsonFence (''```json'' @ [CHR 0x0A] @ ''{}'' @ [CHR 0x0A] @ ''```'') = ''{}''
   \<and> parseExample (stripJsonFence (''```json'' @ [CHR 0x0A] @ ''{}'' @ [CHR 0x0A] @ ''```''))
       = parseExample (stripJsonFence ''{}'')
   \<and> generateMarketingPlan parseExample (Some ''k'')
         (Inr \<lparr>response_text = Some (''```json'' @ [CHR 0x0A] @ ''{}'' @ [CHR 0x0A] @ ''```''),
               candidates = None\<rparr>)
       = Inr \<lparr>plan = JObject [], groundingMetadata = None\<rparr>"
proof -
  have w: "list_all isWhiteSpace [CHR 0x0A]" "list_all isWhiteSpace []"
    by (simp_all add: isWhiteSpace_def)
  have n: "\<not> startsWith (trim ''{}'') ''```json''"
    by (simp add: trim_def isWhiteSpace_def startsWith_def)
  have v: "stripJsonFence ''{}'' = ''{}''"
    by (simp add: stripJsonFence_def trim_def isWhiteSpace_def startsWith_def)
  have p: "generateMarketingPlan parseExample (Some ''k'')
         (Inr \<lparr>response_text = Some ''{}'', candidates = None\<rparr>)
       = Inr \<lparr>plan = JObject [], groundingMetadata = None\<rparr>"
    by (simp add: generateMarketingPlan_def getApiKey_def v parseExample_def responseChunks_def
        parseGroundingChunks_def)
  note t = fenced_json_parses_alike [OF w(2) w(1) w(1) w(2) n, of parseExample "Some ''k''"
      "\<lparr>response_text = None, candidates = None\<rparr>"]
  have a: "parseExample (stripJsonFence (''```json'' @ [CHR 0x0A] @ ''{}'' @ [CHR 0x0A] @ ''```''))
       = parseExample (stripJsonFence ''{}'')"
    using t by simp
  have s: "stripJsonFence (''```json'' @ [CHR 0x0A] @ ''{}'' @ [CHR 0x0A] @ ''```'') = ''{}''"
    by (simp add: stripJsonFence_def trim_def isWhiteSpace_def startsWith_def endsWith_def)
  have g: "generateMarketingPlan parseExample (Some ''k'')
         (Inr \<lparr>response_text = Some (''```json'' @ [CHR 0x0A] @ ''{}'' @ [CHR 0x0A] @ ''```''),
               candidates = None\<rparr>)
       = Inr \<lparr>plan = JObject [], groundingMetadata = None\<rparr>"
    using t p by simp
  show ?thesis using w(1) n s a g by blast
qed

subsection \<open>Results of the gateway\<close>

text \<open>
  Claim C1, as stated, fails: \<^verbatim>\<open>generateMarketingPlan\<close> returns what \<^verbatim>\<open>JSON.parse\<close> made
  of the text, with no check of its members. Input: a response whose text is \<open>{}\<close>; the
  plan returned is the empty object, which has none of the three required members.
\<close>

theorem unvalidated_plan_counterexample:
  "generateMarketingPlan parseExample (Some ''k'')
       (Inr \<lparr>response_text = Some ''{}'', candidates = None\<rparr>)
     = Inr \<lparr>plan = JObject [], groundingMetadata = None\<rparr>
   \<and> \<not> isMarketingPlanResponse (JObject [] :: unit json)"
  by (simp add: generateMarketingPlan_def getApiKey_def stripJsonFence_def trim_def isWhiteSpace_def
      startsWith_def parseExample_def responseChunks_def parseGroundingChunks_def
      isMarketingPlanResponse_def isObjectWith_def has_def)

lemma generateMarketingPlan_cases:
  "(\<exists>e. generateMarketingPlan parse API_KEY outcome = Inl e)
   \<or> (\<exists>response t document.
        outcome = Inr response \<and> response_text response = Some t
        \<and> parse (stripJsonFence t) = Some document
        \<and> generateMarketingPlan parse API_KEY outcome =
            Inr \<lparr>plan = document, groundingMetadata = parseGroundingChunks (responseChunks response)\<rparr>)"
  by (auto simp: generateMarketingPlan_def split: sum.splits option.splits)

lemma generateMarketAnalysis_cases:
  "(\<exists>e. generateMarketAnalysis parse API_KEY outcome = Inl e)
   \<or> (\<exists>response t document.
        outcome = Inr response \<and> response_text response = Some t
        \<and> parse (stripJsonFence t) = Some document
        \<and> generateMarketAnalysis parse API_KEY outcome =
            Inr \<lparr>plan = document, groundingMetadata = parseGroundingChunks (responseChunks response)\<rparr>)"
  by (auto simp: generateMarketAnalysis_def split: sum.splits option.splits)

lemma getPostingRecommendations_cases:
  "(\<exists>e. getPostingRecommendations parse API_KEY outcome = Inl e)
   \<or> (\<exists>response t parsedJson recommendations.
        outcome = Inr response \<and> response_text response = Some t
        \<and> parse (trim t) = Some parsedJson
        \<and> readMember parsedJson ''recommendations'' = Some recommendations
        \<and> getPostingRecommendations parse API_KEY outcome = Inr recommendations)"
  by (auto simp: getPostingRecommendations_def split: sum.splits option.splits)

lemma generateImage_cases:
  "(\<exists>e. generateImage engineMessage API_KEY imagesOutcome = Inl e)
   \<or> (\<exists>base64ImageBytes. base64ImageBytes \<noteq> []
        \<and> generateImage engineMessage API_KEY imagesOutcome = Inr base64ImageBytes)"
  by (auto simp: generateImage_def split: sum.splits option.splits list.splits)

lemma editImage_cases:
  "(\<exists>e. editImage engineMessage API_KEY outcome = Inl e)
   \<or> (\<exists>response c cs ct ps d ds.
        outcome = Inr response \<and> candidates response = Some (c # cs)
        \<and> cand_content c = Some ct \<and> parts ct = Some ps
        \<and> List.map_filter inlineData ps = d # ds
        \<and> editImage engineMessage API_KEY outcome = Inr (blob_data d))"
  by (auto simp: editImage_def split: sum.splits option.splits list.splits)

lemma getLocalInsights_cases:
  "(\<exists>e. getLocalInsights API_KEY outcome = Inl e)
   \<or> (\<exists>response. outcome = Inr response
        \<and> getLocalInsights API_KEY outcome =
            Inr \<lparr>insights_text = response_text response,
                 insights_groundingMetadata = parseGroundingChunks (responseChunks response)\<rparr>)"
  by (auto simp: getLocalInsights_def split: sum.splits option.splits)

lemma pollLoop_done:
  assumes "pollLoop status k operation trace = Some y"
  shows "\<forall>operation'. fst y = Inr operation' \<longrightarrow> isDone operation'"
proof (rule pollLoop.raw_induct [OF _ assms])
  fix f status k operation trace y
  assume IH: "\<And>status k operation trace y.
      f status k operation trace = Some y \<Longrightarrow> \<forall>operation'. fst y = Inr operation' \<longrightarrow> isDone operation'"
    and eq: "(if isDone operation then Some (Inr operation, trace)
      else case status k of
           Inl e \<Rightarrow> Some (Inl e, trace @ [Wait 10000, GetVideosOperation operation])
         | Inr operation' \<Rightarrow>
               f status (Suc k) operation' (trace @ [Wait 10000, GetVideosOperation operation])) =
     Some y"
  show "\<forall>operation'. fst y = Inr operation' \<longrightarrow> isDone operation'"
  proof (cases "isDone operation")
    case True
    then show ?thesis using eq by auto
  next
    case False
    show ?thesis
    proof (cases "status k")
      case (Inl e)
      then show ?thesis using eq False by auto
    next
      case (Inr operation')
      then have "f status (Suc k) operation' (trace @ [Wait 10000, GetVideosOperation operation]) = Some y"
        using eq False by simp
      then show ?thesis by (rule IH)
    qed
  qed
qed

lemma finishVideo_returns:
  assumes "finishVideo key backend operation trace = (Inr url, trace')"
  shows "\<exists>link response videoBlob. downloadLink operation = Some link \<and> link \<noteq> []
        \<and> fetch backend (link @ ''&key='' @ key) = Inr response \<and> ok response
        \<and> blob response = Inr videoBlob
        \<and> url = createObjectURL backend videoBlob
        \<and> trace' = trace @ [Fetch (link @ ''&key='' @ key)]"
  using assms
  by (auto simp: finishVideo_def Let_def split: sum.splits option.splits if_splits)

lemma generateVideo_cases:
  "generateVideo API_KEY backend base64Image mimeType prompt0 ratio = None
   \<or> (\<exists>e trace. generateVideo API_KEY backend base64Image mimeType prompt0 ratio = Some (Inl e, trace))
   \<or> (\<exists>key operation0 operation trace link response videoBlob.
        getApiKey API_KEY = Inr key
        \<and> generateVideos backend (videoRequest base64Image mimeType prompt0 ratio) = Inr operation0
        \<and> pollLoop (getVideosOperation backend) 0 operation0
              [GenerateVideos (videoRequest base64Image mimeType prompt0 ratio)]
            = Some (Inr operation, trace)
        \<and> isDone operation
        \<and> downloadLink operation = Some link \<and> link \<noteq> []
        \<and> fetch backend (link @ ''&key='' @ key) = Inr response \<and> ok response
        \<and> blob response = Inr videoBlob
        \<and> generateVideo API_KEY backend base64Image mimeType prompt0 ratio
            = Some (Inr (createObjectURL backend videoBlob), trace @ [Fetch (link @ ''&key='' @ key)]))"
proof (cases "generateVideo API_KEY backend base64Image mimeType prompt0 ratio")
  case None
  then show ?thesis by simp
next
  case (Some y)
  obtain result trace' where y: "y = (result, trace')" by (cases y)
  show ?thesis
  proof (cases result)
    case (Inl e)
    then show ?thesis using Some y by simp
  next
    case (Inr url)
    let ?req = "videoRequest base64Image mimeType prompt0 ratio"
    from Some y Inr obtain key operation0 operation trace where r:
      "getApiKey API_KEY = Inr key"
      "generateVideos backend ?req = Inr operation0"
      "pollLoop (getVideosOperation backend) 0 operation0 [GenerateVideos ?req] = Some (Inr operation, trace)"
      "finishVideo key backend operation trace = (Inr url, trace')"
      by (auto simp: generateVideo_def Let_def split: sum.splits option.splits prod.splits)
    have d: "isDone operation" using pollLoop_done [OF r(3)] by simp
    obtain link response videoBlob where f: "downloadLink operation = Some link" "link \<noteq> []"
      "fetch backend (link @ ''&key='' @ key) = Inr response" "ok response"
      "blob response = Inr videoBlob" "url = createObjectURL backend videoBlob"
      "trace' = trace @ [Fetch (link @ ''&key='' @ key)]"
      using finishVideo_returns [OF r(4)] by blast
    have "generateVideo API_KEY backend base64Image mimeType prompt0 ratio
        = Some (Inr (createObjectURL backend videoBlob), trace @ [Fetch (link @ ''&key='' @ key)])"
      using Some y Inr f(6,7) by simp
    then show ?thesis using r(1,2,3) d f(1-5) by blast
  qed
qed

lemma populated_plan:
  "generateMarketingPlan parse API_KEY outcome = Inr r \<longrightarrow>
     (isMarketingPlanResponse (plan r) \<longleftrightarrow>
        (\<exists>response t document. outcome = Inr response \<and> response_text response = Some t
           \<and> parse (stripJsonFence t) = Some document \<and> isMarketingPlanResponse document))"
  using generateMarketingPlan_cases [of parse API_KEY outcome] by auto

lemma populated_analysis:
  "generateMarketAnalysis parse API_KEY outcome = Inr r \<longrightarrow>
     (isMarketAnalysisResponse (plan r) \<longleftrightarrow>
        (\<exists>response t document. outcome = Inr response \<and> response_text response = Some t
           \<and> parse (stripJsonFence t) = Some document \<and> isMarketAnalysisResponse document))"
  using generateMarketAnalysis_cases [of parse API_KEY outcome] by auto

lemma populated_recommendations:
  "getPostingRecommendations parse API_KEY outcome = Inr rs \<longrightarrow>
     (isPostingRecommendations rs \<longleftrightarrow>
        (\<exists>response t parsedJson recommendations. outcome = Inr response
           \<and> response_text response = Some t \<and> parse (trim t) = Some parsedJson
           \<and> readMember parsedJson ''recommendations'' = Some recommendations
           \<and> isPostingRecommendations recommendations))"
  using getPostingRecommendations_cases [of parse API_KEY outcome] by auto

text \<open>
  Claim C1, amended: every gateway call either fails outright with an error or returns
  a result of the following kind, none of which is validated against the domain type;
  \<^verbatim>\<open>generateVideo\<close> has a third outcome, not to return, since its loop has no bound. \<^verbatim>\<open>generateMarketingPlan\<close> and
  \<^verbatim>\<open>generateMarketAnalysis\<close> return the document \<^verbatim>\<open>JSON.parse\<close> made of the fence-stripped
  text, with the grounding metadata of the response; \<^verbatim>\<open>getPostingRecommendations\<close> returns
  the \<^verbatim>\<open>recommendations\<close> member of the parsed document as it finds it; so each of these
  results is fully populated exactly when the backend's document is. \<^verbatim>\<open>generateImage\<close>
  returns a non-empty string; \<^verbatim>\<open>editImage\<close> returns the data of the first part that has
  inline data, as the response carries it; \<^verbatim>\<open>generateVideo\<close> returns the URL that
  \<^verbatim>\<open>URL.createObjectURL\<close> mints for the payload of the fetch, answered \<^verbatim>\<open>ok\<close>, of the
  URI of the operation that the loop ended with, a completed one, followed by
  \<^verbatim>\<open>&key=\<close> and the key, that fetch being the last event of the run; \<^verbatim>\<open>getLocalInsights\<close> returns the text of the response as the
  response carries it, with its grounding metadata.
\<close>

theorem gateway_results:
  "((\<exists>e. generateMarketingPlan parse API_KEY outcome = Inl e)
     \<or> (\<exists>response t document.
        outcome = Inr response \<and> response_text response = Some t
        \<and> parse (stripJsonFence t) = Some document
        \<and> generateMarketingPlan parse API_KEY outcome =
            Inr \<lparr>plan = document, groundingMetadata = parseGroundingChunks (responseChunks response)\<rparr>))
   \<and> (generateMarketingPlan parse API_KEY outcome = Inr r \<longrightarrow>
       (isMarketingPlanResponse (plan r) \<longleftrightarrow>
          (\<exists>response t document. outcome = Inr response \<and> response_text response = Some t
             \<and> parse (stripJsonFence t) = Some document \<and> isMarketingPlanResponse document)))
   \<and> ((\<exists>e. generateMarketAnalysis parse API_KEY outcome = Inl e)
     \<or> (\<exists>response t document.
        outcome = Inr response \<and> response_text response = Some t
        \<and> parse (stripJsonFence t) = Some document
        \<and> generateMarketAnalysis parse API_KEY outcome =
            Inr \<lparr>plan = document, groundingMetadata = parseGroundingChunks (responseChunks response)\<rparr>))
   \<and> (generateMarketAnalysis parse API_KEY outcome = Inr r' \<longrightarrow>
       (isMarketAnalysisResponse (plan r') \<longleftrightarrow>
          (\<exists>response t document. outcome = Inr response \<and> response_text response = Some t
             \<and> parse (stripJsonFence t) = Some document \<and> isMarketAnalysisResponse document)))
   \<and> ((\<exists>e. getPostingRecommendations parse API_KEY outcome = Inl e)
     \<or> (\<exists>response t parsedJson recommendations.
        outcome = Inr response \<and> response_text response = Some t
        \<and> parse (trim t) = Some parsedJson
        \<and> readMember parsedJson ''recommendations'' = Some recommendations
        \<and> getPostingRecommendations parse API_KEY outcome = Inr recommendations))
   \<and> (getPostingRecommendations parse API_KEY outcome = Inr rs \<longrightarrow>
       (isPostingRecommendations rs \<longleftrightarrow>
          (\<exists>response t parsedJson recommendations. outcome = Inr response
             \<and> response_text response = Some t \<and> parse (trim t) = Some parsedJson
             \<and> readMember parsedJson ''recommendations'' = Some recommendations
             \<and> isPostingRecommendations recommendations)))
   \<and> ((\<exists>e. generateImage engineMessage API_KEY imagesOutcome = Inl e)
     \<or> (\<exists>base64ImageBytes. base64ImageBytes \<noteq> []
        \<and> generateImage engineMessage API_KEY imagesOutcome = Inr base64ImageBytes))
   \<and> ((\<exists>e. editImage engineMessage API_KEY outcome = Inl e)
     \<or> (\<exists>response c cs ct ps d ds.
        outcome = Inr response \<and> candidates response = Some (c # cs)
        \<and> cand_content c = Some ct \<and> parts ct = Some ps
        \<and> List.map_filter inlineData ps = d # ds
        \<and> editImage engineMessage API_KEY outcome = Inr (blob_data d)))
   \<and> (generateVideo API_KEY backend base64Image mimeType prompt0 ratio = None
     \<or> (\<exists>e trace. generateVideo API_KEY backend base64Image mimeType prompt0 ratio = Some (Inl e, trace))
     \<or> (\<exists>key operation0 operation trace link response videoBlob.
          getApiKey API_KEY = Inr key
          \<and> generateVideos backend (videoRequest base64Image mimeType prompt0 ratio) = Inr operation0
          \<and> pollLoop (getVideosOperation backend) 0 operation0
                [GenerateVideos (videoRequest base64Image mimeType prompt0 ratio)]
              = Some (Inr operation, trace)
          \<and> isDone operation
          \<and> downloadLink operation = Some link \<and> link \<noteq> []
          \<and> fetch backend (link @ ''&key='' @ key) = Inr response \<and> ok response
          \<and> blob response = Inr videoBlob
          \<and> generateVideo API_KEY backend base64Image mimeType prompt0 ratio
              = Some (Inr (createObjectURL backend videoBlob), trace @ [Fetch (link @ ''&key='' @ key)])))
   \<and> ((\<exists>e. getLocalInsights API_KEY outcome = Inl e)
     \<or> (\<exists>response. outcome = Inr response
        \<and> getLocalInsights API_KEY outcome =
            Inr \<lparr>insights_text = response_text response,
                 insights_groundingMetadata = parseGroundingChunks (responseChunks response)\<rparr>))"
  using generateMarketingPlan_cases [of parse API_KEY outcome]
    populated_plan [of parse API_KEY outcome r]
    generateMarketAnalysis_cases [of parse API_KEY outcome]
    populated_analysis [of parse API_KEY outcome r']
    getPostingRecommendations_cases [of parse API_KEY outcome]
    populated_recommendations [of parse API_KEY outcome rs]
    generateImage_cases [of engineMessage API_KEY imagesOutcome]
    editImage_cases [of engineMessage API_KEY outcome]
    generateVideo_cases [of API_KEY backend base64Image mimeType prompt0 ratio]
    getLocalInsights_cases [of API_KEY outcome]
  apply (intro conjI)
  apply assumption+
  done

text \<open>
  Witness for C1: a response whose text is a plan with its three sequences; the plan
  returned is that document, and it is fully populated. A response whose text is \<open>{}\<close>
  gives an analysis without members, and recommendations that are \<^verbatim>\<open>undefined\<close>.
  A run of \<^verbatim>\<open>generateVideo\<close> on the backend of the examples returns the URL minted for
  the payload that the fetch of the link with the key is answered with.
\<close>

theorem gateway_results_witness:
  "generateMarketingPlan parseExample (Some ''k'')
       (Inr \<lparr>response_text = Some examplePlanText, candidates = None\<rparr>)
     = Inr \<lparr>plan = examplePlan, groundingMetadata = None\<rparr>
   \<and> isMarketingPlanResponse examplePlan
   \<and> isMarketingPlanResponse (plan \<lparr>plan = examplePlan, groundingMetadata = None\<rparr>)
   \<and> generateMarketAnalysis parseExample (Some ''k'')
       (Inr \<lparr>response_text = Some ''{}'', candidates = None\<rparr>)
     = Inr \<lparr>plan = JObject [], groundingMetadata = None\<rparr>
   \<and> \<not> isMarketAnalysisResponse (JObject [] :: unit json)
   \<and> getPostingRecommendations parseExample (Some ''k'')
       (Inr \<lparr>response_text = Some ''{}'', candidates = None\<rparr>)
     = Inr None
   \<and> \<not> isPostingRecommendations (None :: unit json option)
   \<and> fetch (exampleBackend (Some ''https://v.example/1?alt=media'') True)
         ''https://v.example/1?alt=media&key=k''
       = Inr \<lparr>ok = True, blob = Inr ''payload''\<rparr>
   \<and> createObjectURL (exampleBackend (Some ''https://v.example/1?alt=media'') True) ''payload''
       = ''blob:payload''
   \<and> generateVideo (Some ''k'') (exampleBackend (Some ''https://v.example/1?alt=media'') True)
         ''img'' ''image/png'' ''zoom out'' Ratio_9_16
       = Some (Inr ''blob:payload'',
           [GenerateVideos (videoRequest ''img'' ''image/png'' ''zoom out'' Ratio_9_16),
            Wait 10000, GetVideosOperation pendingOperation,
            Wait 10000, GetVideosOperation pendingOperation,
            Wait 10000, GetVideosOperation pendingOperation,
            Fetch ''https://v.example/1?alt=media&key=k''])"
proof -
  have st: "stripJsonFence examplePlanText = examplePlanText"
    by (simp add: stripJsonFence_def examplePlanText_def trim_def isWhiteSpace_def startsWith_def)
  have pe: "parseExample examplePlanText = Some examplePlan"
    by (simp add: parseExample_def examplePlanText_def)
  have g: "generateMarketingPlan parseExample (Some ''k'')
       (Inr \<lparr>response_text = Some examplePlanText, candidates = None\<rparr>)
     = Inr \<lparr>plan = examplePlan, groundingMetadata = None\<rparr>"
    by (simp add: generateMarketingPlan_def getApiKey_def st pe responseChunks_def parseGroundingChunks_def)
  have d: "isMarketingPlanResponse examplePlan"
    by (simp add: isMarketingPlanResponse_def isObjectWith_def has_def isArrayOf_def examplePlan_def)
  have "\<exists>response t document.
      (Inr \<lparr>response_text = Some examplePlanText, candidates = None\<rparr> :: Thrown + GenerateContentResponse)
        = Inr response
      \<and> response_text response = Some t
      \<and> parseExample (stripJsonFence t) = Some document \<and> isMarketingPlanResponse document"
    using st pe d by auto
  moreover note gateway_results [of parseExample "Some ''k''"
        "Inr \<lparr>response_text = Some examplePlanText, candidates = None\<rparr>"
        "\<lparr>plan = examplePlan, groundingMetadata = None\<rparr>", THEN conjunct2, THEN conjunct1, rule_format, OF g]
  ultimately have p: "isMarketingPlanResponse (plan \<lparr>plan = examplePlan, groundingMetadata = None\<rparr>)"
    by (rule iffD2 [rotated])
  have e: "stripJsonFence ''{}'' = ''{}''" "trim ''{}'' = ''{}''"
    by (simp_all add: stripJsonFence_def trim_def isWhiteSpace_def startsWith_def)
  have a: "generateMarketAnalysis parseExample (Some ''k'')
       (Inr \<lparr>response_text = Some ''{}'', candidates = None\<rparr>)
     = Inr \<lparr>plan = JObject [], groundingMetadata = None\<rparr>"
    by (simp add: generateMarketAnalysis_def getApiKey_def e parseExample_def responseChunks_def
        parseGroundingChunks_def)
  have na: "\<not> isMarketAnalysisResponse (JObject [] :: unit json)"
    by (simp add: isMarketAnalysisResponse_def isObjectWith_def has_def)
  have rc: "getPostingRecommendations parseExample (Some ''k'')
       (Inr \<lparr>response_text = Some ''{}'', candidates = None\<rparr>)
     = Inr None"
    by (simp add: getPostingRecommendations_def getApiKey_def e parseExample_def readMember_def)
  have nr: "\<not> isPostingRecommendations (None :: unit json option)"
    by (simp add: isPostingRecommendations_def)
  have fe: "fetch (exampleBackend (Some ''https://v.example/1?alt=media'') True)
         ''https://v.example/1?alt=media&key=k''
       = Inr \<lparr>ok = True, blob = Inr ''payload''\<rparr>"
    and co: "createObjectURL (exampleBackend (Some ''https://v.example/1?alt=media'') True) ''payload''
       = ''blob:payload''"
    by (simp_all add: exampleBackend_def)
  have v: "generateVideo (Some ''k'') (exampleBackend (Some ''https://v.example/1?alt=media'') True)
         ''img'' ''image/png'' ''zoom out'' Ratio_9_16
       = Some (Inr ''blob:payload'',
           [GenerateVideos (videoRequest ''img'' ''image/png'' ''zoom out'' Ratio_9_16),
            Wait 10000, GetVideosOperation pendingOperation,
            Wait 10000, GetVideosOperation pendingOperation,
            Wait 10000, GetVideosOperation pendingOperation,
            Fetch ''https://v.example/1?alt=media&key=k''])"
    by (simp add: generateVideo_def getApiKey_def exampleBackend_def pollLoop.simps isDone_def
        pendingOperation_def completedOperation_def finishVideo_def downloadLink_def)
  show ?thesis
    apply (intro conjI)
    apply (rule g d p a na rc nr fe co v)+
    done
qed

end
